theory Spec2Isabelle
  imports Complex_Main
begin

section \<open>Conventions\<close>

text \<open>
  The development embeds the IELTS scoring service: the feedback tables and the
  prediction functions of \<^verbatim>\<open>app.py\<close>, \<^verbatim>\<open>services/writing_service.py\<close> and
  \<^verbatim>\<open>services/speaking_service.py\<close>, and the transcription pipeline of
  \<^verbatim>\<open>services/speech_service.py\<close>.

  \<^item> A Python \<^verbatim>\<open>float\<close> is a \<open>real\<close>. The code only compares floats with each other and
    with constants, which is exact on floats; NaN is left out. The arithmetic of the
    transcription confidence and of the duration is taken over the reals.
  \<^item> A Python \<^verbatim>\<open>str\<close> that the code inspects (file names, transcripts) is a \<open>string\<close>,
    one \<open>char\<close> for one character of code point below 256.
  \<^item> A feedback text is the UTF-8 encoding of the source's string literal, byte for
    byte (type \<open>utf8\<close>): the encoding is injective, so two encodings are equal exactly
    when the literals are.
  \<^item> A Python \<^verbatim>\<open>dict\<close> literal is an association list in the order of the source;
    \<open>dict_eq\<close> is the equality of dicts, which ignores the order.
\<close>

type_synonym utf8 = string

type_synonym feedback = "(string \<times> utf8) list"

definition dict_eq :: "('k \<times> 'v) list \<Rightarrow> ('k \<times> 'v) list \<Rightarrow> bool" where
  "dict_eq d1 d2 \<longleftrightarrow> map_of d1 = map_of d2"

section \<open>Feedback tables\<close>

subsection \<open>The dict literals of \<^verbatim>\<open>build_writing_feedback\<close> in \<^verbatim>\<open>app.py\<close>\<close>

definition app_writing_bundle_0 :: feedback where
  \<comment> \<open>the dict returned at app.py:320\<close>
  "app_writing_bundle_0 =
    [(''task_response'',
      ''B'' @ [CHR 0xC3, CHR 0xA0] @ ''i vi'' @ [CHR 0xE1, CHR 0xBA, CHR 0xBF] @ ''t ch'' @
      [CHR 0xC6, CHR 0xB0] @ ''a tr'' @ [CHR 0xE1, CHR 0xBA, CHR 0xA3] @ '' l'' @
      [CHR 0xE1, CHR 0xBB, CHR 0x9D] @ ''i '' @
      [CHR 0xC4, CHR 0x91, CHR 0xE1, CHR 0xBA, CHR 0xA7] @ ''y '' @
      [CHR 0xC4, CHR 0x91, CHR 0xE1, CHR 0xBB, CHR 0xA7] @ '' y'' @ [CHR 0xC3, CHR 0xAA] @
      ''u c'' @ [CHR 0xE1, CHR 0xBA, CHR 0xA7] @ ''u '' @
      [CHR 0xC4, CHR 0x91, CHR 0xE1, CHR 0xBB, CHR 0x81] @ '' b'' @ [CHR 0xC3, CHR 0xA0] @
      ''i. H'' @ [CHR 0xC3, CHR 0xA3] @ ''y t'' @ [CHR 0xE1, CHR 0xBA, CHR 0xAD] @
      ''p trung hi'' @ [CHR 0xE1, CHR 0xBB, CHR 0x83] @ ''u r'' @ [CHR 0xC3, CHR 0xB5] @
      '' c'' @ [CHR 0xC3, CHR 0xA2] @ ''u h'' @ [CHR 0xE1, CHR 0xBB, CHR 0x8F] @ ''i v'' @
      [CHR 0xC3, CHR 0xA0] @ '' '' @ [CHR 0xC4, CHR 0x91, CHR 0xC6, CHR 0xB0] @ ''a ra c'' @
      [CHR 0xC3, CHR 0xA1] @ ''c '' @ [CHR 0xC3, CHR 0xBD] @ '' ch'' @ [CHR 0xC3, CHR 0xAD] @
      ''nh li'' @ [CHR 0xC3, CHR 0xAA] @ ''n quan.''),
     (''coherence_cohesion'',
      ''C'' @ [CHR 0xE1, CHR 0xBA, CHR 0xA5] @ ''u tr'' @ [CHR 0xC3, CHR 0xBA] @ ''c b'' @
      [CHR 0xC3, CHR 0xA0] @ ''i c'' @ [CHR 0xE1, CHR 0xBA, CHR 0xA7] @ ''n c'' @
      [CHR 0xE1, CHR 0xBA, CHR 0xA3] @ ''i thi'' @ [CHR 0xE1, CHR 0xBB, CHR 0x87] @ ''n. S'' @
      [CHR 0xE1, CHR 0xBB, CHR 0xAD] @ '' d'' @ [CHR 0xE1, CHR 0xBB, CHR 0xA5] @ ''ng c'' @
      [CHR 0xC3, CHR 0xA1] @ ''c '' @ [CHR 0xC4, CHR 0x91] @ ''o'' @
      [CHR 0xE1, CHR 0xBA, CHR 0xA1] @ ''n v'' @ [CHR 0xC4, CHR 0x83] @ ''n r'' @
      [CHR 0xC3, CHR 0xB5] @ '' r'' @ [CHR 0xC3, CHR 0xA0] @ ''ng v'' @
      [CHR 0xE1, CHR 0xBB, CHR 0x9B] @ ''i c'' @ [CHR 0xC3, CHR 0xA2] @ ''u ch'' @
      [CHR 0xE1, CHR 0xBB, CHR 0xA7] @ '' '' @
      [CHR 0xC4, CHR 0x91, CHR 0xE1, CHR 0xBB, CHR 0x81] @ '' v'' @ [CHR 0xC3, CHR 0xA0] @
      '' t'' @ [CHR 0xE1, CHR 0xBB, CHR 0xAB] @ '' n'' @ [CHR 0xE1, CHR 0xBB, CHR 0x91] @ ''i.''),
     (''vocabulary'',
      ''V'' @ [CHR 0xE1, CHR 0xBB, CHR 0x91] @ ''n t'' @ [CHR 0xE1, CHR 0xBB, CHR 0xAB] @
      '' v'' @ [CHR 0xE1, CHR 0xBB, CHR 0xB1] @ ''ng c'' @ [CHR 0xC3, CHR 0xB2] @ ''n h'' @
      [CHR 0xE1, CHR 0xBA, CHR 0xA1] @ ''n ch'' @ [CHR 0xE1, CHR 0xBA, CHR 0xBF] @ ''. C'' @
      [CHR 0xE1, CHR 0xBA, CHR 0xA7] @ ''n h'' @ [CHR 0xE1, CHR 0xBB, CHR 0x8D] @ ''c th'' @
      [CHR 0xC3, CHR 0xAA] @ ''m t'' @ [CHR 0xE1, CHR 0xBB, CHR 0xAB] @ '' v'' @
      [CHR 0xE1, CHR 0xBB, CHR 0xB1] @ ''ng theo ch'' @ [CHR 0xE1, CHR 0xBB, CHR 0xA7] @ '' '' @
      [CHR 0xC4, CHR 0x91, CHR 0xE1, CHR 0xBB, CHR 0x81] @ '' v'' @ [CHR 0xC3, CHR 0xA0] @
      '' c'' @ [CHR 0xC3, CHR 0xA1] @ ''c c'' @ [CHR 0xE1, CHR 0xBB, CHR 0xA5] @ ''m t'' @
      [CHR 0xE1, CHR 0xBB, CHR 0xAB] @ '' c'' @ [CHR 0xE1, CHR 0xBB, CHR 0x91] @ '' '' @
      [CHR 0xC4, CHR 0x91, CHR 0xE1, CHR 0xBB, CHR 0x8B] @ ''nh (collocations).''),
     (''grammar'',
      ''Nhi'' @ [CHR 0xE1, CHR 0xBB, CHR 0x81] @ ''u l'' @ [CHR 0xE1, CHR 0xBB, CHR 0x97] @
      ''i ng'' @ [CHR 0xE1, CHR 0xBB, CHR 0xAF] @ '' ph'' @ [CHR 0xC3, CHR 0xA1] @ ''p '' @
      [CHR 0xE1, CHR 0xBA, CHR 0xA3] @ ''nh h'' @
      [CHR 0xC6, CHR 0xB0, CHR 0xE1, CHR 0xBB, CHR 0x9F] @ ''ng '' @
      [CHR 0xC4, CHR 0x91, CHR 0xE1, CHR 0xBA, CHR 0xBF] @ ''n '' @ [CHR 0xC3, CHR 0xBD] @
      '' ngh'' @ [CHR 0xC4, CHR 0xA9] @ ''a. C'' @ [CHR 0xE1, CHR 0xBA, CHR 0xA7] @ ''n luy'' @
      [CHR 0xE1, CHR 0xBB, CHR 0x87] @ ''n t'' @ [CHR 0xE1, CHR 0xBA, CHR 0xAD] @ ''p c'' @
      [CHR 0xC3, CHR 0xA1] @ ''c c'' @ [CHR 0xE1, CHR 0xBA, CHR 0xA5] @ ''u tr'' @
      [CHR 0xC3, CHR 0xBA] @ ''c c'' @ [CHR 0xC3, CHR 0xA2] @ ''u c'' @ [CHR 0xC6, CHR 0xA1] @
      '' b'' @ [CHR 0xE1, CHR 0xBA, CHR 0xA3] @ ''n v'' @ [CHR 0xC3, CHR 0xA0] @ '' c'' @
      [CHR 0xC3, CHR 0xA1] @ ''c th'' @ [CHR 0xC3, CHR 0xAC] @ '' ph'' @
      [CHR 0xE1, CHR 0xBB, CHR 0x95] @ '' bi'' @ [CHR 0xE1, CHR 0xBA, CHR 0xBF] @ ''n.'')]"

definition app_writing_bundle_1 :: feedback where
  \<comment> \<open>the dict returned at app.py:327\<close>
  "app_writing_bundle_1 =
    [(''task_response'',
      ''B'' @ [CHR 0xC3, CHR 0xA0] @ ''i vi'' @ [CHR 0xE1, CHR 0xBA, CHR 0xBF] @ ''t '' @
      [CHR 0xC4, CHR 0x91, CHR 0xC3, CHR 0xA3] @ '' '' @
      [CHR 0xC4, CHR 0x91, CHR 0xE1, CHR 0xBB, CHR 0x81] @ '' c'' @
      [CHR 0xE1, CHR 0xBA, CHR 0xAD] @ ''p '' @
      [CHR 0xC4, CHR 0x91, CHR 0xE1, CHR 0xBA, CHR 0xBF] @ ''n y'' @ [CHR 0xC3, CHR 0xAA] @
      ''u c'' @ [CHR 0xE1, CHR 0xBA, CHR 0xA7] @ ''u '' @
      [CHR 0xC4, CHR 0x91, CHR 0xE1, CHR 0xBB, CHR 0x81] @ '' nh'' @ [CHR 0xC6, CHR 0xB0] @
      ''ng ch'' @ [CHR 0xC6, CHR 0xB0] @ ''a '' @
      [CHR 0xC4, CHR 0x91, CHR 0xE1, CHR 0xBA, CHR 0xA7] @ ''y '' @
      [CHR 0xC4, CHR 0x91, CHR 0xE1, CHR 0xBB, CHR 0xA7] @ ''. H'' @ [CHR 0xC3, CHR 0xA3] @
      ''y m'' @ [CHR 0xE1, CHR 0xBB, CHR 0x9F] @ '' r'' @ [CHR 0xE1, CHR 0xBB, CHR 0x99] @
      ''ng '' @ [CHR 0xC3, CHR 0xBD] @ '' t'' @
      [CHR 0xC6, CHR 0xB0, CHR 0xE1, CHR 0xBB, CHR 0x9F] @ ''ng v'' @
      [CHR 0xE1, CHR 0xBB, CHR 0x9B] @ ''i c'' @ [CHR 0xC3, CHR 0xA1] @ ''c v'' @
      [CHR 0xC3, CHR 0xAD] @ '' d'' @ [CHR 0xE1, CHR 0xBB, CHR 0xA5] @ '' c'' @
      [CHR 0xE1, CHR 0xBB, CHR 0xA5] @ '' th'' @ [CHR 0xE1, CHR 0xBB, CHR 0x83] @ '' v'' @
      [CHR 0xC3, CHR 0xA0] @ '' chi ti'' @ [CHR 0xE1, CHR 0xBA, CHR 0xBF] @ ''t h'' @
      [CHR 0xC6, CHR 0xA1] @ ''n.''),
     (''coherence_cohesion'',
      ''C'' @ [CHR 0xE1, CHR 0xBA, CHR 0xA5] @ ''u tr'' @ [CHR 0xC3, CHR 0xBA] @ ''c b'' @
      [CHR 0xC3, CHR 0xA0] @ ''i c'' @ [CHR 0xE1, CHR 0xBA, CHR 0xA7] @ ''n c'' @
      [CHR 0xE1, CHR 0xBA, CHR 0xA3] @ ''i thi'' @ [CHR 0xE1, CHR 0xBB, CHR 0x87] @ ''n. M'' @
      [CHR 0xE1, CHR 0xBB, CHR 0x97] @ ''i '' @ [CHR 0xC4, CHR 0x91] @ ''o'' @
      [CHR 0xE1, CHR 0xBA, CHR 0xA1] @ ''n v'' @ [CHR 0xC4, CHR 0x83] @ ''n c'' @
      [CHR 0xE1, CHR 0xBA, CHR 0xA7] @ ''n c'' @ [CHR 0xC3, CHR 0xB3] @ '' c'' @
      [CHR 0xC3, CHR 0xA2] @ ''u ch'' @ [CHR 0xE1, CHR 0xBB, CHR 0xA7] @ '' '' @
      [CHR 0xC4, CHR 0x91, CHR 0xE1, CHR 0xBB, CHR 0x81] @ '' r'' @ [CHR 0xC3, CHR 0xB5] @
      '' r'' @ [CHR 0xC3, CHR 0xA0] @ ''ng v'' @ [CHR 0xC3, CHR 0xA0] @ '' c'' @
      [CHR 0xC3, CHR 0xA1] @ ''c c'' @ [CHR 0xC3, CHR 0xA2] @ ''u h'' @
      [CHR 0xE1, CHR 0xBB, CHR 0x97] @ '' tr'' @ [CHR 0xE1, CHR 0xBB, CHR 0xA3] @ ''. S'' @
      [CHR 0xE1, CHR 0xBB, CHR 0xAD] @ '' d'' @ [CHR 0xE1, CHR 0xBB, CHR 0xA5] @ ''ng '' @
      [CHR 0xC4, CHR 0x91] @ ''a d'' @ [CHR 0xE1, CHR 0xBA, CHR 0xA1] @ ''ng h'' @
      [CHR 0xC6, CHR 0xA1] @ ''n c'' @ [CHR 0xC3, CHR 0xA1] @ ''c t'' @
      [CHR 0xE1, CHR 0xBB, CHR 0xAB] @ '' n'' @ [CHR 0xE1, CHR 0xBB, CHR 0x91] @ ''i nh'' @
      [CHR 0xC6, CHR 0xB0] @ '' '' @ [CHR 0x27] @ ''furthermore'' @ [CHR 0x27] @ '', '' @
      [CHR 0x27] @ ''however'' @ [CHR 0x27] @ '', '' @ [CHR 0x27] @ ''consequently'' @
      [CHR 0x27] @ ''.''),
     (''vocabulary'',
      ''V'' @ [CHR 0xE1, CHR 0xBB, CHR 0x91] @ ''n t'' @ [CHR 0xE1, CHR 0xBB, CHR 0xAB] @
      '' c'' @ [CHR 0xC6, CHR 0xA1] @ '' b'' @ [CHR 0xE1, CHR 0xBA, CHR 0xA3] @ ''n, c'' @
      [CHR 0xC3, CHR 0xB3] @ '' xu h'' @ [CHR 0xC6, CHR 0xB0, CHR 0xE1, CHR 0xBB, CHR 0x9B] @
      ''ng l'' @ [CHR 0xE1, CHR 0xBA, CHR 0xB7] @ ''p l'' @ [CHR 0xE1, CHR 0xBA, CHR 0xA1] @
      ''i. H'' @ [CHR 0xC3, CHR 0xA3] @ ''y h'' @ [CHR 0xE1, CHR 0xBB, CHR 0x8D] @ ''c th'' @
      [CHR 0xC3, CHR 0xAA] @ ''m synonyms v'' @ [CHR 0xC3, CHR 0xA0] @ '' c'' @
      [CHR 0xC3, CHR 0xA1] @ ''c c'' @ [CHR 0xE1, CHR 0xBB, CHR 0xA5] @ ''m t'' @
      [CHR 0xE1, CHR 0xBB, CHR 0xAB] @ '' h'' @ [CHR 0xE1, CHR 0xBB, CHR 0x8D] @ ''c thu'' @
      [CHR 0xE1, CHR 0xBA, CHR 0xAD] @ ''t nh'' @ [CHR 0xC6, CHR 0xB0] @ '' '' @ [CHR 0x27] @
      ''it is widely believed that'' @ [CHR 0x27] @ '', '' @ [CHR 0x27] @
      ''there is a growing concern about'' @ [CHR 0x27] @ ''.''),
     (''grammar'',
      ''L'' @ [CHR 0xE1, CHR 0xBB, CHR 0x97] @ ''i ng'' @ [CHR 0xE1, CHR 0xBB, CHR 0xAF] @
      '' ph'' @ [CHR 0xC3, CHR 0xA1] @ ''p xu'' @ [CHR 0xE1, CHR 0xBA, CHR 0xA5] @ ''t hi'' @
      [CHR 0xE1, CHR 0xBB, CHR 0x87] @ ''n kh'' @ [CHR 0xC3, CHR 0xA1] @ '' th'' @
      [CHR 0xC6, CHR 0xB0, CHR 0xE1, CHR 0xBB, CHR 0x9D] @ ''ng xuy'' @ [CHR 0xC3, CHR 0xAA] @
      ''n. C'' @ [CHR 0xE1, CHR 0xBA, CHR 0xA7] @ ''n ch'' @ [CHR 0xC3, CHR 0xBA] @ '' '' @
      [CHR 0xC3, CHR 0xBD] @ '' '' @ [CHR 0xC4, CHR 0x91, CHR 0xE1, CHR 0xBA, CHR 0xBF] @
      ''n subject-verb agreement, article usage, v'' @ [CHR 0xC3, CHR 0xA0] @ '' c'' @
      [CHR 0xC3, CHR 0xA1] @ ''c th'' @ [CHR 0xC3, CHR 0xAC] @ '' '' @
      [CHR 0xC4, CHR 0x91, CHR 0xE1, CHR 0xBB, CHR 0x99] @ ''ng t'' @
      [CHR 0xE1, CHR 0xBB, CHR 0xAB] @ ''.'')]"

definition app_writing_bundle_2 :: feedback where
  \<comment> \<open>the dict returned at app.py:334\<close>
  "app_writing_bundle_2 =
    [(''task_response'',
      ''B'' @ [CHR 0xE1, CHR 0xBA, CHR 0xA1] @ ''n '' @
      [CHR 0xC4, CHR 0x91, CHR 0xC3, CHR 0xA3] @ '' tr'' @ [CHR 0xE1, CHR 0xBA, CHR 0xA3] @
      '' l'' @ [CHR 0xE1, CHR 0xBB, CHR 0x9D] @ ''i '' @
      [CHR 0xC4, CHR 0x91, CHR 0xC6, CHR 0xB0, CHR 0xE1, CHR 0xBB, CHR 0xA3] @ ''c y'' @
      [CHR 0xC3, CHR 0xAA] @ ''u c'' @ [CHR 0xE1, CHR 0xBA, CHR 0xA7] @ ''u '' @
      [CHR 0xC4, CHR 0x91, CHR 0xE1, CHR 0xBB, CHR 0x81] @ '' b'' @ [CHR 0xC3, CHR 0xA0] @
      ''i nh'' @ [CHR 0xC6, CHR 0xB0] @ ''ng m'' @ [CHR 0xE1, CHR 0xBB, CHR 0x99] @ ''t s'' @
      [CHR 0xE1, CHR 0xBB, CHR 0x91] @ '' '' @ [CHR 0xC4, CHR 0x91] @ ''i'' @
      [CHR 0xE1, CHR 0xBB, CHR 0x83] @ ''m c'' @ [CHR 0xC3, CHR 0xB3] @ '' th'' @
      [CHR 0xE1, CHR 0xBB, CHR 0x83] @ '' ph'' @ [CHR 0xC3, CHR 0xA1] @ ''t tri'' @
      [CHR 0xE1, CHR 0xBB, CHR 0x83] @ ''n th'' @ [CHR 0xC3, CHR 0xAA] @ ''m v'' @
      [CHR 0xE1, CHR 0xBB, CHR 0x9B] @ ''i v'' @ [CHR 0xC3, CHR 0xAD] @ '' d'' @
      [CHR 0xE1, CHR 0xBB, CHR 0xA5] @ '' c'' @ [CHR 0xE1, CHR 0xBB, CHR 0xA5] @ '' th'' @
      [CHR 0xE1, CHR 0xBB, CHR 0x83] @ '' h'' @ [CHR 0xC6, CHR 0xA1] @ ''n.''),
     (''coherence_cohesion'',
      ''B'' @ [CHR 0xC3, CHR 0xA0] @ ''i vi'' @ [CHR 0xE1, CHR 0xBA, CHR 0xBF] @ ''t c'' @
      [CHR 0xC3, CHR 0xB3] @ '' t'' @ [CHR 0xE1, CHR 0xBB, CHR 0x95] @ '' ch'' @
      [CHR 0xE1, CHR 0xBB, CHR 0xA9] @ ''c h'' @ [CHR 0xE1, CHR 0xBB, CHR 0xA3] @ ''p l'' @
      [CHR 0xC3, CHR 0xBD] @ '' nh'' @ [CHR 0xC6, CHR 0xB0] @ ''ng c'' @ [CHR 0xC3, CHR 0xB3] @
      '' th'' @ [CHR 0xE1, CHR 0xBB, CHR 0x83] @ '' c'' @ [CHR 0xE1, CHR 0xBA, CHR 0xA3] @
      ''i thi'' @ [CHR 0xE1, CHR 0xBB, CHR 0x87] @ ''n c'' @ [CHR 0xC3, CHR 0xA1] @
      ''ch chia '' @ [CHR 0xC4, CHR 0x91] @ ''o'' @ [CHR 0xE1, CHR 0xBA, CHR 0xA1] @ ''n. S'' @
      [CHR 0xE1, CHR 0xBB, CHR 0xAD] @ '' d'' @ [CHR 0xE1, CHR 0xBB, CHR 0xA5] @ ''ng '' @
      [CHR 0xC4, CHR 0x91] @ ''a d'' @ [CHR 0xE1, CHR 0xBA, CHR 0xA1] @ ''ng h'' @
      [CHR 0xC6, CHR 0xA1] @ ''n c'' @ [CHR 0xC3, CHR 0xA1] @ ''c t'' @
      [CHR 0xE1, CHR 0xBB, CHR 0xAB] @ '' n'' @ [CHR 0xE1, CHR 0xBB, CHR 0x91] @ ''i v'' @
      [CHR 0xC3, CHR 0xA0] @ '' tr'' @ [CHR 0xC3, CHR 0xA1] @ ''nh l'' @
      [CHR 0xE1, CHR 0xBA, CHR 0xB7] @ ''p l'' @ [CHR 0xE1, CHR 0xBA, CHR 0xA1] @ ''i '' @
      [CHR 0x27] @ ''firstly, secondly, thirdly'' @ [CHR 0x27] @ ''.''),
     (''vocabulary'',
      ''V'' @ [CHR 0xE1, CHR 0xBB, CHR 0x91] @ ''n t'' @ [CHR 0xE1, CHR 0xBB, CHR 0xAB] @
      '' '' @ [CHR 0xC4, CHR 0x91, CHR 0xE1, CHR 0xBB, CHR 0xA7] @ '' d'' @
      [CHR 0xC3, CHR 0xB9] @ ''ng cho b'' @ [CHR 0xC3, CHR 0xA0] @ ''i vi'' @
      [CHR 0xE1, CHR 0xBA, CHR 0xBF] @ ''t. H'' @ [CHR 0xC3, CHR 0xA3] @ ''y th'' @
      [CHR 0xE1, CHR 0xBB, CHR 0xAD] @ '' d'' @ [CHR 0xC3, CHR 0xB9] @ ''ng t'' @
      [CHR 0xE1, CHR 0xBB, CHR 0xAB] @ '' ng'' @ [CHR 0xE1, CHR 0xBB, CHR 0xAF] @ '' ph'' @
      [CHR 0xE1, CHR 0xBB, CHR 0xA9] @ ''c t'' @ [CHR 0xE1, CHR 0xBA, CHR 0xA1] @ ''p h'' @
      [CHR 0xC6, CHR 0xA1] @ ''n nh'' @ [CHR 0xC6, CHR 0xB0] @ '' collocations v'' @
      [CHR 0xC3, CHR 0xA0] @ '' idiomatic expressions.''),
     (''grammar'',
      ''Ng'' @ [CHR 0xE1, CHR 0xBB, CHR 0xAF] @ '' ph'' @ [CHR 0xC3, CHR 0xA1] @ ''p kh'' @
      [CHR 0xC3, CHR 0xA1] @ '' t'' @ [CHR 0xE1, CHR 0xBB, CHR 0x91] @ ''t v'' @
      [CHR 0xE1, CHR 0xBB, CHR 0x9B] @ ''i m'' @ [CHR 0xE1, CHR 0xBB, CHR 0x99] @ ''t s'' @
      [CHR 0xE1, CHR 0xBB, CHR 0x91] @ '' l'' @ [CHR 0xE1, CHR 0xBB, CHR 0x97] @ ''i nh'' @
      [CHR 0xE1, CHR 0xBB, CHR 0x8F] @ ''. C'' @ [CHR 0xE1, CHR 0xBA, CHR 0xA7] @ ''n luy'' @
      [CHR 0xE1, CHR 0xBB, CHR 0x87] @ ''n th'' @ [CHR 0xC3, CHR 0xAA] @ ''m c'' @
      [CHR 0xC3, CHR 0xA1] @ ''c c'' @ [CHR 0xE1, CHR 0xBA, CHR 0xA5] @ ''u tr'' @
      [CHR 0xC3, CHR 0xBA] @ ''c c'' @ [CHR 0xC3, CHR 0xA2] @ ''u ph'' @
      [CHR 0xE1, CHR 0xBB, CHR 0xA9] @ ''c t'' @ [CHR 0xE1, CHR 0xBA, CHR 0xA1] @ ''p nh'' @
      [CHR 0xC6, CHR 0xB0] @ '' relative clauses, conditionals, v'' @ [CHR 0xC3, CHR 0xA0] @
      '' passive voice.'')]"

definition app_writing_bundle_3 :: feedback where
  \<comment> \<open>the dict returned at app.py:341\<close>
  "app_writing_bundle_3 =
    [(''task_response'',
      ''B'' @ [CHR 0xC3, CHR 0xA0] @ ''i vi'' @ [CHR 0xE1, CHR 0xBA, CHR 0xBF] @ ''t ph'' @
      [CHR 0xC3, CHR 0xA1] @ ''t tri'' @ [CHR 0xE1, CHR 0xBB, CHR 0x83] @ ''n t'' @
      [CHR 0xE1, CHR 0xBB, CHR 0x91] @ ''t v'' @ [CHR 0xE1, CHR 0xBB, CHR 0x9B] @ ''i quan '' @
      [CHR 0xC4, CHR 0x91] @ ''i'' @ [CHR 0xE1, CHR 0xBB, CHR 0x83] @ ''m r'' @
      [CHR 0xC3, CHR 0xB5] @ '' r'' @ [CHR 0xC3, CHR 0xA0] @ ''ng v'' @ [CHR 0xC3, CHR 0xA0] @
      '' c'' @ [CHR 0xC3, CHR 0xA1] @ ''c '' @ [CHR 0xC3, CHR 0xBD] @ '' t'' @
      [CHR 0xC6, CHR 0xB0, CHR 0xE1, CHR 0xBB, CHR 0x9F] @ ''ng m'' @
      [CHR 0xE1, CHR 0xBB, CHR 0x9F] @ '' r'' @ [CHR 0xE1, CHR 0xBB, CHR 0x99] @ ''ng, li'' @
      [CHR 0xC3, CHR 0xAA] @ ''n quan. '' @ [CHR 0xC4, CHR 0x90, CHR 0xE1, CHR 0xBB, CHR 0x83] @
      '' '' @ [CHR 0xC4, CHR 0x91, CHR 0xE1, CHR 0xBA, CHR 0xA1] @ ''t band cao h'' @
      [CHR 0xC6, CHR 0xA1] @ ''n, c'' @ [CHR 0xE1, CHR 0xBA, CHR 0xA7] @ ''n c'' @
      [CHR 0xC3, CHR 0xB3] @ '' ph'' @ [CHR 0xC3, CHR 0xA2] @ ''n t'' @ [CHR 0xC3, CHR 0xAD] @
      ''ch s'' @ [CHR 0xC3, CHR 0xA2] @ ''u s'' @ [CHR 0xE1, CHR 0xBA, CHR 0xAF] @ ''c h'' @
      [CHR 0xC6, CHR 0xA1] @ ''n.''),
     (''coherence_cohesion'',
      ''T'' @ [CHR 0xE1, CHR 0xBB, CHR 0x95] @ '' ch'' @ [CHR 0xE1, CHR 0xBB, CHR 0xA9] @
      ''c logic v'' @ [CHR 0xE1, CHR 0xBB, CHR 0x9B] @ ''i vi'' @
      [CHR 0xE1, CHR 0xBB, CHR 0x87] @ ''c s'' @ [CHR 0xE1, CHR 0xBB, CHR 0xAD] @ '' d'' @
      [CHR 0xE1, CHR 0xBB, CHR 0xA5] @ ''ng hi'' @ [CHR 0xE1, CHR 0xBB, CHR 0x87] @ ''u qu'' @
      [CHR 0xE1, CHR 0xBA, CHR 0xA3] @ '' c'' @ [CHR 0xC3, CHR 0xA1] @ ''c ph'' @
      [CHR 0xC6, CHR 0xB0, CHR 0xC6, CHR 0xA1] @ ''ng ti'' @ [CHR 0xE1, CHR 0xBB, CHR 0x87] @
      ''n li'' @ [CHR 0xC3, CHR 0xAA] @ ''n k'' @ [CHR 0xE1, CHR 0xBA, CHR 0xBF] @ ''t. C'' @
      [CHR 0xC3, CHR 0xB3] @ '' th'' @ [CHR 0xE1, CHR 0xBB, CHR 0x83] @ '' c'' @
      [CHR 0xE1, CHR 0xBA, CHR 0xA3] @ ''i thi'' @ [CHR 0xE1, CHR 0xBB, CHR 0x87] @ ''n b'' @
      [CHR 0xE1, CHR 0xBA, CHR 0xB1] @ ''ng c'' @ [CHR 0xC3, CHR 0xA1] @ ''ch s'' @
      [CHR 0xE1, CHR 0xBB, CHR 0xAD] @ '' d'' @ [CHR 0xE1, CHR 0xBB, CHR 0xA5] @
      ''ng referencing pronouns v'' @ [CHR 0xC3, CHR 0xA0] @ '' lexical cohesion.''),
     (''vocabulary'',
      ''V'' @ [CHR 0xE1, CHR 0xBB, CHR 0x91] @ ''n t'' @ [CHR 0xE1, CHR 0xBB, CHR 0xAB] @
      '' phong ph'' @ [CHR 0xC3, CHR 0xBA] @ '' v'' @ [CHR 0xC3, CHR 0xA0] @ '' '' @
      [CHR 0xC4, CHR 0x91] @ ''a d'' @ [CHR 0xE1, CHR 0xBA, CHR 0xA1] @ ''ng. Ti'' @
      [CHR 0xE1, CHR 0xBA, CHR 0xBF] @ ''p t'' @ [CHR 0xE1, CHR 0xBB, CHR 0xA5] @ ''c m'' @
      [CHR 0xE1, CHR 0xBB, CHR 0x9F] @ '' r'' @ [CHR 0xE1, CHR 0xBB, CHR 0x99] @
      ''ng academic vocabulary v'' @ [CHR 0xC3, CHR 0xA0] @ '' less common lexical items.''),
     (''grammar'',
      ''S'' @ [CHR 0xE1, CHR 0xBB, CHR 0xAD] @ '' d'' @ [CHR 0xE1, CHR 0xBB, CHR 0xA5] @
      ''ng '' @ [CHR 0xC4, CHR 0x91] @ ''a d'' @ [CHR 0xE1, CHR 0xBA, CHR 0xA1] @ ''ng c'' @
      [CHR 0xE1, CHR 0xBA, CHR 0xA5] @ ''u tr'' @ [CHR 0xC3, CHR 0xBA] @ ''c ng'' @
      [CHR 0xE1, CHR 0xBB, CHR 0xAF] @ '' ph'' @ [CHR 0xC3, CHR 0xA1] @ ''p v'' @
      [CHR 0xE1, CHR 0xBB, CHR 0x9B] @ ''i '' @
      [CHR 0xC4, CHR 0x91, CHR 0xE1, CHR 0xBB, CHR 0x99] @ '' ch'' @ [CHR 0xC3, CHR 0xAD] @
      ''nh x'' @ [CHR 0xC3, CHR 0xA1] @ ''c cao. C'' @ [CHR 0xC3, CHR 0xB3] @ '' th'' @
      [CHR 0xE1, CHR 0xBB, CHR 0x83] @ '' th'' @ [CHR 0xE1, CHR 0xBB, CHR 0xAD] @ '' th'' @
      [CHR 0xC3, CHR 0xAA] @ ''m inversions v'' @ [CHR 0xC3, CHR 0xA0] @ '' cleft sentences.'')]"

definition app_writing_bundle_4 :: feedback where
  \<comment> \<open>the dict returned at app.py:348\<close>
  "app_writing_bundle_4 =
    [(''task_response'',
      ''B'' @ [CHR 0xC3, CHR 0xA0] @ ''i vi'' @ [CHR 0xE1, CHR 0xBA, CHR 0xBF] @ ''t xu'' @
      [CHR 0xE1, CHR 0xBA, CHR 0xA5] @ ''t s'' @ [CHR 0xE1, CHR 0xBA, CHR 0xAF] @ ''c v'' @
      [CHR 0xE1, CHR 0xBB, CHR 0x9B] @ ''i ph'' @ [CHR 0xC3, CHR 0xA2] @ ''n t'' @
      [CHR 0xC3, CHR 0xAD] @ ''ch s'' @ [CHR 0xC3, CHR 0xA2] @ ''u s'' @
      [CHR 0xE1, CHR 0xBA, CHR 0xAF] @ ''c v'' @ [CHR 0xC3, CHR 0xA0] @ '' l'' @
      [CHR 0xE1, CHR 0xBA, CHR 0xAD] @ ''p lu'' @ [CHR 0xE1, CHR 0xBA, CHR 0xAD] @ ''n ch'' @
      [CHR 0xE1, CHR 0xBA, CHR 0xB7] @ ''t ch'' @ [CHR 0xE1, CHR 0xBA, CHR 0xBD] @ ''. '' @
      [CHR 0xC3, CHR 0x9D] @ '' t'' @ [CHR 0xC6, CHR 0xB0, CHR 0xE1, CHR 0xBB, CHR 0x9F] @
      ''ng '' @ [CHR 0xC4, CHR 0x91, CHR 0xC6, CHR 0xB0, CHR 0xE1, CHR 0xBB, CHR 0xA3] @
      ''c ph'' @ [CHR 0xC3, CHR 0xA1] @ ''t tri'' @ [CHR 0xE1, CHR 0xBB, CHR 0x83] @ ''n '' @
      [CHR 0xC4, CHR 0x91, CHR 0xE1, CHR 0xBA, CHR 0xA7] @ ''y '' @
      [CHR 0xC4, CHR 0x91, CHR 0xE1, CHR 0xBB, CHR 0xA7] @ '' v'' @ [CHR 0xC3, CHR 0xA0] @
      '' c'' @ [CHR 0xC3, CHR 0xB3] @ '' t'' @ [CHR 0xC3, CHR 0xAD] @ ''nh thuy'' @
      [CHR 0xE1, CHR 0xBA, CHR 0xBF] @ ''t ph'' @ [CHR 0xE1, CHR 0xBB, CHR 0xA5] @ ''c.''),
     (''coherence_cohesion'',
      ''T'' @ [CHR 0xE1, CHR 0xBB, CHR 0x95] @ '' ch'' @ [CHR 0xE1, CHR 0xBB, CHR 0xA9] @
      ''c ho'' @ [CHR 0xC3, CHR 0xA0] @ ''n h'' @ [CHR 0xE1, CHR 0xBA, CHR 0xA3] @ ''o v'' @
      [CHR 0xE1, CHR 0xBB, CHR 0x9B] @ ''i s'' @ [CHR 0xE1, CHR 0xBB, CHR 0xB1] @ '' chuy'' @
      [CHR 0xE1, CHR 0xBB, CHR 0x83] @ ''n ti'' @ [CHR 0xE1, CHR 0xBA, CHR 0xBF] @ ''p m'' @
      [CHR 0xC6, CHR 0xB0, CHR 0xE1, CHR 0xBB, CHR 0xA3] @ ''t m'' @ [CHR 0xC3, CHR 0xA0] @
      '' gi'' @ [CHR 0xE1, CHR 0xBB, CHR 0xAF] @ ''a c'' @ [CHR 0xC3, CHR 0xA1] @ ''c '' @
      [CHR 0xC3, CHR 0xBD] @ ''. S'' @ [CHR 0xE1, CHR 0xBB, CHR 0xAD] @ '' d'' @
      [CHR 0xE1, CHR 0xBB, CHR 0xA5] @ ''ng th'' @ [CHR 0xC3, CHR 0xA0] @ ''nh th'' @
      [CHR 0xE1, CHR 0xBA, CHR 0xA1] @ ''o c'' @ [CHR 0xC3, CHR 0xA1] @ ''c ph'' @
      [CHR 0xC6, CHR 0xB0, CHR 0xC6, CHR 0xA1] @ ''ng ti'' @ [CHR 0xE1, CHR 0xBB, CHR 0x87] @
      ''n li'' @ [CHR 0xC3, CHR 0xAA] @ ''n k'' @ [CHR 0xE1, CHR 0xBA, CHR 0xBF] @ ''t.''),
     (''vocabulary'',
      ''V'' @ [CHR 0xE1, CHR 0xBB, CHR 0x91] @ ''n t'' @ [CHR 0xE1, CHR 0xBB, CHR 0xAB] @
      '' phong ph'' @ [CHR 0xC3, CHR 0xBA] @ '', ch'' @ [CHR 0xC3, CHR 0xAD] @ ''nh x'' @
      [CHR 0xC3, CHR 0xA1] @ ''c v'' @ [CHR 0xC3, CHR 0xA0] @ '' t'' @
      [CHR 0xE1, CHR 0xBB, CHR 0xB1] @ '' nhi'' @ [CHR 0xC3, CHR 0xAA] @ ''n. S'' @
      [CHR 0xE1, CHR 0xBB, CHR 0xAD] @ '' d'' @ [CHR 0xE1, CHR 0xBB, CHR 0xA5] @ ''ng th'' @
      [CHR 0xC3, CHR 0xA0] @ ''nh th'' @ [CHR 0xE1, CHR 0xBA, CHR 0xA1] @
      ''o idioms, collocations v'' @ [CHR 0xC3, CHR 0xA0] @ '' academic vocabulary.''),
     (''grammar'',
      ''S'' @ [CHR 0xE1, CHR 0xBB, CHR 0xAD] @ '' d'' @ [CHR 0xE1, CHR 0xBB, CHR 0xA5] @
      ''ng '' @ [CHR 0xC4, CHR 0x91] @ ''a d'' @ [CHR 0xE1, CHR 0xBA, CHR 0xA1] @ ''ng v'' @
      [CHR 0xC3, CHR 0xA0] @ '' linh ho'' @ [CHR 0xE1, CHR 0xBA, CHR 0xA1] @ ''t c'' @
      [CHR 0xC3, CHR 0xA1] @ ''c c'' @ [CHR 0xE1, CHR 0xBA, CHR 0xA5] @ ''u tr'' @
      [CHR 0xC3, CHR 0xBA] @ ''c ng'' @ [CHR 0xE1, CHR 0xBB, CHR 0xAF] @ '' ph'' @
      [CHR 0xC3, CHR 0xA1] @ ''p ph'' @ [CHR 0xE1, CHR 0xBB, CHR 0xA9] @ ''c t'' @
      [CHR 0xE1, CHR 0xBA, CHR 0xA1] @ ''p v'' @ [CHR 0xE1, CHR 0xBB, CHR 0x9B] @ ''i '' @
      [CHR 0xC4, CHR 0x91, CHR 0xE1, CHR 0xBB, CHR 0x99] @ '' ch'' @ [CHR 0xC3, CHR 0xAD] @
      ''nh x'' @ [CHR 0xC3, CHR 0xA1] @ ''c g'' @ [CHR 0xE1, CHR 0xBA, CHR 0xA7] @ ''n nh'' @
      [CHR 0xC6, CHR 0xB0] @ '' ho'' @ [CHR 0xC3, CHR 0xA0] @ ''n h'' @
      [CHR 0xE1, CHR 0xBA, CHR 0xA3] @ ''o.'')]"


subsection \<open>The dict literals of \<^verbatim>\<open>build_writing_feedback\<close> in \<^verbatim>\<open>services/writing_service.py\<close>\<close>

definition service_writing_bundle_0 :: feedback where
  \<comment> \<open>the dict returned at services/writing_service.py:111\<close>
  "service_writing_bundle_0 =
    [(''task_response'',
      ''B'' @ [CHR 0xC3, CHR 0xA0] @ ''i vi'' @ [CHR 0xE1, CHR 0xBA, CHR 0xBF] @ ''t ch'' @
      [CHR 0xC6, CHR 0xB0] @ ''a tr'' @ [CHR 0xE1, CHR 0xBA, CHR 0xA3] @ '' l'' @
      [CHR 0xE1, CHR 0xBB, CHR 0x9D] @ ''i '' @
      [CHR 0xC4, CHR 0x91, CHR 0xE1, CHR 0xBA, CHR 0xA7] @ ''y '' @
      [CHR 0xC4, CHR 0x91, CHR 0xE1, CHR 0xBB, CHR 0xA7] @ '' y'' @ [CHR 0xC3, CHR 0xAA] @
      ''u c'' @ [CHR 0xE1, CHR 0xBA, CHR 0xA7] @ ''u '' @
      [CHR 0xC4, CHR 0x91, CHR 0xE1, CHR 0xBB, CHR 0x81] @ '' b'' @ [CHR 0xC3, CHR 0xA0] @
      ''i. H'' @ [CHR 0xC3, CHR 0xA3] @ ''y t'' @ [CHR 0xE1, CHR 0xBA, CHR 0xAD] @
      ''p trung hi'' @ [CHR 0xE1, CHR 0xBB, CHR 0x83] @ ''u r'' @ [CHR 0xC3, CHR 0xB5] @
      '' c'' @ [CHR 0xC3, CHR 0xA2] @ ''u h'' @ [CHR 0xE1, CHR 0xBB, CHR 0x8F] @ ''i v'' @
      [CHR 0xC3, CHR 0xA0] @ '' '' @ [CHR 0xC4, CHR 0x91, CHR 0xC6, CHR 0xB0] @ ''a ra c'' @
      [CHR 0xC3, CHR 0xA1] @ ''c '' @ [CHR 0xC3, CHR 0xBD] @ '' ch'' @ [CHR 0xC3, CHR 0xAD] @
      ''nh li'' @ [CHR 0xC3, CHR 0xAA] @ ''n quan.''),
     (''coherence_cohesion'',
      ''C'' @ [CHR 0xE1, CHR 0xBA, CHR 0xA5] @ ''u tr'' @ [CHR 0xC3, CHR 0xBA] @ ''c b'' @
      [CHR 0xC3, CHR 0xA0] @ ''i c'' @ [CHR 0xE1, CHR 0xBA, CHR 0xA7] @ ''n c'' @
      [CHR 0xE1, CHR 0xBA, CHR 0xA3] @ ''i thi'' @ [CHR 0xE1, CHR 0xBB, CHR 0x87] @ ''n. S'' @
      [CHR 0xE1, CHR 0xBB, CHR 0xAD] @ '' d'' @ [CHR 0xE1, CHR 0xBB, CHR 0xA5] @ ''ng c'' @
      [CHR 0xC3, CHR 0xA1] @ ''c '' @ [CHR 0xC4, CHR 0x91] @ ''o'' @
      [CHR 0xE1, CHR 0xBA, CHR 0xA1] @ ''n v'' @ [CHR 0xC4, CHR 0x83] @ ''n r'' @
      [CHR 0xC3, CHR 0xB5] @ '' r'' @ [CHR 0xC3, CHR 0xA0] @ ''ng v'' @
      [CHR 0xE1, CHR 0xBB, CHR 0x9B] @ ''i c'' @ [CHR 0xC3, CHR 0xA2] @ ''u ch'' @
      [CHR 0xE1, CHR 0xBB, CHR 0xA7] @ '' '' @
      [CHR 0xC4, CHR 0x91, CHR 0xE1, CHR 0xBB, CHR 0x81] @ '' v'' @ [CHR 0xC3, CHR 0xA0] @
      '' t'' @ [CHR 0xE1, CHR 0xBB, CHR 0xAB] @ '' n'' @ [CHR 0xE1, CHR 0xBB, CHR 0x91] @ ''i.''),
     (''vocabulary'',
      ''V'' @ [CHR 0xE1, CHR 0xBB, CHR 0x91] @ ''n t'' @ [CHR 0xE1, CHR 0xBB, CHR 0xAB] @
      '' v'' @ [CHR 0xE1, CHR 0xBB, CHR 0xB1] @ ''ng c'' @ [CHR 0xC3, CHR 0xB2] @ ''n h'' @
      [CHR 0xE1, CHR 0xBA, CHR 0xA1] @ ''n ch'' @ [CHR 0xE1, CHR 0xBA, CHR 0xBF] @ ''. C'' @
      [CHR 0xE1, CHR 0xBA, CHR 0xA7] @ ''n h'' @ [CHR 0xE1, CHR 0xBB, CHR 0x8D] @ ''c th'' @
      [CHR 0xC3, CHR 0xAA] @ ''m t'' @ [CHR 0xE1, CHR 0xBB, CHR 0xAB] @ '' v'' @
      [CHR 0xE1, CHR 0xBB, CHR 0xB1] @ ''ng theo ch'' @ [CHR 0xE1, CHR 0xBB, CHR 0xA7] @ '' '' @
      [CHR 0xC4, CHR 0x91, CHR 0xE1, CHR 0xBB, CHR 0x81] @ '' v'' @ [CHR 0xC3, CHR 0xA0] @
      '' c'' @ [CHR 0xC3, CHR 0xA1] @ ''c c'' @ [CHR 0xE1, CHR 0xBB, CHR 0xA5] @ ''m t'' @
      [CHR 0xE1, CHR 0xBB, CHR 0xAB] @ '' c'' @ [CHR 0xE1, CHR 0xBB, CHR 0x91] @ '' '' @
      [CHR 0xC4, CHR 0x91, CHR 0xE1, CHR 0xBB, CHR 0x8B] @ ''nh (collocations).''),
     (''grammar'',
      ''Nhi'' @ [CHR 0xE1, CHR 0xBB, CHR 0x81] @ ''u l'' @ [CHR 0xE1, CHR 0xBB, CHR 0x97] @
      ''i ng'' @ [CHR 0xE1, CHR 0xBB, CHR 0xAF] @ '' ph'' @ [CHR 0xC3, CHR 0xA1] @ ''p '' @
      [CHR 0xE1, CHR 0xBA, CHR 0xA3] @ ''nh h'' @
      [CHR 0xC6, CHR 0xB0, CHR 0xE1, CHR 0xBB, CHR 0x9F] @ ''ng '' @
      [CHR 0xC4, CHR 0x91, CHR 0xE1, CHR 0xBA, CHR 0xBF] @ ''n '' @ [CHR 0xC3, CHR 0xBD] @
      '' ngh'' @ [CHR 0xC4, CHR 0xA9] @ ''a. C'' @ [CHR 0xE1, CHR 0xBA, CHR 0xA7] @ ''n luy'' @
      [CHR 0xE1, CHR 0xBB, CHR 0x87] @ ''n t'' @ [CHR 0xE1, CHR 0xBA, CHR 0xAD] @ ''p c'' @
      [CHR 0xC3, CHR 0xA1] @ ''c c'' @ [CHR 0xE1, CHR 0xBA, CHR 0xA5] @ ''u tr'' @
      [CHR 0xC3, CHR 0xBA] @ ''c c'' @ [CHR 0xC3, CHR 0xA2] @ ''u c'' @ [CHR 0xC6, CHR 0xA1] @
      '' b'' @ [CHR 0xE1, CHR 0xBA, CHR 0xA3] @ ''n v'' @ [CHR 0xC3, CHR 0xA0] @ '' c'' @
      [CHR 0xC3, CHR 0xA1] @ ''c th'' @ [CHR 0xC3, CHR 0xAC] @ '' ph'' @
      [CHR 0xE1, CHR 0xBB, CHR 0x95] @ '' bi'' @ [CHR 0xE1, CHR 0xBA, CHR 0xBF] @ ''n.''),
     (''level'',
      ''C'' @ [CHR 0xE1, CHR 0xBA, CHR 0xA7] @ ''n c'' @ [CHR 0xE1, CHR 0xBA, CHR 0xA3] @
      ''i thi'' @ [CHR 0xE1, CHR 0xBB, CHR 0x87] @ ''n nhi'' @ [CHR 0xE1, CHR 0xBB, CHR 0x81] @
      ''u''),
     (''suggestion'',
      ''T'' @ [CHR 0xE1, CHR 0xBA, CHR 0xAD] @ ''p trung v'' @ [CHR 0xC3, CHR 0xA0] @ ''o vi'' @
      [CHR 0xE1, CHR 0xBB, CHR 0x87] @ ''c hi'' @ [CHR 0xE1, CHR 0xBB, CHR 0x83] @ ''u '' @
      [CHR 0xC4, CHR 0x91, CHR 0xE1, CHR 0xBB, CHR 0x81] @ '' b'' @ [CHR 0xC3, CHR 0xA0] @
      ''i, x'' @ [CHR 0xC3, CHR 0xA2] @ ''y d'' @ [CHR 0xE1, CHR 0xBB, CHR 0xB1] @ ''ng c'' @
      [CHR 0xE1, CHR 0xBA, CHR 0xA5] @ ''u tr'' @ [CHR 0xC3, CHR 0xBA] @ ''c b'' @
      [CHR 0xC3, CHR 0xA0] @ ''i vi'' @ [CHR 0xE1, CHR 0xBA, CHR 0xBF] @ ''t r'' @
      [CHR 0xC3, CHR 0xB5] @ '' r'' @ [CHR 0xC3, CHR 0xA0] @ ''ng, v'' @ [CHR 0xC3, CHR 0xA0] @
      '' luy'' @ [CHR 0xE1, CHR 0xBB, CHR 0x87] @ ''n t'' @ [CHR 0xE1, CHR 0xBA, CHR 0xAD] @
      ''p ng'' @ [CHR 0xE1, CHR 0xBB, CHR 0xAF] @ '' ph'' @ [CHR 0xC3, CHR 0xA1] @ ''p c'' @
      [CHR 0xC6, CHR 0xA1] @ '' b'' @ [CHR 0xE1, CHR 0xBA, CHR 0xA3] @ ''n.'')]"

definition service_writing_bundle_1 :: feedback where
  \<comment> \<open>the dict returned at services/writing_service.py:120\<close>
  "service_writing_bundle_1 =
    [(''task_response'',
      ''B'' @ [CHR 0xE1, CHR 0xBA, CHR 0xA1] @ ''n '' @
      [CHR 0xC4, CHR 0x91, CHR 0xC3, CHR 0xA3] @ '' tr'' @ [CHR 0xE1, CHR 0xBA, CHR 0xA3] @
      '' l'' @ [CHR 0xE1, CHR 0xBB, CHR 0x9D] @ ''i '' @
      [CHR 0xC4, CHR 0x91, CHR 0xC6, CHR 0xB0, CHR 0xE1, CHR 0xBB, CHR 0xA3] @ ''c y'' @
      [CHR 0xC3, CHR 0xAA] @ ''u c'' @ [CHR 0xE1, CHR 0xBA, CHR 0xA7] @ ''u c'' @
      [CHR 0xC6, CHR 0xA1] @ '' b'' @ [CHR 0xE1, CHR 0xBA, CHR 0xA3] @ ''n nh'' @
      [CHR 0xC6, CHR 0xB0] @ ''ng c'' @ [CHR 0xE1, CHR 0xBA, CHR 0xA7] @ ''n ph'' @
      [CHR 0xC3, CHR 0xA1] @ ''t tri'' @ [CHR 0xE1, CHR 0xBB, CHR 0x83] @ ''n '' @
      [CHR 0xC3, CHR 0xBD] @ '' t'' @ [CHR 0xC6, CHR 0xB0, CHR 0xE1, CHR 0xBB, CHR 0x9F] @
      ''ng s'' @ [CHR 0xC3, CHR 0xA2] @ ''u h'' @ [CHR 0xC6, CHR 0xA1] @ ''n v'' @
      [CHR 0xE1, CHR 0xBB, CHR 0x9B] @ ''i v'' @ [CHR 0xC3, CHR 0xAD] @ '' d'' @
      [CHR 0xE1, CHR 0xBB, CHR 0xA5] @ '' c'' @ [CHR 0xE1, CHR 0xBB, CHR 0xA5] @ '' th'' @
      [CHR 0xE1, CHR 0xBB, CHR 0x83] @ ''.''),
     (''coherence_cohesion'',
      ''B'' @ [CHR 0xC3, CHR 0xA0] @ ''i vi'' @ [CHR 0xE1, CHR 0xBA, CHR 0xBF] @ ''t c'' @
      [CHR 0xC3, CHR 0xB3] @ '' t'' @ [CHR 0xE1, CHR 0xBB, CHR 0x95] @ '' ch'' @
      [CHR 0xE1, CHR 0xBB, CHR 0xA9] @ ''c t'' @ [CHR 0xC6, CHR 0xB0, CHR 0xC6, CHR 0xA1] @
      ''ng '' @ [CHR 0xC4, CHR 0x91, CHR 0xE1, CHR 0xBB, CHR 0x91] @ ''i nh'' @
      [CHR 0xC6, CHR 0xB0] @ ''ng c'' @ [CHR 0xE1, CHR 0xBA, CHR 0xA7] @ ''n c'' @
      [CHR 0xE1, CHR 0xBA, CHR 0xA3] @ ''i thi'' @ [CHR 0xE1, CHR 0xBB, CHR 0x87] @ ''n c'' @
      [CHR 0xC3, CHR 0xA1] @ ''ch li'' @ [CHR 0xC3, CHR 0xAA] @ ''n k'' @
      [CHR 0xE1, CHR 0xBA, CHR 0xBF] @ ''t '' @ [CHR 0xC3, CHR 0xBD] @ ''. S'' @
      [CHR 0xE1, CHR 0xBB, CHR 0xAD] @ '' d'' @ [CHR 0xE1, CHR 0xBB, CHR 0xA5] @ ''ng '' @
      [CHR 0xC4, CHR 0x91] @ ''a d'' @ [CHR 0xE1, CHR 0xBA, CHR 0xA1] @ ''ng t'' @
      [CHR 0xE1, CHR 0xBB, CHR 0xAB] @ '' n'' @ [CHR 0xE1, CHR 0xBB, CHR 0x91] @ ''i h'' @
      [CHR 0xC6, CHR 0xA1] @ ''n.''),
     (''vocabulary'',
      ''V'' @ [CHR 0xE1, CHR 0xBB, CHR 0x91] @ ''n t'' @ [CHR 0xE1, CHR 0xBB, CHR 0xAB] @
      '' '' @ [CHR 0xC4, CHR 0x91, CHR 0xE1, CHR 0xBB, CHR 0xA7] @ '' d'' @
      [CHR 0xC3, CHR 0xB9] @ ''ng cho b'' @ [CHR 0xC3, CHR 0xA0] @ ''i vi'' @
      [CHR 0xE1, CHR 0xBA, CHR 0xBF] @ ''t. H'' @ [CHR 0xC3, CHR 0xA3] @ ''y th'' @
      [CHR 0xE1, CHR 0xBB, CHR 0xAD] @ '' d'' @ [CHR 0xC3, CHR 0xB9] @ ''ng t'' @
      [CHR 0xE1, CHR 0xBB, CHR 0xAB] @ '' ng'' @ [CHR 0xE1, CHR 0xBB, CHR 0xAF] @ '' '' @
      [CHR 0xC4, CHR 0x91] @ ''a d'' @ [CHR 0xE1, CHR 0xBA, CHR 0xA1] @ ''ng h'' @
      [CHR 0xC6, CHR 0xA1] @ ''n v'' @ [CHR 0xC3, CHR 0xA0] @ '' tr'' @ [CHR 0xC3, CHR 0xA1] @
      ''nh l'' @ [CHR 0xE1, CHR 0xBA, CHR 0xB7] @ ''p t'' @ [CHR 0xE1, CHR 0xBB, CHR 0xAB] @
      ''.''),
     (''grammar'',
      ''C'' @ [CHR 0xC3, CHR 0xB3] @ '' m'' @ [CHR 0xE1, CHR 0xBB, CHR 0x99] @ ''t s'' @
      [CHR 0xE1, CHR 0xBB, CHR 0x91] @ '' l'' @ [CHR 0xE1, CHR 0xBB, CHR 0x97] @ ''i ng'' @
      [CHR 0xE1, CHR 0xBB, CHR 0xAF] @ '' ph'' @ [CHR 0xC3, CHR 0xA1] @ ''p nh'' @
      [CHR 0xC6, CHR 0xB0] @ ''ng kh'' @ [CHR 0xC3, CHR 0xB4] @ ''ng '' @
      [CHR 0xE1, CHR 0xBA, CHR 0xA3] @ ''nh h'' @
      [CHR 0xC6, CHR 0xB0, CHR 0xE1, CHR 0xBB, CHR 0x9F] @ ''ng nhi'' @
      [CHR 0xE1, CHR 0xBB, CHR 0x81] @ ''u '' @
      [CHR 0xC4, CHR 0x91, CHR 0xE1, CHR 0xBA, CHR 0xBF] @ ''n '' @ [CHR 0xC3, CHR 0xBD] @
      '' ngh'' @ [CHR 0xC4, CHR 0xA9] @ ''a. C'' @ [CHR 0xE1, CHR 0xBA, CHR 0xA7] @ ''n luy'' @
      [CHR 0xE1, CHR 0xBB, CHR 0x87] @ ''n th'' @ [CHR 0xC3, CHR 0xAA] @ ''m c'' @
      [CHR 0xC3, CHR 0xA2] @ ''u ph'' @ [CHR 0xE1, CHR 0xBB, CHR 0xA9] @ ''c.''),
     (''level'',
      [CHR 0xC4, CHR 0x90, CHR 0xE1, CHR 0xBA, CHR 0xA1] @ ''t y'' @ [CHR 0xC3, CHR 0xAA] @
      ''u c'' @ [CHR 0xE1, CHR 0xBA, CHR 0xA7] @ ''u c'' @ [CHR 0xC6, CHR 0xA1] @ '' b'' @
      [CHR 0xE1, CHR 0xBA, CHR 0xA3] @ ''n''),
     (''suggestion'',
      ''Ph'' @ [CHR 0xC3, CHR 0xA1] @ ''t tri'' @ [CHR 0xE1, CHR 0xBB, CHR 0x83] @ ''n '' @
      [CHR 0xC3, CHR 0xBD] @ '' t'' @ [CHR 0xC6, CHR 0xB0, CHR 0xE1, CHR 0xBB, CHR 0x9F] @
      ''ng chi ti'' @ [CHR 0xE1, CHR 0xBA, CHR 0xBF] @ ''t h'' @ [CHR 0xC6, CHR 0xA1] @
      ''n, h'' @ [CHR 0xE1, CHR 0xBB, CHR 0x8D] @ ''c th'' @ [CHR 0xC3, CHR 0xAA] @ ''m t'' @
      [CHR 0xE1, CHR 0xBB, CHR 0xAB] @ '' v'' @ [CHR 0xE1, CHR 0xBB, CHR 0xB1] @ ''ng h'' @
      [CHR 0xE1, CHR 0xBB, CHR 0x8D] @ ''c thu'' @ [CHR 0xE1, CHR 0xBA, CHR 0xAD] @ ''t, v'' @
      [CHR 0xC3, CHR 0xA0] @ '' '' @ [CHR 0xC4, CHR 0x91] @ ''a d'' @
      [CHR 0xE1, CHR 0xBA, CHR 0xA1] @ ''ng h'' @ [CHR 0xC3, CHR 0xB3] @ ''a c'' @
      [CHR 0xE1, CHR 0xBA, CHR 0xA5] @ ''u tr'' @ [CHR 0xC3, CHR 0xBA] @ ''c c'' @
      [CHR 0xC3, CHR 0xA2] @ ''u.'')]"

definition service_writing_bundle_2 :: feedback where
  \<comment> \<open>the dict returned at services/writing_service.py:129\<close>
  "service_writing_bundle_2 =
    [(''task_response'',
      ''B'' @ [CHR 0xC3, CHR 0xA0] @ ''i vi'' @ [CHR 0xE1, CHR 0xBA, CHR 0xBF] @ ''t tr'' @
      [CHR 0xE1, CHR 0xBA, CHR 0xA3] @ '' l'' @ [CHR 0xE1, CHR 0xBB, CHR 0x9D] @ ''i t'' @
      [CHR 0xE1, CHR 0xBB, CHR 0x91] @ ''t y'' @ [CHR 0xC3, CHR 0xAA] @ ''u c'' @
      [CHR 0xE1, CHR 0xBA, CHR 0xA7] @ ''u '' @
      [CHR 0xC4, CHR 0x91, CHR 0xE1, CHR 0xBB, CHR 0x81] @ '' b'' @ [CHR 0xC3, CHR 0xA0] @
      ''i v'' @ [CHR 0xE1, CHR 0xBB, CHR 0x9B] @ ''i c'' @ [CHR 0xC3, CHR 0xA1] @ ''c '' @
      [CHR 0xC3, CHR 0xBD] @ '' '' @
      [CHR 0xC4, CHR 0x91, CHR 0xC6, CHR 0xB0, CHR 0xE1, CHR 0xBB, CHR 0xA3] @ ''c ph'' @
      [CHR 0xC3, CHR 0xA1] @ ''t tri'' @ [CHR 0xE1, CHR 0xBB, CHR 0x83] @ ''n kh'' @
      [CHR 0xC3, CHR 0xA1] @ '' r'' @ [CHR 0xC3, CHR 0xB5] @ '' r'' @ [CHR 0xC3, CHR 0xA0] @
      ''ng.''),
     (''coherence_cohesion'',
      ''B'' @ [CHR 0xC3, CHR 0xA0] @ ''i vi'' @ [CHR 0xE1, CHR 0xBA, CHR 0xBF] @ ''t c'' @
      [CHR 0xC3, CHR 0xB3] @ '' logic t'' @ [CHR 0xE1, CHR 0xBB, CHR 0x91] @ ''t v'' @
      [CHR 0xE1, CHR 0xBB, CHR 0x9B] @ ''i vi'' @ [CHR 0xE1, CHR 0xBB, CHR 0x87] @ ''c s'' @
      [CHR 0xE1, CHR 0xBB, CHR 0xAD] @ '' d'' @ [CHR 0xE1, CHR 0xBB, CHR 0xA5] @ ''ng hi'' @
      [CHR 0xE1, CHR 0xBB, CHR 0x87] @ ''u qu'' @ [CHR 0xE1, CHR 0xBA, CHR 0xA3] @ '' c'' @
      [CHR 0xC3, CHR 0xA1] @ ''c ph'' @ [CHR 0xC6, CHR 0xB0, CHR 0xC6, CHR 0xA1] @ ''ng ti'' @
      [CHR 0xE1, CHR 0xBB, CHR 0x87] @ ''n li'' @ [CHR 0xC3, CHR 0xAA] @ ''n k'' @
      [CHR 0xE1, CHR 0xBA, CHR 0xBF] @ ''t.''),
     (''vocabulary'',
      ''V'' @ [CHR 0xE1, CHR 0xBB, CHR 0x91] @ ''n t'' @ [CHR 0xE1, CHR 0xBB, CHR 0xAB] @
      '' kh'' @ [CHR 0xC3, CHR 0xA1] @ '' phong ph'' @ [CHR 0xC3, CHR 0xBA] @ '', s'' @
      [CHR 0xE1, CHR 0xBB, CHR 0xAD] @ '' d'' @ [CHR 0xE1, CHR 0xBB, CHR 0xA5] @ ''ng '' @
      [CHR 0xC4, CHR 0x91, CHR 0xC6, CHR 0xB0, CHR 0xE1, CHR 0xBB, CHR 0xA3] @ ''c m'' @
      [CHR 0xE1, CHR 0xBB, CHR 0x99] @ ''t s'' @ [CHR 0xE1, CHR 0xBB, CHR 0x91] @ '' t'' @
      [CHR 0xE1, CHR 0xBB, CHR 0xAB] @ '' v'' @ [CHR 0xE1, CHR 0xBB, CHR 0xB1] @ ''ng h'' @
      [CHR 0xE1, CHR 0xBB, CHR 0x8D] @ ''c thu'' @ [CHR 0xE1, CHR 0xBA, CHR 0xAD] @ ''t v'' @
      [CHR 0xC3, CHR 0xA0] @ '' collocations.''),
     (''grammar'',
      ''Ng'' @ [CHR 0xE1, CHR 0xBB, CHR 0xAF] @ '' ph'' @ [CHR 0xC3, CHR 0xA1] @ ''p kh'' @
      [CHR 0xC3, CHR 0xA1] @ '' t'' @ [CHR 0xE1, CHR 0xBB, CHR 0x91] @ ''t v'' @
      [CHR 0xE1, CHR 0xBB, CHR 0x9B] @ ''i '' @ [CHR 0xC4, CHR 0x91] @ ''a d'' @
      [CHR 0xE1, CHR 0xBA, CHR 0xA1] @ ''ng c'' @ [CHR 0xE1, CHR 0xBA, CHR 0xA5] @ ''u tr'' @
      [CHR 0xC3, CHR 0xBA] @ ''c c'' @ [CHR 0xC3, CHR 0xA2] @ ''u. C'' @ [CHR 0xC3, CHR 0xB3] @
      '' m'' @ [CHR 0xE1, CHR 0xBB, CHR 0x99] @ ''t s'' @ [CHR 0xE1, CHR 0xBB, CHR 0x91] @
      '' l'' @ [CHR 0xE1, CHR 0xBB, CHR 0x97] @ ''i nh'' @ [CHR 0xE1, CHR 0xBB, CHR 0x8F] @
      '' kh'' @ [CHR 0xC3, CHR 0xB4] @ ''ng '' @ [CHR 0xC4, CHR 0x91, CHR 0xC3, CHR 0xA1] @
      ''ng k'' @ [CHR 0xE1, CHR 0xBB, CHR 0x83] @ ''.''),
     (''level'',
      ''Kh'' @ [CHR 0xC3, CHR 0xA1] @ '' t'' @ [CHR 0xE1, CHR 0xBB, CHR 0x91] @ ''t''),
     (''suggestion'',
      [CHR 0xC4, CHR 0x90, CHR 0xE1, CHR 0xBB, CHR 0x83] @ '' '' @
      [CHR 0xC4, CHR 0x91, CHR 0xE1, CHR 0xBA, CHR 0xA1] @ ''t band cao h'' @
      [CHR 0xC6, CHR 0xA1] @ ''n, c'' @ [CHR 0xE1, CHR 0xBA, CHR 0xA7] @ ''n s'' @
      [CHR 0xE1, CHR 0xBB, CHR 0xAD] @ '' d'' @ [CHR 0xE1, CHR 0xBB, CHR 0xA5] @ ''ng t'' @
      [CHR 0xE1, CHR 0xBB, CHR 0xAB] @ '' v'' @ [CHR 0xE1, CHR 0xBB, CHR 0xB1] @ ''ng tinh t'' @
      [CHR 0xE1, CHR 0xBA, CHR 0xBF] @ '' h'' @ [CHR 0xC6, CHR 0xA1] @ ''n v'' @
      [CHR 0xC3, CHR 0xA0] @ '' '' @ [CHR 0xC4, CHR 0x91] @ ''a d'' @
      [CHR 0xE1, CHR 0xBA, CHR 0xA1] @ ''ng c'' @ [CHR 0xE1, CHR 0xBA, CHR 0xA5] @ ''u tr'' @
      [CHR 0xC3, CHR 0xBA] @ ''c ng'' @ [CHR 0xE1, CHR 0xBB, CHR 0xAF] @ '' ph'' @
      [CHR 0xC3, CHR 0xA1] @ ''p ph'' @ [CHR 0xE1, CHR 0xBB, CHR 0xA9] @ ''c t'' @
      [CHR 0xE1, CHR 0xBA, CHR 0xA1] @ ''p.'')]"

definition service_writing_bundle_3 :: feedback where
  \<comment> \<open>the dict returned at services/writing_service.py:138\<close>
  "service_writing_bundle_3 =
    [(''task_response'',
      ''B'' @ [CHR 0xC3, CHR 0xA0] @ ''i vi'' @ [CHR 0xE1, CHR 0xBA, CHR 0xBF] @ ''t ph'' @
      [CHR 0xC3, CHR 0xA1] @ ''t tri'' @ [CHR 0xE1, CHR 0xBB, CHR 0x83] @ ''n t'' @
      [CHR 0xE1, CHR 0xBB, CHR 0x91] @ ''t v'' @ [CHR 0xE1, CHR 0xBB, CHR 0x9B] @ ''i quan '' @
      [CHR 0xC4, CHR 0x91] @ ''i'' @ [CHR 0xE1, CHR 0xBB, CHR 0x83] @ ''m r'' @
      [CHR 0xC3, CHR 0xB5] @ '' r'' @ [CHR 0xC3, CHR 0xA0] @ ''ng v'' @ [CHR 0xC3, CHR 0xA0] @
      '' c'' @ [CHR 0xC3, CHR 0xA1] @ ''c '' @ [CHR 0xC3, CHR 0xBD] @ '' t'' @
      [CHR 0xC6, CHR 0xB0, CHR 0xE1, CHR 0xBB, CHR 0x9F] @ ''ng m'' @
      [CHR 0xE1, CHR 0xBB, CHR 0x9F] @ '' r'' @ [CHR 0xE1, CHR 0xBB, CHR 0x99] @ ''ng, c'' @
      [CHR 0xC3, CHR 0xB3] @ '' chi'' @ [CHR 0xE1, CHR 0xBB, CHR 0x81] @ ''u s'' @
      [CHR 0xC3, CHR 0xA2] @ ''u.''),
     (''coherence_cohesion'',
      ''T'' @ [CHR 0xE1, CHR 0xBB, CHR 0x95] @ '' ch'' @ [CHR 0xE1, CHR 0xBB, CHR 0xA9] @
      ''c logic xu'' @ [CHR 0xE1, CHR 0xBA, CHR 0xA5] @ ''t s'' @
      [CHR 0xE1, CHR 0xBA, CHR 0xAF] @ ''c v'' @ [CHR 0xE1, CHR 0xBB, CHR 0x9B] @ ''i vi'' @
      [CHR 0xE1, CHR 0xBB, CHR 0x87] @ ''c s'' @ [CHR 0xE1, CHR 0xBB, CHR 0xAD] @ '' d'' @
      [CHR 0xE1, CHR 0xBB, CHR 0xA5] @ ''ng linh ho'' @ [CHR 0xE1, CHR 0xBA, CHR 0xA1] @
      ''t c'' @ [CHR 0xC3, CHR 0xA1] @ ''c ph'' @ [CHR 0xC6, CHR 0xB0, CHR 0xC6, CHR 0xA1] @
      ''ng ti'' @ [CHR 0xE1, CHR 0xBB, CHR 0x87] @ ''n li'' @ [CHR 0xC3, CHR 0xAA] @ ''n k'' @
      [CHR 0xE1, CHR 0xBA, CHR 0xBF] @ ''t.''),
     (''vocabulary'',
      ''V'' @ [CHR 0xE1, CHR 0xBB, CHR 0x91] @ ''n t'' @ [CHR 0xE1, CHR 0xBB, CHR 0xAB] @
      '' phong ph'' @ [CHR 0xC3, CHR 0xBA] @ '', s'' @ [CHR 0xE1, CHR 0xBB, CHR 0xAD] @ '' d'' @
      [CHR 0xE1, CHR 0xBB, CHR 0xA5] @ ''ng linh ho'' @ [CHR 0xE1, CHR 0xBA, CHR 0xA1] @
      ''t v'' @ [CHR 0xC3, CHR 0xA0] @ '' ch'' @ [CHR 0xC3, CHR 0xAD] @ ''nh x'' @
      [CHR 0xC3, CHR 0xA1] @ ''c c'' @ [CHR 0xC3, CHR 0xA1] @ ''c t'' @
      [CHR 0xE1, CHR 0xBB, CHR 0xAB] @ '' v'' @ [CHR 0xE1, CHR 0xBB, CHR 0xB1] @ ''ng h'' @
      [CHR 0xE1, CHR 0xBB, CHR 0x8D] @ ''c thu'' @ [CHR 0xE1, CHR 0xBA, CHR 0xAD] @ ''t.''),
     (''grammar'',
      ''S'' @ [CHR 0xE1, CHR 0xBB, CHR 0xAD] @ '' d'' @ [CHR 0xE1, CHR 0xBB, CHR 0xA5] @
      ''ng '' @ [CHR 0xC4, CHR 0x91] @ ''a d'' @ [CHR 0xE1, CHR 0xBA, CHR 0xA1] @ ''ng c'' @
      [CHR 0xE1, CHR 0xBA, CHR 0xA5] @ ''u tr'' @ [CHR 0xC3, CHR 0xBA] @ ''c ng'' @
      [CHR 0xE1, CHR 0xBB, CHR 0xAF] @ '' ph'' @ [CHR 0xC3, CHR 0xA1] @ ''p m'' @
      [CHR 0xE1, CHR 0xBB, CHR 0x99] @ ''t c'' @ [CHR 0xC3, CHR 0xA1] @ ''ch ch'' @
      [CHR 0xC3, CHR 0xAD] @ ''nh x'' @ [CHR 0xC3, CHR 0xA1] @ ''c v'' @ [CHR 0xC3, CHR 0xA0] @
      '' t'' @ [CHR 0xE1, CHR 0xBB, CHR 0xB1] @ '' nhi'' @ [CHR 0xC3, CHR 0xAA] @ ''n.''),
     (''level'',
      ''T'' @ [CHR 0xE1, CHR 0xBB, CHR 0x91] @ ''t''),
     (''suggestion'',
      ''B'' @ [CHR 0xC3, CHR 0xA0] @ ''i vi'' @ [CHR 0xE1, CHR 0xBA, CHR 0xBF] @ ''t '' @
      [CHR 0xC4, CHR 0x91, CHR 0xC3, CHR 0xA3] @ '' '' @ [CHR 0xE1, CHR 0xBB, CHR 0x9F] @
      '' m'' @ [CHR 0xE1, CHR 0xBB, CHR 0xA9] @ ''c cao. '' @
      [CHR 0xC4, CHR 0x90, CHR 0xE1, CHR 0xBB, CHR 0x83] @ '' ho'' @ [CHR 0xC3, CHR 0xA0] @
      ''n thi'' @ [CHR 0xE1, CHR 0xBB, CHR 0x87] @ ''n h'' @ [CHR 0xC6, CHR 0xA1] @ ''n, ch'' @
      [CHR 0xC3, CHR 0xBA] @ '' '' @ [CHR 0xC3, CHR 0xBD] @ '' '' @
      [CHR 0xC4, CHR 0x91, CHR 0xE1, CHR 0xBA, CHR 0xBF] @ ''n c'' @ [CHR 0xC3, CHR 0xA1] @
      ''c chi ti'' @ [CHR 0xE1, CHR 0xBA, CHR 0xBF] @ ''t nh'' @
      [CHR 0xE1, CHR 0xBB, CHR 0x8F] @ '' v'' @ [CHR 0xC3, CHR 0xA0] @ '' s'' @
      [CHR 0xE1, CHR 0xBB, CHR 0xB1] @ '' tinh t'' @ [CHR 0xE1, CHR 0xBA, CHR 0xBF] @
      '' trong di'' @ [CHR 0xE1, CHR 0xBB, CHR 0x85] @ ''n '' @
      [CHR 0xC4, CHR 0x91, CHR 0xE1, CHR 0xBA, CHR 0xA1] @ ''t.'')]"

definition service_writing_bundle_4 :: feedback where
  \<comment> \<open>the dict returned at services/writing_service.py:147\<close>
  "service_writing_bundle_4 =
    [(''task_response'',
      ''B'' @ [CHR 0xC3, CHR 0xA0] @ ''i vi'' @ [CHR 0xE1, CHR 0xBA, CHR 0xBF] @ ''t xu'' @
      [CHR 0xE1, CHR 0xBA, CHR 0xA5] @ ''t s'' @ [CHR 0xE1, CHR 0xBA, CHR 0xAF] @ ''c v'' @
      [CHR 0xE1, CHR 0xBB, CHR 0x9B] @ ''i ph'' @ [CHR 0xC3, CHR 0xA2] @ ''n t'' @
      [CHR 0xC3, CHR 0xAD] @ ''ch s'' @ [CHR 0xC3, CHR 0xA2] @ ''u s'' @
      [CHR 0xE1, CHR 0xBA, CHR 0xAF] @ ''c v'' @ [CHR 0xC3, CHR 0xA0] @ '' l'' @
      [CHR 0xE1, CHR 0xBA, CHR 0xAD] @ ''p lu'' @ [CHR 0xE1, CHR 0xBA, CHR 0xAD] @ ''n thuy'' @
      [CHR 0xE1, CHR 0xBA, CHR 0xBF] @ ''t ph'' @ [CHR 0xE1, CHR 0xBB, CHR 0xA5] @ ''c, '' @
      [CHR 0xC4, CHR 0x91, CHR 0xC3, CHR 0xA1] @ ''p '' @ [CHR 0xE1, CHR 0xBB, CHR 0xA9] @
      ''ng ho'' @ [CHR 0xC3, CHR 0xA0] @ ''n h'' @ [CHR 0xE1, CHR 0xBA, CHR 0xA3] @ ''o y'' @
      [CHR 0xC3, CHR 0xAA] @ ''u c'' @ [CHR 0xE1, CHR 0xBA, CHR 0xA7] @ ''u '' @
      [CHR 0xC4, CHR 0x91, CHR 0xE1, CHR 0xBB, CHR 0x81] @ ''.''),
     (''coherence_cohesion'',
      ''T'' @ [CHR 0xE1, CHR 0xBB, CHR 0x95] @ '' ch'' @ [CHR 0xE1, CHR 0xBB, CHR 0xA9] @
      ''c ho'' @ [CHR 0xC3, CHR 0xA0] @ ''n h'' @ [CHR 0xE1, CHR 0xBA, CHR 0xA3] @ ''o, m'' @
      [CHR 0xE1, CHR 0xBA, CHR 0xA1] @ ''ch l'' @ [CHR 0xE1, CHR 0xBA, CHR 0xA1] @ ''c t'' @
      [CHR 0xE1, CHR 0xBB, CHR 0xB1] @ '' nhi'' @ [CHR 0xC3, CHR 0xAA] @ ''n, c'' @
      [CHR 0xC3, CHR 0xA1] @ ''c '' @ [CHR 0xC3, CHR 0xBD] @ '' '' @
      [CHR 0xC4, CHR 0x91, CHR 0xC6, CHR 0xB0, CHR 0xE1, CHR 0xBB, CHR 0xA3] @ ''c li'' @
      [CHR 0xC3, CHR 0xAA] @ ''n k'' @ [CHR 0xE1, CHR 0xBA, CHR 0xBF] @ ''t m'' @
      [CHR 0xE1, CHR 0xBB, CHR 0x99] @ ''t c'' @ [CHR 0xC3, CHR 0xA1] @ ''ch tinh t'' @
      [CHR 0xE1, CHR 0xBA, CHR 0xBF] @ ''.''),
     (''vocabulary'',
      ''V'' @ [CHR 0xE1, CHR 0xBB, CHR 0x91] @ ''n t'' @ [CHR 0xE1, CHR 0xBB, CHR 0xAB] @
      '' phong ph'' @ [CHR 0xC3, CHR 0xBA] @ '' v'' @ [CHR 0xC3, CHR 0xA0] @ '' tinh t'' @
      [CHR 0xE1, CHR 0xBA, CHR 0xBF] @ '', s'' @ [CHR 0xE1, CHR 0xBB, CHR 0xAD] @ '' d'' @
      [CHR 0xE1, CHR 0xBB, CHR 0xA5] @ ''ng ch'' @ [CHR 0xC3, CHR 0xAD] @ ''nh x'' @
      [CHR 0xC3, CHR 0xA1] @ ''c c'' @ [CHR 0xC3, CHR 0xA1] @ ''c t'' @
      [CHR 0xE1, CHR 0xBB, CHR 0xAB] @ '' v'' @ [CHR 0xE1, CHR 0xBB, CHR 0xB1] @ ''ng h'' @
      [CHR 0xE1, CHR 0xBB, CHR 0x8D] @ ''c thu'' @ [CHR 0xE1, CHR 0xBA, CHR 0xAD] @ ''t v'' @
      [CHR 0xC3, CHR 0xA0] @ '' idiomatic expressions.''),
     (''grammar'',
      ''Ng'' @ [CHR 0xE1, CHR 0xBB, CHR 0xAF] @ '' ph'' @ [CHR 0xC3, CHR 0xA1] @ ''p ho'' @
      [CHR 0xC3, CHR 0xA0] @ ''n h'' @ [CHR 0xE1, CHR 0xBA, CHR 0xA3] @ ''o v'' @
      [CHR 0xE1, CHR 0xBB, CHR 0x9B] @ ''i '' @ [CHR 0xC4, CHR 0x91] @ ''a d'' @
      [CHR 0xE1, CHR 0xBA, CHR 0xA1] @ ''ng c'' @ [CHR 0xE1, CHR 0xBA, CHR 0xA5] @ ''u tr'' @
      [CHR 0xC3, CHR 0xBA] @ ''c ph'' @ [CHR 0xE1, CHR 0xBB, CHR 0xA9] @ ''c t'' @
      [CHR 0xE1, CHR 0xBA, CHR 0xA1] @ ''p, g'' @ [CHR 0xE1, CHR 0xBA, CHR 0xA7] @ ''n nh'' @
      [CHR 0xC6, CHR 0xB0] @ '' kh'' @ [CHR 0xC3, CHR 0xB4] @ ''ng c'' @ [CHR 0xC3, CHR 0xB3] @
      '' l'' @ [CHR 0xE1, CHR 0xBB, CHR 0x97] @ ''i.''),
     (''level'',
      ''Xu'' @ [CHR 0xE1, CHR 0xBA, CHR 0xA5] @ ''t s'' @ [CHR 0xE1, CHR 0xBA, CHR 0xAF] @ ''c''),
     (''suggestion'',
      ''B'' @ [CHR 0xC3, CHR 0xA0] @ ''i vi'' @ [CHR 0xE1, CHR 0xBA, CHR 0xBF] @ ''t '' @
      [CHR 0xC4, CHR 0x91, CHR 0xE1, CHR 0xBA, CHR 0xA1] @ ''t m'' @
      [CHR 0xE1, CHR 0xBB, CHR 0xA9] @ ''c '' @
      [CHR 0xC4, CHR 0x91, CHR 0xE1, CHR 0xBB, CHR 0x99] @ '' r'' @
      [CHR 0xE1, CHR 0xBA, CHR 0xA5] @ ''t cao. Ti'' @ [CHR 0xE1, CHR 0xBA, CHR 0xBF] @
      ''p t'' @ [CHR 0xE1, CHR 0xBB, CHR 0xA5] @ ''c duy tr'' @ [CHR 0xC3, CHR 0xAC] @ '' v'' @
      [CHR 0xC3, CHR 0xA0] @ '' ph'' @ [CHR 0xC3, CHR 0xA1] @ ''t tri'' @
      [CHR 0xE1, CHR 0xBB, CHR 0x83] @ ''n phong c'' @ [CHR 0xC3, CHR 0xA1] @ ''ch vi'' @
      [CHR 0xE1, CHR 0xBA, CHR 0xBF] @ ''t c'' @ [CHR 0xE1, CHR 0xBB, CHR 0xA7] @ ''a b'' @
      [CHR 0xE1, CHR 0xBA, CHR 0xA1] @ ''n.'')]"


subsection \<open>The dict literals of \<^verbatim>\<open>build_speaking_feedback\<close> in \<^verbatim>\<open>app.py\<close>\<close>

definition app_speaking_bundle_0 :: feedback where
  \<comment> \<open>the dict returned at app.py:359\<close>
  "app_speaking_bundle_0 =
    [(''fluency_coherence'',
      ''T'' @ [CHR 0xE1, CHR 0xBB, CHR 0x91] @ ''c '' @
      [CHR 0xC4, CHR 0x91, CHR 0xE1, CHR 0xBB, CHR 0x99] @ '' n'' @ [CHR 0xC3, CHR 0xB3] @
      ''i c'' @ [CHR 0xC3, CHR 0xB2] @ ''n ch'' @ [CHR 0xE1, CHR 0xBA, CHR 0xAD] @ ''m v'' @
      [CHR 0xE1, CHR 0xBB, CHR 0x9B] @ ''i nhi'' @ [CHR 0xE1, CHR 0xBB, CHR 0x81] @ ''u l'' @
      [CHR 0xE1, CHR 0xBA, CHR 0xA7] @ ''n d'' @ [CHR 0xE1, CHR 0xBB, CHR 0xAB] @ ''ng. H'' @
      [CHR 0xC3, CHR 0xA3] @ ''y luy'' @ [CHR 0xE1, CHR 0xBB, CHR 0x87] @ ''n n'' @
      [CHR 0xC3, CHR 0xB3] @ ''i li'' @ [CHR 0xC3, CHR 0xAA] @ ''n t'' @
      [CHR 0xE1, CHR 0xBB, CHR 0xA5] @ ''c h'' @ [CHR 0xC6, CHR 0xA1] @ ''n v'' @
      [CHR 0xE1, CHR 0xBB, CHR 0x81] @ '' c'' @ [CHR 0xC3, CHR 0xA1] @ ''c ch'' @
      [CHR 0xE1, CHR 0xBB, CHR 0xA7] @ '' '' @
      [CHR 0xC4, CHR 0x91, CHR 0xE1, CHR 0xBB, CHR 0x81] @ '' quen thu'' @
      [CHR 0xE1, CHR 0xBB, CHR 0x99] @ ''c.''),
     (''vocabulary'',
      ''V'' @ [CHR 0xE1, CHR 0xBB, CHR 0x91] @ ''n t'' @ [CHR 0xE1, CHR 0xBB, CHR 0xAB] @
      '' c'' @ [CHR 0xC3, CHR 0xB2] @ ''n h'' @ [CHR 0xE1, CHR 0xBA, CHR 0xA1] @ ''n ch'' @
      [CHR 0xE1, CHR 0xBA, CHR 0xBF] @ ''. C'' @ [CHR 0xE1, CHR 0xBA, CHR 0xA7] @ ''n h'' @
      [CHR 0xE1, CHR 0xBB, CHR 0x8D] @ ''c th'' @ [CHR 0xC3, CHR 0xAA] @ ''m c'' @
      [CHR 0xC3, CHR 0xA1] @ ''c c'' @ [CHR 0xE1, CHR 0xBB, CHR 0xA5] @ ''m di'' @
      [CHR 0xE1, CHR 0xBB, CHR 0x85] @ ''n '' @
      [CHR 0xC4, CHR 0x91, CHR 0xE1, CHR 0xBA, CHR 0xA1] @ ''t h'' @ [CHR 0xC3, CHR 0xA0] @
      ''ng ng'' @ [CHR 0xC3, CHR 0xA0] @ ''y v'' @ [CHR 0xC3, CHR 0xA0] @ '' t'' @
      [CHR 0xE1, CHR 0xBB, CHR 0xAB] @ '' v'' @ [CHR 0xE1, CHR 0xBB, CHR 0xB1] @
      ''ng theo ch'' @ [CHR 0xE1, CHR 0xBB, CHR 0xA7] @ '' '' @
      [CHR 0xC4, CHR 0x91, CHR 0xE1, CHR 0xBB, CHR 0x81] @ ''.''),
     (''grammar'',
      ''C'' @ [CHR 0xC3, CHR 0xB2] @ ''n nhi'' @ [CHR 0xE1, CHR 0xBB, CHR 0x81] @ ''u l'' @
      [CHR 0xE1, CHR 0xBB, CHR 0x97] @ ''i ng'' @ [CHR 0xE1, CHR 0xBB, CHR 0xAF] @ '' ph'' @
      [CHR 0xC3, CHR 0xA1] @ ''p c'' @ [CHR 0xC6, CHR 0xA1] @ '' b'' @
      [CHR 0xE1, CHR 0xBA, CHR 0xA3] @ ''n. T'' @ [CHR 0xE1, CHR 0xBA, CHR 0xAD] @
      ''p trung luy'' @ [CHR 0xE1, CHR 0xBB, CHR 0x87] @ ''n c'' @ [CHR 0xC3, CHR 0xA1] @
      ''c th'' @ [CHR 0xC3, CHR 0xAC] @ '' hi'' @ [CHR 0xE1, CHR 0xBB, CHR 0x87] @ ''n t'' @
      [CHR 0xE1, CHR 0xBA, CHR 0xA1] @ ''i, qu'' @ [CHR 0xC3, CHR 0xA1] @ '' kh'' @
      [CHR 0xE1, CHR 0xBB, CHR 0xA9] @ '' v'' @ [CHR 0xC3, CHR 0xA0] @ '' t'' @
      [CHR 0xC6, CHR 0xB0, CHR 0xC6, CHR 0xA1] @ ''ng lai '' @
      [CHR 0xC4, CHR 0x91, CHR 0xC6, CHR 0xA1] @ ''n.''),
     (''pronunciation'',
      ''Ph'' @ [CHR 0xC3, CHR 0xA1] @ ''t '' @ [CHR 0xC3, CHR 0xA2] @ ''m c'' @
      [CHR 0xC3, CHR 0xB3] @ '' th'' @ [CHR 0xE1, CHR 0xBB, CHR 0x83] @ '' g'' @
      [CHR 0xC3, CHR 0xA2] @ ''y kh'' @ [CHR 0xC3, CHR 0xB3] @ '' hi'' @
      [CHR 0xE1, CHR 0xBB, CHR 0x83] @ ''u cho ng'' @
      [CHR 0xC6, CHR 0xB0, CHR 0xE1, CHR 0xBB, CHR 0x9D] @ ''i nghe. Luy'' @
      [CHR 0xE1, CHR 0xBB, CHR 0x87] @ ''n t'' @ [CHR 0xE1, CHR 0xBA, CHR 0xAD] @ ''p ph'' @
      [CHR 0xC3, CHR 0xA1] @ ''t '' @ [CHR 0xC3, CHR 0xA2] @ ''m t'' @
      [CHR 0xE1, CHR 0xBB, CHR 0xAB] @ ''ng '' @ [CHR 0xC3, CHR 0xA2] @ ''m v'' @
      [CHR 0xC3, CHR 0xA0] @ '' tr'' @ [CHR 0xE1, CHR 0xBB, CHR 0x8D] @ ''ng '' @
      [CHR 0xC3, CHR 0xA2] @ ''m t'' @ [CHR 0xE1, CHR 0xBB, CHR 0xAB] @ ''.'')]"

definition app_speaking_bundle_1 :: feedback where
  \<comment> \<open>the dict returned at app.py:366\<close>
  "app_speaking_bundle_1 =
    [(''fluency_coherence'',
      ''B'' @ [CHR 0xE1, CHR 0xBA, CHR 0xA1] @ ''n c'' @ [CHR 0xC3, CHR 0xB3] @ '' th'' @
      [CHR 0xE1, CHR 0xBB, CHR 0x83] @ '' duy tr'' @ [CHR 0xC3, CHR 0xAC] @ '' b'' @
      [CHR 0xC3, CHR 0xA0] @ ''i n'' @ [CHR 0xC3, CHR 0xB3] @ ''i v'' @
      [CHR 0xE1, CHR 0xBB, CHR 0x81] @ '' ch'' @ [CHR 0xE1, CHR 0xBB, CHR 0xA7] @ '' '' @
      [CHR 0xC4, CHR 0x91, CHR 0xE1, CHR 0xBB, CHR 0x81] @ '' quen thu'' @
      [CHR 0xE1, CHR 0xBB, CHR 0x99] @ ''c v'' @ [CHR 0xE1, CHR 0xBB, CHR 0x9B] @ ''i m'' @
      [CHR 0xE1, CHR 0xBB, CHR 0x99] @ ''t ch'' @ [CHR 0xC3, CHR 0xBA] @ ''t do d'' @
      [CHR 0xE1, CHR 0xBB, CHR 0xB1] @ ''. S'' @ [CHR 0xE1, CHR 0xBB, CHR 0xAD] @ '' d'' @
      [CHR 0xE1, CHR 0xBB, CHR 0xA5] @ ''ng th'' @ [CHR 0xC3, CHR 0xAA] @ ''m c'' @
      [CHR 0xC3, CHR 0xA1] @ ''c t'' @ [CHR 0xE1, CHR 0xBB, CHR 0xAB] @ '' n'' @
      [CHR 0xE1, CHR 0xBB, CHR 0x91] @ ''i.''),
     (''vocabulary'',
      ''V'' @ [CHR 0xE1, CHR 0xBB, CHR 0x91] @ ''n t'' @ [CHR 0xE1, CHR 0xBB, CHR 0xAB] @
      '' t'' @ [CHR 0xE1, CHR 0xBB, CHR 0x91] @ ''t cho c'' @ [CHR 0xC3, CHR 0xA1] @ ''c ch'' @
      [CHR 0xE1, CHR 0xBB, CHR 0xA7] @ '' '' @
      [CHR 0xC4, CHR 0x91, CHR 0xE1, CHR 0xBB, CHR 0x81] @ '' quen thu'' @
      [CHR 0xE1, CHR 0xBB, CHR 0x99] @ ''c. M'' @ [CHR 0xE1, CHR 0xBB, CHR 0x9F] @ '' r'' @
      [CHR 0xE1, CHR 0xBB, CHR 0x99] @ ''ng th'' @ [CHR 0xC3, CHR 0xAA] @ ''m c'' @
      [CHR 0xC3, CHR 0xA1] @ ''c c'' @ [CHR 0xE1, CHR 0xBB, CHR 0xA5] @ ''m di'' @
      [CHR 0xE1, CHR 0xBB, CHR 0x85] @ ''n '' @
      [CHR 0xC4, CHR 0x91, CHR 0xE1, CHR 0xBA, CHR 0xA1] @ ''t v'' @ [CHR 0xC3, CHR 0xA0] @
      '' collocations.''),
     (''grammar'',
      ''Ki'' @ [CHR 0xE1, CHR 0xBB, CHR 0x83] @ ''m so'' @ [CHR 0xC3, CHR 0xA1] @ ''t t'' @
      [CHR 0xE1, CHR 0xBB, CHR 0x91] @ ''t c'' @ [CHR 0xC3, CHR 0xA1] @ ''c c'' @
      [CHR 0xE1, CHR 0xBA, CHR 0xA5] @ ''u tr'' @ [CHR 0xC3, CHR 0xBA] @ ''c '' @
      [CHR 0xC4, CHR 0x91, CHR 0xC6, CHR 0xA1] @ ''n gi'' @ [CHR 0xE1, CHR 0xBA, CHR 0xA3] @
      ''n. Luy'' @ [CHR 0xE1, CHR 0xBB, CHR 0x87] @ ''n th'' @ [CHR 0xC3, CHR 0xAA] @ ''m c'' @
      [CHR 0xC3, CHR 0xA2] @ ''u ph'' @ [CHR 0xE1, CHR 0xBB, CHR 0xA9] @ ''c v'' @
      [CHR 0xC3, CHR 0xA0] @ '' c'' @ [CHR 0xC3, CHR 0xA2] @ ''u '' @ [CHR 0xC4, CHR 0x91] @
      ''i'' @ [CHR 0xE1, CHR 0xBB, CHR 0x81] @ ''u ki'' @ [CHR 0xE1, CHR 0xBB, CHR 0x87] @
      ''n.''),
     (''pronunciation'',
      ''Ph'' @ [CHR 0xC3, CHR 0xA1] @ ''t '' @ [CHR 0xC3, CHR 0xA2] @ ''m kh'' @
      [CHR 0xC3, CHR 0xA1] @ '' r'' @ [CHR 0xC3, CHR 0xB5] @ '' r'' @ [CHR 0xC3, CHR 0xA0] @
      ''ng. C'' @ [CHR 0xE1, CHR 0xBA, CHR 0xA7] @ ''n c'' @ [CHR 0xE1, CHR 0xBA, CHR 0xA3] @
      ''i thi'' @ [CHR 0xE1, CHR 0xBB, CHR 0x87] @ ''n ng'' @ [CHR 0xE1, CHR 0xBB, CHR 0xAF] @
      '' '' @ [CHR 0xC4, CHR 0x91] @ ''i'' @ [CHR 0xE1, CHR 0xBB, CHR 0x87] @ ''u v'' @
      [CHR 0xC3, CHR 0xA0] @ '' c'' @ [CHR 0xC3, CHR 0xA1] @ ''ch n'' @
      [CHR 0xE1, CHR 0xBB, CHR 0x91] @ ''i '' @ [CHR 0xC3, CHR 0xA2] @ ''m.'')]"

definition app_speaking_bundle_2 :: feedback where
  \<comment> \<open>the dict returned at app.py:373\<close>
  "app_speaking_bundle_2 =
    [(''fluency_coherence'',
      ''B'' @ [CHR 0xE1, CHR 0xBA, CHR 0xA1] @ ''n n'' @ [CHR 0xC3, CHR 0xB3] @ ''i tr'' @
      [CHR 0xC3, CHR 0xB4] @ ''i ch'' @ [CHR 0xE1, CHR 0xBA, CHR 0xA3] @ ''y, ch'' @
      [CHR 0xE1, CHR 0xBB, CHR 0x89] @ '' th'' @ [CHR 0xE1, CHR 0xBB, CHR 0x89] @ ''nh tho'' @
      [CHR 0xE1, CHR 0xBA, CHR 0xA3] @ ''ng do d'' @ [CHR 0xE1, CHR 0xBB, CHR 0xB1] @ ''. S'' @
      [CHR 0xE1, CHR 0xBB, CHR 0xAD] @ '' d'' @ [CHR 0xE1, CHR 0xBB, CHR 0xA5] @ ''ng tuy'' @
      [CHR 0xE1, CHR 0xBB, CHR 0x87] @ ''t v'' @ [CHR 0xE1, CHR 0xBB, CHR 0x9D] @ ''i c'' @
      [CHR 0xC3, CHR 0xA1] @ ''c t'' @ [CHR 0xE1, CHR 0xBB, CHR 0xAB] @ '' n'' @
      [CHR 0xE1, CHR 0xBB, CHR 0x91] @ ''i.''),
     (''vocabulary'',
      ''V'' @ [CHR 0xE1, CHR 0xBB, CHR 0x91] @ ''n t'' @ [CHR 0xE1, CHR 0xBB, CHR 0xAB] @
      '' phong ph'' @ [CHR 0xC3, CHR 0xBA] @ '' v'' @ [CHR 0xE1, CHR 0xBB, CHR 0x9B] @
      ''i vi'' @ [CHR 0xE1, CHR 0xBB, CHR 0x87] @ ''c s'' @ [CHR 0xE1, CHR 0xBB, CHR 0xAD] @
      '' d'' @ [CHR 0xE1, CHR 0xBB, CHR 0xA5] @ ''ng t'' @ [CHR 0xE1, CHR 0xBB, CHR 0x91] @
      ''t th'' @ [CHR 0xC3, CHR 0xA0] @ ''nh ng'' @ [CHR 0xE1, CHR 0xBB, CHR 0xAF] @ '' v'' @
      [CHR 0xC3, CHR 0xA0] @ '' collocations.''),
     (''grammar'',
      ''Ki'' @ [CHR 0xE1, CHR 0xBB, CHR 0x83] @ ''m so'' @ [CHR 0xC3, CHR 0xA1] @ ''t nh'' @
      [CHR 0xE1, CHR 0xBA, CHR 0xA5] @ ''t qu'' @ [CHR 0xC3, CHR 0xA1] @ ''n c'' @
      [CHR 0xC3, CHR 0xA1] @ ''c c'' @ [CHR 0xE1, CHR 0xBA, CHR 0xA5] @ ''u tr'' @
      [CHR 0xC3, CHR 0xBA] @ ''c ph'' @ [CHR 0xE1, CHR 0xBB, CHR 0xA9] @ ''c t'' @
      [CHR 0xE1, CHR 0xBA, CHR 0xA1] @ ''p, ch'' @ [CHR 0xE1, CHR 0xBB, CHR 0x89] @ '' th'' @
      [CHR 0xE1, CHR 0xBB, CHR 0x89] @ ''nh tho'' @ [CHR 0xE1, CHR 0xBA, CHR 0xA3] @ ''ng c'' @
      [CHR 0xC3, CHR 0xB3] @ '' l'' @ [CHR 0xE1, CHR 0xBB, CHR 0x97] @ ''i nh'' @
      [CHR 0xE1, CHR 0xBB, CHR 0x8F] @ ''.''),
     (''pronunciation'',
      ''Ph'' @ [CHR 0xC3, CHR 0xA1] @ ''t '' @ [CHR 0xC3, CHR 0xA2] @ ''m r'' @
      [CHR 0xC3, CHR 0xB5] @ '' r'' @ [CHR 0xC3, CHR 0xA0] @ ''ng, t'' @
      [CHR 0xE1, CHR 0xBB, CHR 0xB1] @ '' nhi'' @ [CHR 0xC3, CHR 0xAA] @ ''n v'' @
      [CHR 0xE1, CHR 0xBB, CHR 0x9B] @ ''i vi'' @ [CHR 0xE1, CHR 0xBB, CHR 0x87] @ ''c ki'' @
      [CHR 0xE1, CHR 0xBB, CHR 0x83] @ ''m so'' @ [CHR 0xC3, CHR 0xA1] @ ''t t'' @
      [CHR 0xE1, CHR 0xBB, CHR 0x91] @ ''t tr'' @ [CHR 0xE1, CHR 0xBB, CHR 0x8D] @ ''ng '' @
      [CHR 0xC3, CHR 0xA2] @ ''m v'' @ [CHR 0xC3, CHR 0xA0] @ '' ng'' @
      [CHR 0xE1, CHR 0xBB, CHR 0xAF] @ '' '' @ [CHR 0xC4, CHR 0x91] @ ''i'' @
      [CHR 0xE1, CHR 0xBB, CHR 0x87] @ ''u.'')]"


subsection \<open>The dict literals of \<^verbatim>\<open>build_speaking_feedback\<close> in \<^verbatim>\<open>services/speaking_service.py\<close>\<close>

definition service_speaking_bundle_0 :: feedback where
  \<comment> \<open>the dict returned at services/speaking_service.py:136\<close>
  "service_speaking_bundle_0 =
    [(''fluency_coherence'',
      ''T'' @ [CHR 0xE1, CHR 0xBB, CHR 0x91] @ ''c '' @
      [CHR 0xC4, CHR 0x91, CHR 0xE1, CHR 0xBB, CHR 0x99] @ '' n'' @ [CHR 0xC3, CHR 0xB3] @
      ''i c'' @ [CHR 0xC3, CHR 0xB2] @ ''n ch'' @ [CHR 0xE1, CHR 0xBA, CHR 0xAD] @ ''m v'' @
      [CHR 0xE1, CHR 0xBB, CHR 0x9B] @ ''i nhi'' @ [CHR 0xE1, CHR 0xBB, CHR 0x81] @ ''u l'' @
      [CHR 0xE1, CHR 0xBA, CHR 0xA7] @ ''n d'' @ [CHR 0xE1, CHR 0xBB, CHR 0xAB] @ ''ng. H'' @
      [CHR 0xC3, CHR 0xA3] @ ''y luy'' @ [CHR 0xE1, CHR 0xBB, CHR 0x87] @ ''n n'' @
      [CHR 0xC3, CHR 0xB3] @ ''i li'' @ [CHR 0xC3, CHR 0xAA] @ ''n t'' @
      [CHR 0xE1, CHR 0xBB, CHR 0xA5] @ ''c h'' @ [CHR 0xC6, CHR 0xA1] @ ''n v'' @
      [CHR 0xE1, CHR 0xBB, CHR 0x81] @ '' c'' @ [CHR 0xC3, CHR 0xA1] @ ''c ch'' @
      [CHR 0xE1, CHR 0xBB, CHR 0xA7] @ '' '' @
      [CHR 0xC4, CHR 0x91, CHR 0xE1, CHR 0xBB, CHR 0x81] @ '' quen thu'' @
      [CHR 0xE1, CHR 0xBB, CHR 0x99] @ ''c.''),
     (''vocabulary'',
      ''V'' @ [CHR 0xE1, CHR 0xBB, CHR 0x91] @ ''n t'' @ [CHR 0xE1, CHR 0xBB, CHR 0xAB] @
      '' c'' @ [CHR 0xC3, CHR 0xB2] @ ''n h'' @ [CHR 0xE1, CHR 0xBA, CHR 0xA1] @ ''n ch'' @
      [CHR 0xE1, CHR 0xBA, CHR 0xBF] @ ''. C'' @ [CHR 0xE1, CHR 0xBA, CHR 0xA7] @ ''n h'' @
      [CHR 0xE1, CHR 0xBB, CHR 0x8D] @ ''c th'' @ [CHR 0xC3, CHR 0xAA] @ ''m c'' @
      [CHR 0xC3, CHR 0xA1] @ ''c c'' @ [CHR 0xE1, CHR 0xBB, CHR 0xA5] @ ''m di'' @
      [CHR 0xE1, CHR 0xBB, CHR 0x85] @ ''n '' @
      [CHR 0xC4, CHR 0x91, CHR 0xE1, CHR 0xBA, CHR 0xA1] @ ''t h'' @ [CHR 0xC3, CHR 0xA0] @
      ''ng ng'' @ [CHR 0xC3, CHR 0xA0] @ ''y v'' @ [CHR 0xC3, CHR 0xA0] @ '' t'' @
      [CHR 0xE1, CHR 0xBB, CHR 0xAB] @ '' v'' @ [CHR 0xE1, CHR 0xBB, CHR 0xB1] @
      ''ng theo ch'' @ [CHR 0xE1, CHR 0xBB, CHR 0xA7] @ '' '' @
      [CHR 0xC4, CHR 0x91, CHR 0xE1, CHR 0xBB, CHR 0x81] @ ''.''),
     (''grammar'',
      ''C'' @ [CHR 0xC3, CHR 0xB2] @ ''n nhi'' @ [CHR 0xE1, CHR 0xBB, CHR 0x81] @ ''u l'' @
      [CHR 0xE1, CHR 0xBB, CHR 0x97] @ ''i ng'' @ [CHR 0xE1, CHR 0xBB, CHR 0xAF] @ '' ph'' @
      [CHR 0xC3, CHR 0xA1] @ ''p c'' @ [CHR 0xC6, CHR 0xA1] @ '' b'' @
      [CHR 0xE1, CHR 0xBA, CHR 0xA3] @ ''n. T'' @ [CHR 0xE1, CHR 0xBA, CHR 0xAD] @
      ''p trung luy'' @ [CHR 0xE1, CHR 0xBB, CHR 0x87] @ ''n c'' @ [CHR 0xC3, CHR 0xA1] @
      ''c th'' @ [CHR 0xC3, CHR 0xAC] @ '' hi'' @ [CHR 0xE1, CHR 0xBB, CHR 0x87] @ ''n t'' @
      [CHR 0xE1, CHR 0xBA, CHR 0xA1] @ ''i, qu'' @ [CHR 0xC3, CHR 0xA1] @ '' kh'' @
      [CHR 0xE1, CHR 0xBB, CHR 0xA9] @ '' v'' @ [CHR 0xC3, CHR 0xA0] @ '' t'' @
      [CHR 0xC6, CHR 0xB0, CHR 0xC6, CHR 0xA1] @ ''ng lai '' @
      [CHR 0xC4, CHR 0x91, CHR 0xC6, CHR 0xA1] @ ''n.''),
     (''pronunciation'',
      ''Ph'' @ [CHR 0xC3, CHR 0xA1] @ ''t '' @ [CHR 0xC3, CHR 0xA2] @ ''m c'' @
      [CHR 0xC3, CHR 0xB3] @ '' th'' @ [CHR 0xE1, CHR 0xBB, CHR 0x83] @ '' g'' @
      [CHR 0xC3, CHR 0xA2] @ ''y kh'' @ [CHR 0xC3, CHR 0xB3] @ '' hi'' @
      [CHR 0xE1, CHR 0xBB, CHR 0x83] @ ''u cho ng'' @
      [CHR 0xC6, CHR 0xB0, CHR 0xE1, CHR 0xBB, CHR 0x9D] @ ''i nghe. Luy'' @
      [CHR 0xE1, CHR 0xBB, CHR 0x87] @ ''n t'' @ [CHR 0xE1, CHR 0xBA, CHR 0xAD] @ ''p ph'' @
      [CHR 0xC3, CHR 0xA1] @ ''t '' @ [CHR 0xC3, CHR 0xA2] @ ''m t'' @
      [CHR 0xE1, CHR 0xBB, CHR 0xAB] @ ''ng '' @ [CHR 0xC3, CHR 0xA2] @ ''m v'' @
      [CHR 0xC3, CHR 0xA0] @ '' tr'' @ [CHR 0xE1, CHR 0xBB, CHR 0x8D] @ ''ng '' @
      [CHR 0xC3, CHR 0xA2] @ ''m t'' @ [CHR 0xE1, CHR 0xBB, CHR 0xAB] @ ''.'')]"

definition service_speaking_bundle_1 :: feedback where
  \<comment> \<open>the dict returned at services/speaking_service.py:143\<close>
  "service_speaking_bundle_1 =
    [(''fluency_coherence'',
      ''B'' @ [CHR 0xE1, CHR 0xBA, CHR 0xA1] @ ''n c'' @ [CHR 0xC3, CHR 0xB3] @ '' th'' @
      [CHR 0xE1, CHR 0xBB, CHR 0x83] @ '' duy tr'' @ [CHR 0xC3, CHR 0xAC] @ '' b'' @
      [CHR 0xC3, CHR 0xA0] @ ''i n'' @ [CHR 0xC3, CHR 0xB3] @ ''i v'' @
      [CHR 0xE1, CHR 0xBB, CHR 0x81] @ '' ch'' @ [CHR 0xE1, CHR 0xBB, CHR 0xA7] @ '' '' @
      [CHR 0xC4, CHR 0x91, CHR 0xE1, CHR 0xBB, CHR 0x81] @ '' quen thu'' @
      [CHR 0xE1, CHR 0xBB, CHR 0x99] @ ''c v'' @ [CHR 0xE1, CHR 0xBB, CHR 0x9B] @ ''i m'' @
      [CHR 0xE1, CHR 0xBB, CHR 0x99] @ ''t ch'' @ [CHR 0xC3, CHR 0xBA] @ ''t do d'' @
      [CHR 0xE1, CHR 0xBB, CHR 0xB1] @ ''. S'' @ [CHR 0xE1, CHR 0xBB, CHR 0xAD] @ '' d'' @
      [CHR 0xE1, CHR 0xBB, CHR 0xA5] @ ''ng th'' @ [CHR 0xC3, CHR 0xAA] @ ''m c'' @
      [CHR 0xC3, CHR 0xA1] @ ''c t'' @ [CHR 0xE1, CHR 0xBB, CHR 0xAB] @ '' n'' @
      [CHR 0xE1, CHR 0xBB, CHR 0x91] @ ''i.''),
     (''vocabulary'',
      ''V'' @ [CHR 0xE1, CHR 0xBB, CHR 0x91] @ ''n t'' @ [CHR 0xE1, CHR 0xBB, CHR 0xAB] @
      '' t'' @ [CHR 0xE1, CHR 0xBB, CHR 0x91] @ ''t cho c'' @ [CHR 0xC3, CHR 0xA1] @ ''c ch'' @
      [CHR 0xE1, CHR 0xBB, CHR 0xA7] @ '' '' @
      [CHR 0xC4, CHR 0x91, CHR 0xE1, CHR 0xBB, CHR 0x81] @ '' quen thu'' @
      [CHR 0xE1, CHR 0xBB, CHR 0x99] @ ''c. M'' @ [CHR 0xE1, CHR 0xBB, CHR 0x9F] @ '' r'' @
      [CHR 0xE1, CHR 0xBB, CHR 0x99] @ ''ng th'' @ [CHR 0xC3, CHR 0xAA] @ ''m c'' @
      [CHR 0xC3, CHR 0xA1] @ ''c c'' @ [CHR 0xE1, CHR 0xBB, CHR 0xA5] @ ''m di'' @
      [CHR 0xE1, CHR 0xBB, CHR 0x85] @ ''n '' @
      [CHR 0xC4, CHR 0x91, CHR 0xE1, CHR 0xBA, CHR 0xA1] @ ''t v'' @ [CHR 0xC3, CHR 0xA0] @
      '' collocations.''),
     (''grammar'',
      ''Ki'' @ [CHR 0xE1, CHR 0xBB, CHR 0x83] @ ''m so'' @ [CHR 0xC3, CHR 0xA1] @ ''t t'' @
      [CHR 0xE1, CHR 0xBB, CHR 0x91] @ ''t c'' @ [CHR 0xC3, CHR 0xA1] @ ''c c'' @
      [CHR 0xE1, CHR 0xBA, CHR 0xA5] @ ''u tr'' @ [CHR 0xC3, CHR 0xBA] @ ''c '' @
      [CHR 0xC4, CHR 0x91, CHR 0xC6, CHR 0xA1] @ ''n gi'' @ [CHR 0xE1, CHR 0xBA, CHR 0xA3] @
      ''n. Luy'' @ [CHR 0xE1, CHR 0xBB, CHR 0x87] @ ''n th'' @ [CHR 0xC3, CHR 0xAA] @ ''m c'' @
      [CHR 0xC3, CHR 0xA2] @ ''u ph'' @ [CHR 0xE1, CHR 0xBB, CHR 0xA9] @ ''c v'' @
      [CHR 0xC3, CHR 0xA0] @ '' c'' @ [CHR 0xC3, CHR 0xA2] @ ''u '' @ [CHR 0xC4, CHR 0x91] @
      ''i'' @ [CHR 0xE1, CHR 0xBB, CHR 0x81] @ ''u ki'' @ [CHR 0xE1, CHR 0xBB, CHR 0x87] @
      ''n.''),
     (''pronunciation'',
      ''Ph'' @ [CHR 0xC3, CHR 0xA1] @ ''t '' @ [CHR 0xC3, CHR 0xA2] @ ''m kh'' @
      [CHR 0xC3, CHR 0xA1] @ '' r'' @ [CHR 0xC3, CHR 0xB5] @ '' r'' @ [CHR 0xC3, CHR 0xA0] @
      ''ng. C'' @ [CHR 0xE1, CHR 0xBA, CHR 0xA7] @ ''n c'' @ [CHR 0xE1, CHR 0xBA, CHR 0xA3] @
      ''i thi'' @ [CHR 0xE1, CHR 0xBB, CHR 0x87] @ ''n ng'' @ [CHR 0xE1, CHR 0xBB, CHR 0xAF] @
      '' '' @ [CHR 0xC4, CHR 0x91] @ ''i'' @ [CHR 0xE1, CHR 0xBB, CHR 0x87] @ ''u v'' @
      [CHR 0xC3, CHR 0xA0] @ '' c'' @ [CHR 0xC3, CHR 0xA1] @ ''ch n'' @
      [CHR 0xE1, CHR 0xBB, CHR 0x91] @ ''i '' @ [CHR 0xC3, CHR 0xA2] @ ''m.'')]"

definition service_speaking_bundle_2 :: feedback where
  \<comment> \<open>the dict returned at services/speaking_service.py:150\<close>
  "service_speaking_bundle_2 =
    [(''fluency_coherence'',
      ''B'' @ [CHR 0xE1, CHR 0xBA, CHR 0xA1] @ ''n n'' @ [CHR 0xC3, CHR 0xB3] @ ''i tr'' @
      [CHR 0xC3, CHR 0xB4] @ ''i ch'' @ [CHR 0xE1, CHR 0xBA, CHR 0xA3] @ ''y, ch'' @
      [CHR 0xE1, CHR 0xBB, CHR 0x89] @ '' th'' @ [CHR 0xE1, CHR 0xBB, CHR 0x89] @ ''nh tho'' @
      [CHR 0xE1, CHR 0xBA, CHR 0xA3] @ ''ng do d'' @ [CHR 0xE1, CHR 0xBB, CHR 0xB1] @ ''. S'' @
      [CHR 0xE1, CHR 0xBB, CHR 0xAD] @ '' d'' @ [CHR 0xE1, CHR 0xBB, CHR 0xA5] @ ''ng tuy'' @
      [CHR 0xE1, CHR 0xBB, CHR 0x87] @ ''t v'' @ [CHR 0xE1, CHR 0xBB, CHR 0x9D] @ ''i c'' @
      [CHR 0xC3, CHR 0xA1] @ ''c t'' @ [CHR 0xE1, CHR 0xBB, CHR 0xAB] @ '' n'' @
      [CHR 0xE1, CHR 0xBB, CHR 0x91] @ ''i.''),
     (''vocabulary'',
      ''V'' @ [CHR 0xE1, CHR 0xBB, CHR 0x91] @ ''n t'' @ [CHR 0xE1, CHR 0xBB, CHR 0xAB] @
      '' phong ph'' @ [CHR 0xC3, CHR 0xBA] @ '' v'' @ [CHR 0xE1, CHR 0xBB, CHR 0x9B] @
      ''i vi'' @ [CHR 0xE1, CHR 0xBB, CHR 0x87] @ ''c s'' @ [CHR 0xE1, CHR 0xBB, CHR 0xAD] @
      '' d'' @ [CHR 0xE1, CHR 0xBB, CHR 0xA5] @ ''ng t'' @ [CHR 0xE1, CHR 0xBB, CHR 0x91] @
      ''t th'' @ [CHR 0xC3, CHR 0xA0] @ ''nh ng'' @ [CHR 0xE1, CHR 0xBB, CHR 0xAF] @ '' v'' @
      [CHR 0xC3, CHR 0xA0] @ '' collocations.''),
     (''grammar'',
      ''Ki'' @ [CHR 0xE1, CHR 0xBB, CHR 0x83] @ ''m so'' @ [CHR 0xC3, CHR 0xA1] @ ''t nh'' @
      [CHR 0xE1, CHR 0xBA, CHR 0xA5] @ ''t qu'' @ [CHR 0xC3, CHR 0xA1] @ ''n c'' @
      [CHR 0xC3, CHR 0xA1] @ ''c c'' @ [CHR 0xE1, CHR 0xBA, CHR 0xA5] @ ''u tr'' @
      [CHR 0xC3, CHR 0xBA] @ ''c ph'' @ [CHR 0xE1, CHR 0xBB, CHR 0xA9] @ ''c t'' @
      [CHR 0xE1, CHR 0xBA, CHR 0xA1] @ ''p, ch'' @ [CHR 0xE1, CHR 0xBB, CHR 0x89] @ '' th'' @
      [CHR 0xE1, CHR 0xBB, CHR 0x89] @ ''nh tho'' @ [CHR 0xE1, CHR 0xBA, CHR 0xA3] @ ''ng c'' @
      [CHR 0xC3, CHR 0xB3] @ '' l'' @ [CHR 0xE1, CHR 0xBB, CHR 0x97] @ ''i nh'' @
      [CHR 0xE1, CHR 0xBB, CHR 0x8F] @ ''.''),
     (''pronunciation'',
      ''Ph'' @ [CHR 0xC3, CHR 0xA1] @ ''t '' @ [CHR 0xC3, CHR 0xA2] @ ''m r'' @
      [CHR 0xC3, CHR 0xB5] @ '' r'' @ [CHR 0xC3, CHR 0xA0] @ ''ng, t'' @
      [CHR 0xE1, CHR 0xBB, CHR 0xB1] @ '' nhi'' @ [CHR 0xC3, CHR 0xAA] @ ''n v'' @
      [CHR 0xE1, CHR 0xBB, CHR 0x9B] @ ''i vi'' @ [CHR 0xE1, CHR 0xBB, CHR 0x87] @ ''c ki'' @
      [CHR 0xE1, CHR 0xBB, CHR 0x83] @ ''m so'' @ [CHR 0xC3, CHR 0xA1] @ ''t t'' @
      [CHR 0xE1, CHR 0xBB, CHR 0x91] @ ''t tr'' @ [CHR 0xE1, CHR 0xBB, CHR 0x8D] @ ''ng '' @
      [CHR 0xC3, CHR 0xA2] @ ''m v'' @ [CHR 0xC3, CHR 0xA0] @ '' ng'' @
      [CHR 0xE1, CHR 0xBB, CHR 0xAF] @ '' '' @ [CHR 0xC4, CHR 0x91] @ ''i'' @
      [CHR 0xE1, CHR 0xBB, CHR 0x87] @ ''u.'')]"


subsection \<open>The feedback builders\<close>

text \<open>
  \<^verbatim>\<open>build_writing_feedback(band)\<close> of \<^verbatim>\<open>app.py\<close> (lines 317 to 353): an
  \<^verbatim>\<open>if/elif\<close> chain over the band, each branch returning one dict literal.
\<close>

definition app_build_writing_feedback :: "real \<Rightarrow> feedback" where
  "app_build_writing_feedback band =
     (if band < 5.0 then app_writing_bundle_0
      else if band < 5.5 then app_writing_bundle_1
      else if band < 6.5 then app_writing_bundle_2
      else if band < 7.5 then app_writing_bundle_3
      else app_writing_bundle_4)"

text \<open>
  \<^verbatim>\<open>build_writing_feedback(band)\<close> of \<^verbatim>\<open>services/writing_service.py\<close> (lines 100
  to 154).
\<close>

definition writing_service_build_writing_feedback :: "real \<Rightarrow> feedback" where
  "writing_service_build_writing_feedback band =
     (if band < 5.0 then service_writing_bundle_0
      else if band < 6.0 then service_writing_bundle_1
      else if band < 7.0 then service_writing_bundle_2
      else if band < 8.0 then service_writing_bundle_3
      else service_writing_bundle_4)"

text \<open>
  \<^verbatim>\<open>build_speaking_feedback(cefr, band)\<close> of \<^verbatim>\<open>app.py\<close> (lines 356 to 378) and of
  \<^verbatim>\<open>services/speaking_service.py\<close> (lines 124 to 155). Both take the CEFR label as
  their first argument.
\<close>

definition app_build_speaking_feedback :: "string \<Rightarrow> real \<Rightarrow> feedback" where
  "app_build_speaking_feedback cefr band =
     (if band < 5.0 then app_speaking_bundle_0
      else if band < 6.5 then app_speaking_bundle_1
      else app_speaking_bundle_2)"

definition speaking_service_build_speaking_feedback :: "string \<Rightarrow> real \<Rightarrow> feedback" where
  "speaking_service_build_speaking_feedback cefr band =
     (if band < 5.0 then service_speaking_bundle_0
      else if band < 6.5 then service_speaking_bundle_1
      else service_speaking_bundle_2)"

subsection \<open>The feedback table as the specification words it\<close>

text \<open>
  The specification describes one function \<open>feedbackFor domain score\<close>: an ordered list
  of ascending upper bounds, the bundle of the first bound the score is strictly less
  than, and the final bundle when the score reaches every bound. \<open>bucket_index\<close> is the
  position of that first bound (the number of bounds when there is none); the bundles
  are the dict literals of \<^verbatim>\<open>app.py\<close> in the order of the source.
\<close>

datatype domain = Writing | Speaking

fun bucket_index :: "real list \<Rightarrow> real \<Rightarrow> nat" where
  "bucket_index [] score = 0"
| "bucket_index (t # ts) score = (if score < t then 0 else Suc (bucket_index ts score))"

definition writing_thresholds :: "real list" where
  "writing_thresholds = [5.0, 5.5, 6.5, 7.5]"

definition speaking_thresholds :: "real list" where
  "speaking_thresholds = [5.0, 6.5]"

definition writing_bundles :: "feedback list" where
  "writing_bundles =
     [app_writing_bundle_0, app_writing_bundle_1, app_writing_bundle_2,
      app_writing_bundle_3, app_writing_bundle_4]"

definition speaking_bundles :: "feedback list" where
  "speaking_bundles = [app_speaking_bundle_0, app_speaking_bundle_1, app_speaking_bundle_2]"

definition feedbackFor :: "domain \<Rightarrow> real \<Rightarrow> feedback" where
  "feedbackFor d score =
     (case d of
        Writing \<Rightarrow> writing_bundles ! bucket_index writing_thresholds score
      | Speaking \<Rightarrow> speaking_bundles ! bucket_index speaking_thresholds score)"

text \<open>The bounds and the literals of \<^verbatim>\<open>services/writing_service.py\<close>, in the same form.\<close>

definition service_writing_thresholds :: "real list" where
  "service_writing_thresholds = [5.0, 6.0, 7.0, 8.0]"

definition service_writing_bundles :: "feedback list" where
  "service_writing_bundles =
     [service_writing_bundle_0, service_writing_bundle_1, service_writing_bundle_2,
      service_writing_bundle_3, service_writing_bundle_4]"

text \<open>The three band intervals of the speaking feedback: below 5.0, below 6.5, the rest.\<close>

definition speaking_interval :: "real \<Rightarrow> nat" where
  "speaking_interval band = bucket_index speaking_thresholds band"

text \<open>The four criteria both writing tables name.\<close>

definition writing_criteria :: "string list" where
  "writing_criteria = [''task_response'', ''coherence_cohesion'', ''vocabulary'', ''grammar'']"

section \<open>Exceptions\<close>

text \<open>
  The exceptions the modelled code raises or lets through. A function that can raise
  returns \<open>exn + 'a\<close>, with \<open>Inl\<close> for the exception. \<open>AudioValidationError\<close> is the class
  of \<^verbatim>\<open>services/speech_service.py\<close>; its argument names the check that failed and
  carries what the message of the source interpolates. \<open>HTTPException\<close> carries the
  status code and the detail.
\<close>

datatype audio_problem =
    NotFound string           \<comment> \<open>\<^verbatim>\<open>Audio file not found: {file_path}\<close>\<close>
  | UnsupportedFile string    \<comment> \<open>\<^verbatim>\<open>Unsupported audio format: {suffix}. Supported formats: ...\<close>\<close>
  | UnsupportedUpload string  \<comment> \<open>\<^verbatim>\<open>Unsupported audio format: {suffix}. Supported: ...\<close>\<close>
  | TooLarge nat              \<comment> \<open>\<^verbatim>\<open>Audio file too large: {file_size / 1024 / 1024:.1f}MB. ...\<close>\<close>
  | EmptyFile                 \<comment> \<open>\<^verbatim>\<open>Audio file is empty\<close>\<close>
  | TooLong real              \<comment> \<open>\<^verbatim>\<open>Audio too long: {duration:.1f}s. ...\<close>\<close>

datatype exn =
    AudioValidationError audio_problem
  | RuntimeError string
  | FileNotFoundError string
  | KeyError nat
  | ValueError string
  | HTTPException nat string

section \<open>Writing band prediction (\<^verbatim>\<open>app.py\<close>)\<close>

subsection \<open>The numpy functions the code calls\<close>

text \<open>
  \<^verbatim>\<open>np.argmax\<close> returns the index of the first occurrence of the maximum and raises
  \<^verbatim>\<open>ValueError\<close> on an empty array.
\<close>

fun first_max_index :: "real list \<Rightarrow> nat" where
  "first_max_index [] = 0"
| "first_max_index [x] = 0"
| "first_max_index (x # y # ys) =
     (let k = first_max_index (y # ys) in if x < (y # ys) ! k then Suc k else 0)"

definition np_argmax :: "real list \<Rightarrow> exn + nat" where
  "np_argmax xs =
     (if xs = [] then Inl (ValueError ''attempt to get argmax of an empty sequence'')
      else Inr (first_max_index xs))"

text \<open>
  \<^verbatim>\<open>np.argsort\<close> returns indices that sort the array in ascending order. With the
  default kind, which line 281 uses, numpy promises no order among equal values, and
  its builds differ there: the scalar path sorts a short array by insertion, the
  vectorised paths do not. So the function is a parameter \<open>argsort\<close> of the embedding,
  and \<open>is_argsort xs idxs\<close> is all that is known of its answer \<open>idxs\<close> on \<open>xs\<close>: every
  index once, the values in ascending order.
\<close>

definition is_argsort :: "real list \<Rightarrow> nat list \<Rightarrow> bool" where
  "is_argsort xs idxs \<longleftrightarrow>
     length idxs = length xs \<and> distinct idxs \<and> list_all (\<lambda>i. i < length xs) idxs
     \<and> sorted (map (\<lambda>i. xs ! i) idxs)"

text \<open>
  Two answers of \<^verbatim>\<open>np.argsort\<close>. \<open>insertion_argsort\<close> is the stable insertion sort of
  the indices, the order of numpy's scalar path on an array of at most 16 elements.
  \<open>vector_argsort_tie\<close> is an order a vectorised build gives on the distribution
  \<open>tie_probs\<close> below.
\<close>

definition insertion_argsort :: "real list \<Rightarrow> nat list" where
  "insertion_argsort xs = sort_key (\<lambda>i. xs ! i) [0..<length xs]"

definition vector_argsort_tie :: "real list \<Rightarrow> nat list" where
  "vector_argsort_tie xs = [7, 6, 5, 4, 11, 10, 9, 8, 3, 2, 1, 0]"

subsection \<open>The band classes\<close>

definition WRITING_BAND_CLASSES :: "real list" where
  "WRITING_BAND_CLASSES = [3.5, 4.0, 4.5, 5.0, 5.5, 6.0, 6.5, 7.0, 7.5, 8.0, 8.5, 9.0]"

text \<open>\<^verbatim>\<open>{i: band for i, band in enumerate(WRITING_BAND_CLASSES)}\<close>\<close>

definition WRITING_IDX_TO_BAND :: "nat \<rightharpoonup> real" where
  "WRITING_IDX_TO_BAND i =
     (if i < length WRITING_BAND_CLASSES then Some (WRITING_BAND_CLASSES ! i) else None)"

subsection \<open>\<^verbatim>\<open>predict_writing_band\<close>\<close>

text \<open>
  The dict the function returns. An entry of \<^verbatim>\<open>top_predictions\<close>, a dict of a band and
  a probability, is the pair of the two.
\<close>

record writing_prediction =
  pred_band :: real
  pred_confidence :: real
  top_predictions :: "(real \<times> real) list"

text \<open>
  The list comprehension of lines 282 to 285: one entry per index, in order; a lookup
  of \<^verbatim>\<open>WRITING_IDX_TO_BAND\<close> that misses raises \<^verbatim>\<open>KeyError\<close>.
\<close>

fun top_entries :: "real list \<Rightarrow> nat list \<Rightarrow> exn + (real \<times> real) list" where
  "top_entries probs [] = Inr []"
| "top_entries probs (idx # rest) =
     (case WRITING_IDX_TO_BAND idx of
        None \<Rightarrow> Inl (KeyError idx)
      | Some b \<Rightarrow>
          (case top_entries probs rest of
             Inl e \<Rightarrow> Inl e
           | Inr entries \<Rightarrow> Inr ((b, probs ! idx) # entries)))"

text \<open>
  \<^verbatim>\<open>predict_writing_band(essay)\<close>, lines 248 to 291. The tokenizer, the model and the
  softmax over its logits are outside the embedding: \<open>classify essay\<close> is the array
  \<^verbatim>\<open>probs\<close> of line 274, and \<open>argsort\<close> is \<^verbatim>\<open>np.argsort\<close>. From there the code is
  followed line by line:
  \<^verbatim>\<open>pred_idx = int(np.argmax(probs))\<close>, \<^verbatim>\<open>confidence = float(probs[pred_idx])\<close>,
  \<^verbatim>\<open>top_indices = np.argsort(probs)[::-1][:3]\<close>, the list of entries, and the band of
  \<^verbatim>\<open>pred_idx\<close>.
\<close>

definition predict_writing_band ::
  "(real list \<Rightarrow> nat list) \<Rightarrow> (string \<Rightarrow> real list) \<Rightarrow> string \<Rightarrow> exn + writing_prediction" where
  "predict_writing_band argsort classify essay =
     (let probs = classify essay in
      case np_argmax probs of
        Inl e \<Rightarrow> Inl e
      | Inr pred_idx \<Rightarrow>
          (let confidence = probs ! pred_idx;
               top_indices = take 3 (rev (argsort probs))
           in (case top_entries probs top_indices of
                 Inl e \<Rightarrow> Inl e
               | Inr entries \<Rightarrow>
                   (case WRITING_IDX_TO_BAND pred_idx of
                      None \<Rightarrow> Inl (KeyError pred_idx)
                    | Some b \<Rightarrow>
                        Inr \<lparr>pred_band = b, pred_confidence = confidence, top_predictions = entries\<rparr>))))"

text \<open>
  Two orders of a list of top predictions. \<open>descending_probability\<close>: no entry is less
  probable than a later one. \<open>ties_lower_band_first\<close>: of two entries of the same
  probability the one of the lower band comes first.
\<close>

definition descending_probability :: "(real \<times> real) list \<Rightarrow> bool" where
  "descending_probability entries = sorted_wrt (\<lambda>e1 e2. snd e2 \<le> snd e1) entries"

definition ties_lower_band_first :: "(real \<times> real) list \<Rightarrow> bool" where
  "ties_lower_band_first entries =
     sorted_wrt (\<lambda>e1 e2. snd e1 = snd e2 \<longrightarrow> fst e1 < fst e2) entries"

text \<open>
  A distribution with a tie for the first place, between the classes 0 and 1 (the
  bands 3.5 and 4.0). Its values are dyadic, so they are floats, and they sum to 1.
\<close>

definition tie_probs :: "real list" where
  "tie_probs = [1/4, 1/4, 1/8, 1/8, 1/32, 1/32, 1/32, 1/32, 1/32, 1/32, 1/32, 1/32]"

definition sample_essay :: string where
  "sample_essay = ''Technology has changed the way people work and study in many ways.''"

section \<open>The world outside the code\<close>

text \<open>
  The code calls libraries and reads and writes files. What the libraries return is a
  parameter of the embedding, the record \<open>env\<close>; what the code can change is the state
  \<open>world\<close>, passed through every function that touches it.
\<close>

type_synonym path = string

type_synonym bytes = "nat list"

datatype task = Transcribe | Translate

text \<open>
  A segment of the dict \<^verbatim>\<open>model.transcribe\<close> returns, and the dict itself. The code reads
  every key with \<^verbatim>\<open>.get\<close>, so each may be missing.
\<close>

record segment =
  seg_start :: "real option"
  seg_end :: "real option"
  seg_text :: "string option"
  no_speech_prob :: "real option"

record whisper_output =
  out_text :: "string option"
  out_language :: "string option"
  out_segments :: "segment list option"

text \<open>The external model invocations, in the order they happen (ghost state).\<close>

datatype call = Asr path | Cefr string

record world =
  files :: "path \<rightharpoonup> bytes"                \<comment> \<open>the file system\<close>
  whisper_model_loaded :: bool            \<comment> \<open>\<^verbatim>\<open>whisper_manager._model is not None\<close>\<close>
  speaking_available :: "bool option"     \<comment> \<open>\<^verbatim>\<open>ModelManager._speaking_available\<close>\<close>
  speaking_model_loaded :: bool           \<comment> \<open>\<^verbatim>\<open>ModelManager._speaking_model is not None\<close>\<close>
  service_model_loaded :: bool            \<comment> \<open>\<^verbatim>\<open>_model is not None\<close> in \<^verbatim>\<open>speaking_service.py\<close>\<close>
  calls :: "call list"

record env =
  path_suffix :: "string \<Rightarrow> string"
    \<comment> \<open>\<^verbatim>\<open>Path(p).suffix\<close> of pathlib\<close>
  temp_name :: "string \<Rightarrow> path"
    \<comment> \<open>the name of the file \<^verbatim>\<open>NamedTemporaryFile(delete=False, suffix=s)\<close> creates\<close>
  unlink_raises :: "path \<Rightarrow> bool"
    \<comment> \<open>whether \<^verbatim>\<open>os.unlink(p)\<close> raises instead of removing the file\<close>
  load_audio :: "(path \<rightharpoonup> bytes) \<Rightarrow> path \<Rightarrow> nat option"
    \<comment> \<open>\<^verbatim>\<open>len(whisper.load_audio(p))\<close>, the mono 16 kHz samples; \<open>None\<close> when it raises\<close>
  whisper_load_error :: "string option"
    \<comment> \<open>the message of the exception \<^verbatim>\<open>whisper.load_model\<close> raises, if it does\<close>
  whisper_transcribe :: "(path \<rightharpoonup> bytes) \<Rightarrow> path \<Rightarrow> string \<Rightarrow> task \<Rightarrow> string + whisper_output"
    \<comment> \<open>\<^verbatim>\<open>model.transcribe(p, language, task)\<close>; \<open>Inl\<close> the message of its exception\<close>
  speaking_model_dir :: string
    \<comment> \<open>\<^verbatim>\<open>SPEAKING_MODEL_DIR\<close> of \<^verbatim>\<open>app.py\<close>, built from the environment variable\<close>
  speaking_dir_exists :: bool
    \<comment> \<open>\<^verbatim>\<open>os.path.exists(SPEAKING_MODEL_DIR)\<close> in \<^verbatim>\<open>app.py\<close>\<close>
  speaking_logits :: "string \<Rightarrow> real list"
    \<comment> \<open>tokenizer and speaking model of \<^verbatim>\<open>app.py\<close>: the row of logits of a text\<close>
  service_dir_exists :: bool
    \<comment> \<open>\<^verbatim>\<open>os.path.exists(MODEL_DIR)\<close> in \<^verbatim>\<open>speaking_service.py\<close>\<close>
  service_logits :: "string \<Rightarrow> real list"
    \<comment> \<open>tokenizer and model of \<^verbatim>\<open>speaking_service.py\<close>\<close>
  format_1f :: "real \<Rightarrow> string"
    \<comment> \<open>the format \<^verbatim>\<open>:.1f\<close> of a float\<close>
  str_int :: "nat \<Rightarrow> string"
    \<comment> \<open>\<^verbatim>\<open>str\<close> of an index\<close>
  formats_joined :: string
    \<comment> \<open>\<^verbatim>\<open>', '.join(SUPPORTED_AUDIO_FORMATS)\<close>, in the set's iteration order\<close>

subsection \<open>Strings\<close>

text \<open>
  \<^verbatim>\<open>str.lower\<close> on characters below 256: the ASCII capitals and the Latin-1 capitals
  (192 to 222 but the multiplication sign 215) move up by 32.
\<close>

definition lower_char :: "char \<Rightarrow> char" where
  "lower_char c =
     (let n = (of_char c :: nat)
      in if (65 \<le> n \<and> n \<le> 90) \<or> (192 \<le> n \<and> n \<le> 222 \<and> n \<noteq> 215)
         then char_of (n + 32) else c)"

definition lower :: "string \<Rightarrow> string" where
  "lower s = map lower_char s"

text \<open>\<^verbatim>\<open>str.isspace\<close> on characters below 256, \<^verbatim>\<open>str.strip()\<close> and \<^verbatim>\<open>str.split()\<close>.\<close>

definition is_space :: "char \<Rightarrow> bool" where
  "is_space c =
     (let n = (of_char c :: nat)
      in (9 \<le> n \<and> n \<le> 13) \<or> (28 \<le> n \<and> n \<le> 32) \<or> n = 133 \<or> n = 160)"

definition strip :: "string \<Rightarrow> string" where
  "strip s = rev (dropWhile is_space (rev (dropWhile is_space s)))"

fun split_from :: "string \<Rightarrow> string \<Rightarrow> string list" where
  "split_from cur [] = (if cur = [] then [] else [rev cur])"
| "split_from cur (c # cs) =
     (if is_space c
      then (if cur = [] then split_from [] cs else rev cur # split_from [] cs)
      else split_from (c # cur) cs)"

definition split :: "string \<Rightarrow> string list" where
  "split s = split_from [] s"

subsection \<open>The messages of the exceptions\<close>

definition str_audio_problem :: "env \<Rightarrow> audio_problem \<Rightarrow> string" where
  "str_audio_problem e p =
     (case p of
        NotFound file_path \<Rightarrow> ''Audio file not found: '' @ file_path
      | UnsupportedFile suffix \<Rightarrow>
          ''Unsupported audio format: '' @ suffix @ ''. Supported formats: '' @ formats_joined e
      | UnsupportedUpload suffix \<Rightarrow>
          ''Unsupported audio format: '' @ suffix @ ''. Supported: '' @ formats_joined e
      | TooLarge file_size \<Rightarrow>
          ''Audio file too large: '' @ format_1f e (real file_size / 1024 / 1024)
            @ ''MB. Maximum size: 25MB''
      | EmptyFile \<Rightarrow> ''Audio file is empty''
      | TooLong duration \<Rightarrow>
          ''Audio too long: '' @ format_1f e duration @ ''s. Maximum duration: 300s'')"

definition str_exn :: "env \<Rightarrow> exn \<Rightarrow> string" where
  "str_exn e x =
     (case x of
        AudioValidationError p \<Rightarrow> str_audio_problem e p
      | RuntimeError msg \<Rightarrow> msg
      | FileNotFoundError msg \<Rightarrow> msg
      | KeyError k \<Rightarrow> str_int e k
      | ValueError msg \<Rightarrow> msg
      | HTTPException status detail \<Rightarrow> str_int e status @ '': '' @ detail)"

section \<open>Transcription (\<^verbatim>\<open>services/speech_service.py\<close>)\<close>

definition SUPPORTED_AUDIO_FORMATS :: "string set" where
  "SUPPORTED_AUDIO_FORMATS = {''.mp3'', ''.wav'', ''.m4a'', ''.flac'', ''.ogg'', ''.webm'', ''.mp4''}"

definition MAX_AUDIO_DURATION_SECONDS :: real where
  "MAX_AUDIO_DURATION_SECONDS = 300"

definition SAMPLE_RATE :: nat where
  "SAMPLE_RATE = 16000"

definition max_size_bytes :: nat where
  "max_size_bytes = 25 * 1024 * 1024"

subsection \<open>\<^verbatim>\<open>whisper_manager.model\<close>\<close>

text \<open>
  The property of lines 52 to 68: the model is loaded on first use and kept; a failure
  of the load is raised as \<^verbatim>\<open>RuntimeError\<close>.
\<close>

definition whisper_manager_model :: "env \<Rightarrow> world \<Rightarrow> (exn + unit) \<times> world" where
  "whisper_manager_model e w =
     (if whisper_model_loaded w then (Inr (), w)
      else (case whisper_load_error e of
              Some msg \<Rightarrow> (Inl (RuntimeError (''Failed to load Whisper model: '' @ msg)), w)
            | None \<Rightarrow> (Inr (), w\<lparr>whisper_model_loaded := True\<rparr>)))"

subsection \<open>\<^verbatim>\<open>validate_audio_file\<close> and \<^verbatim>\<open>get_audio_duration\<close>\<close>

text \<open>
  \<^verbatim>\<open>validate_audio_file(file_path)\<close>, lines 99 to 134, in the order of the source: the
  file exists, its suffix is supported, its size is at most 25 MiB, its size is not 0.
\<close>

definition validate_audio_file :: "env \<Rightarrow> world \<Rightarrow> path \<Rightarrow> exn + unit" where
  "validate_audio_file e w file_path =
     (case files w file_path of
        None \<Rightarrow> Inl (AudioValidationError (NotFound file_path))
      | Some content \<Rightarrow>
          (let suffix = lower (path_suffix e file_path)
           in if suffix \<notin> SUPPORTED_AUDIO_FORMATS
              then Inl (AudioValidationError (UnsupportedFile suffix))
              else (let file_size = length content
                    in if file_size > max_size_bytes
                       then Inl (AudioValidationError (TooLarge file_size))
                       else if file_size = 0
                       then Inl (AudioValidationError EmptyFile)
                       else Inr ())))"

text \<open>
  \<^verbatim>\<open>get_audio_duration(file_path)\<close>, lines 137 to 153: the number of samples over the
  sample rate, and \<^verbatim>\<open>0.0\<close> when loading the audio raises.
\<close>

definition get_audio_duration :: "env \<Rightarrow> world \<Rightarrow> path \<Rightarrow> real" where
  "get_audio_duration e w file_path =
     (case load_audio e (files w) file_path of
        Some n \<Rightarrow> real n / real SAMPLE_RATE
      | None \<Rightarrow> 0.0)"

subsection \<open>\<^verbatim>\<open>temp_audio_file\<close>\<close>

text \<open>
  The context manager of lines 157 to 181, applied to the body of its \<^verbatim>\<open>with\<close>
  statement. The temporary file is created and written (both taken to succeed), the
  body runs, and the \<^verbatim>\<open>finally\<close> clause runs however the body ends: \<open>'a\<close> is the body's
  outcome, a value or an exception. The clause unlinks the file if the path is not
  empty and the file exists; an exception of \<^verbatim>\<open>os.unlink\<close> is caught and logged, which
  leaves the file in place.
\<close>

definition temp_audio_file ::
  "env \<Rightarrow> bytes \<Rightarrow> string \<Rightarrow> (path \<Rightarrow> world \<Rightarrow> 'a \<times> world) \<Rightarrow> world \<Rightarrow> 'a \<times> world" where
  "temp_audio_file e content suffix body w =
     (let temp_path = temp_name e suffix;
          w1 = w\<lparr>files := (files w)(temp_path \<mapsto> content)\<rparr>;
          (outcome, w2) = body temp_path w1
      in (outcome,
          if temp_path \<noteq> [] \<and> files w2 temp_path \<noteq> None
          then (if unlink_raises e temp_path then w2
                else w2\<lparr>files := (files w2)(temp_path := None)\<rparr>)
          else w2))"

subsection \<open>\<^verbatim>\<open>TranscriptionResult\<close> and \<^verbatim>\<open>transcribe_audio\<close>\<close>

record transcription_result =
  tr_text :: string
  tr_language :: string
  tr_duration :: real
  tr_segments :: "segment list"
  tr_confidence :: "real option"

text \<open>\<^verbatim>\<open>seg.get("no_speech_prob", 0)\<close>\<close>

definition segment_prob :: "segment \<Rightarrow> real" where
  "segment_prob seg = (case no_speech_prob seg of None \<Rightarrow> 0 | Some p \<Rightarrow> p)"

text \<open>Lines 269 to 273: the confidence computed from the segments.\<close>

definition segments_confidence :: "segment list \<Rightarrow> real option" where
  "segments_confidence segments =
     (if segments \<noteq> []
      then (let probs = map segment_prob segments
            in if probs \<noteq> [] then Some (1.0 - sum_list probs / real (length probs)) else None)
      else None)"

text \<open>Lines 264 to 283: the result built from the dict of \<^verbatim>\<open>model.transcribe\<close>.\<close>

definition make_result :: "whisper_output \<Rightarrow> string \<Rightarrow> bool \<Rightarrow> real \<Rightarrow> transcription_result" where
  "make_result out language include_segments duration =
     (let text = strip (case out_text out of None \<Rightarrow> [] | Some t \<Rightarrow> t);
          detected_language = (case out_language out of None \<Rightarrow> language | Some l \<Rightarrow> l);
          segments =
            (if include_segments
             then (case out_segments out of None \<Rightarrow> [] | Some segs \<Rightarrow> segs)
             else [])
      in \<lparr>tr_text = text, tr_language = detected_language, tr_duration = duration,
          tr_segments = segments, tr_confidence = segments_confidence segments\<rparr>)"

text \<open>
  \<^verbatim>\<open>transcribe_audio(file_path, language, task, include_segments)\<close>, lines 220 to 287:
  the validation of the file, the duration check, the model of the manager, and the
  transcription inside the \<^verbatim>\<open>try\<close> whose handler raises \<^verbatim>\<open>RuntimeError\<close>.
\<close>

definition transcribe_audio ::
  "env \<Rightarrow> path \<Rightarrow> string \<Rightarrow> task \<Rightarrow> bool \<Rightarrow> world \<Rightarrow> (exn + transcription_result) \<times> world" where
  "transcribe_audio e file_path language tsk include_segments w =
     (case validate_audio_file e w file_path of
        Inl x \<Rightarrow> (Inl x, w)
      | Inr _ \<Rightarrow>
          (let duration = get_audio_duration e w file_path
           in if duration > MAX_AUDIO_DURATION_SECONDS
              then (Inl (AudioValidationError (TooLong duration)), w)
              else (case whisper_manager_model e w of
                      (Inl x, w1) \<Rightarrow> (Inl x, w1)
                    | (Inr _, w1) \<Rightarrow>
                        (let w2 = w1\<lparr>calls := calls w1 @ [Asr file_path]\<rparr>
                         in (case whisper_transcribe e (files w2) file_path language tsk of
                               Inl msg \<Rightarrow>
                                 (Inl (RuntimeError (''Transcription failed: '' @ msg)), w2)
                             | Inr out \<Rightarrow>
                                 (Inr (make_result out language include_segments duration), w2))))))"

subsection \<open>\<^verbatim>\<open>transcribe_audio_bytes\<close>\<close>

text \<open>\<^verbatim>\<open>Path(filename).suffix.lower() or ".wav"\<close>\<close>

definition upload_suffix :: "env \<Rightarrow> string \<Rightarrow> string" where
  "upload_suffix e filename =
     (let s = lower (path_suffix e filename) in if s = [] then ''.wav'' else s)"

text \<open>
  \<^verbatim>\<open>transcribe_audio_bytes(audio_bytes, filename, language, task, include_segments)\<close>,
  lines 290 to 327: the suffix of the upload is checked first, then the payload is
  transcribed from a temporary file.
\<close>

definition transcribe_audio_bytes ::
  "env \<Rightarrow> bytes \<Rightarrow> string \<Rightarrow> string \<Rightarrow> task \<Rightarrow> bool \<Rightarrow> world
     \<Rightarrow> (exn + transcription_result) \<times> world" where
  "transcribe_audio_bytes e audio_bytes filename language tsk include_segments w =
     (let suffix = upload_suffix e filename
      in if suffix \<notin> SUPPORTED_AUDIO_FORMATS
         then (Inl (AudioValidationError (UnsupportedUpload suffix)), w)
         else temp_audio_file e audio_bytes suffix
                (\<lambda>temp_path. transcribe_audio e temp_path language tsk include_segments) w)"

text \<open>The file system once the payload is written to its temporary file.\<close>

definition staged :: "env \<Rightarrow> bytes \<Rightarrow> string \<Rightarrow> world \<Rightarrow> world" where
  "staged e audio_bytes suffix w =
     w\<lparr>files := (files w)(temp_name e suffix \<mapsto> audio_bytes)\<rparr>"


section \<open>CEFR prediction\<close>

subsection \<open>The constants of \<^verbatim>\<open>app.py\<close> (lines 51 to 56)\<close>

definition app_CEFR_LABELS :: "string list" where
  "app_CEFR_LABELS = [''A1'', ''A2'', ''B1'', ''B2'', ''C1'', ''C2'']"

definition app_ID2LABEL :: "nat \<rightharpoonup> string" where
  "app_ID2LABEL i = (if i < length app_CEFR_LABELS then Some (app_CEFR_LABELS ! i) else None)"

definition app_CEFR_TO_IELTS :: "string \<rightharpoonup> real" where
  "app_CEFR_TO_IELTS =
     map_of [(''A1'', 2.5), (''A2'', 3.5), (''B1'', 5.0), (''B2'', 6.5), (''C1'', 7.5), (''C2'', 8.5)]"

subsection \<open>The constants of \<^verbatim>\<open>services/speaking_service.py\<close> (lines 22 to 31)\<close>

definition speaking_service_CEFR_LABELS :: "string list" where
  "speaking_service_CEFR_LABELS = [''A1'', ''A2'', ''B1'', ''B2'', ''C1'', ''C2'']"

definition speaking_service_ID2LABEL :: "nat \<rightharpoonup> string" where
  "speaking_service_ID2LABEL i =
     (if i < length speaking_service_CEFR_LABELS
      then Some (speaking_service_CEFR_LABELS ! i) else None)"

definition speaking_service_CEFR_TO_IELTS :: "string \<rightharpoonup> real" where
  "speaking_service_CEFR_TO_IELTS =
     map_of [(''A1'', 2.5), (''A2'', 3.5), (''B1'', 5.0), (''B2'', 6.5), (''C1'', 7.5), (''C2'', 8.5)]"

subsection \<open>\<^verbatim>\<open>predict_cefr_and_band\<close> of \<^verbatim>\<open>services/speaking_service.py\<close>\<close>

text \<open>
  \<^verbatim>\<open>_load_model()\<close>, lines 38 to 60: the model is kept once loaded; before that the
  model directory must exist.
\<close>

definition speaking_service_load_model :: "env \<Rightarrow> world \<Rightarrow> (exn + unit) \<times> world" where
  "speaking_service_load_model e w =
     (if service_model_loaded w then (Inr (), w)
      else if \<not> service_dir_exists e
      then (Inl (FileNotFoundError
              (''Speaking model not found at '' @ [CHR 0x27] @ ''./speaking-cefr-roberta''
                 @ [CHR 0x27, CHR 0x2E, CHR 0x0A]
                 @ ''Please train the model first using: python train_speaking_level.py'')), w)
      else (Inr (), w\<lparr>service_model_loaded := True\<rparr>))"

text \<open>
  \<^verbatim>\<open>predict_cefr_and_band(text)\<close>, lines 63 to 90: the first index of the largest logit,
  its label, and the band of the label with the default \<^verbatim>\<open>0.0\<close> of \<^verbatim>\<open>.get\<close>.
\<close>

definition speaking_service_predict_cefr_and_band ::
  "env \<Rightarrow> string \<Rightarrow> world \<Rightarrow> (exn + string \<times> real) \<times> world" where
  "speaking_service_predict_cefr_and_band e answer_text w =
     (case speaking_service_load_model e w of
        (Inl x, w1) \<Rightarrow> (Inl x, w1)
      | (Inr _, w1) \<Rightarrow>
          (let w2 = w1\<lparr>calls := calls w1 @ [Cefr answer_text]\<rparr>
           in (case np_argmax (service_logits e answer_text) of
                 Inl x \<Rightarrow> (Inl x, w2)
               | Inr pred_id \<Rightarrow>
                   (case speaking_service_ID2LABEL pred_id of
                      None \<Rightarrow> (Inl (KeyError pred_id), w2)
                    | Some cefr \<Rightarrow>
                        (Inr (cefr,
                              (case speaking_service_CEFR_TO_IELTS cefr of
                                 None \<Rightarrow> 0.0 | Some b \<Rightarrow> b)), w2)))))"

subsection \<open>\<^verbatim>\<open>predict_cefr_and_band\<close> of \<^verbatim>\<open>app.py\<close>\<close>

text \<open>\<^verbatim>\<open>ModelManager.get_speaking_model()\<close>, lines 82 to 102.\<close>

definition get_speaking_model :: "env \<Rightarrow> world \<Rightarrow> (exn + unit) \<times> world" where
  "get_speaking_model e w =
     (let w1 = (if speaking_available w = None
                then w\<lparr>speaking_available := Some (speaking_dir_exists e)\<rparr> else w)
      in if speaking_available w1 \<noteq> Some True
         then (Inl (FileNotFoundError
                 (''Speaking model not found at '' @ [CHR 0x27] @ speaking_model_dir e
                    @ [CHR 0x27] @ ''. Train it first using: python train_speaking_level.py'')), w1)
         else (Inr (), w1\<lparr>speaking_model_loaded := True\<rparr>))"

text \<open>\<^verbatim>\<open>predict_cefr_and_band(text)\<close>, lines 294 to 313.\<close>

definition app_predict_cefr_and_band ::
  "env \<Rightarrow> string \<Rightarrow> world \<Rightarrow> (exn + string \<times> real) \<times> world" where
  "app_predict_cefr_and_band e answer_text w =
     (case get_speaking_model e w of
        (Inl x, w1) \<Rightarrow> (Inl x, w1)
      | (Inr _, w1) \<Rightarrow>
          (let w2 = w1\<lparr>calls := calls w1 @ [Cefr answer_text]\<rparr>
           in (case np_argmax (speaking_logits e answer_text) of
                 Inl x \<Rightarrow> (Inl x, w2)
               | Inr pred_id \<Rightarrow>
                   (case app_ID2LABEL pred_id of
                      None \<Rightarrow> (Inl (KeyError pred_id), w2)
                    | Some cefr \<Rightarrow>
                        (Inr (cefr,
                              (case app_CEFR_TO_IELTS cefr of
                                 None \<Rightarrow> 0.0 | Some b \<Rightarrow> b)), w2)))))"

section \<open>The endpoint \<^verbatim>\<open>/api/speaking/score-audio\<close> (\<^verbatim>\<open>app.py\<close>)\<close>

definition ENABLE_WHISPER :: bool where
  "ENABLE_WHISPER = True"

record transcript_info =
  info_language :: string
  duration_seconds :: real
  word_count :: nat
  info_confidence :: "real option"

record speaking_audio_response =
  resp_transcript :: string
  resp_transcript_info :: transcript_info
  cefr_level :: string
  approx_ielts_band :: real
  resp_feedback :: feedback

definition no_text_detail :: string where
  "no_text_detail = ''Could not extract meaningful text from audio. Please ensure clear speech.''"

text \<open>
  \<^verbatim>\<open>audio.filename or "audio.wav"\<close>: the upload's name may be \<^verbatim>\<open>None\<close>, and an empty
  name is replaced as well.
\<close>

definition upload_name :: "string option \<Rightarrow> string" where
  "upload_name filename =
     (case filename of None \<Rightarrow> ''audio.wav'' | Some f \<Rightarrow> if f = [] then ''audio.wav'' else f)"

text \<open>The body of the \<^verbatim>\<open>try\<close> statement of \<^verbatim>\<open>score_speaking_audio\<close>, lines 538 to 581.\<close>

definition score_speaking_audio_body ::
  "env \<Rightarrow> bytes \<Rightarrow> string option \<Rightarrow> string \<Rightarrow> world \<Rightarrow> (exn + speaking_audio_response) \<times> world" where
  "score_speaking_audio_body e audio_bytes filename language w =
     (if length audio_bytes = 0 then (Inl (HTTPException 400 ''Empty audio file''), w)
      else (case transcribe_audio_bytes e audio_bytes (upload_name filename)
                   language Transcribe False w of
              (Inl x, w1) \<Rightarrow> (Inl x, w1)
            | (Inr result, w1) \<Rightarrow>
                (let transcript = tr_text result
                 in if transcript = [] \<or> length (strip transcript) < 10
                    then (Inl (HTTPException 400 no_text_detail), w1)
                    else (case app_predict_cefr_and_band e transcript w1 of
                            (Inl x, w2) \<Rightarrow> (Inl x, w2)
                          | (Inr (cefr, band), w2) \<Rightarrow>
                              (Inr \<lparr>resp_transcript = transcript,
                                    resp_transcript_info =
                                      \<lparr>info_language = tr_language result,
                                       duration_seconds = tr_duration result,
                                       word_count = length (split transcript),
                                       info_confidence = tr_confidence result\<rparr>,
                                    cefr_level = cefr,
                                    approx_ielts_band = band,
                                    resp_feedback = app_build_speaking_feedback cefr band\<rparr>, w2)))))"

text \<open>
  The handlers of the \<^verbatim>\<open>try\<close> statement, lines 583 to 589, in their order: an
  \<^verbatim>\<open>AudioValidationError\<close> becomes a 400 with its message, an \<^verbatim>\<open>HTTPException\<close> is
  raised again, and any other exception becomes a 500.
\<close>

definition score_audio_handlers :: "env \<Rightarrow> exn \<Rightarrow> exn" where
  "score_audio_handlers e x =
     (case x of
        AudioValidationError p \<Rightarrow> HTTPException 400 (str_exn e x)
      | HTTPException status detail \<Rightarrow> HTTPException status detail
      | _ \<Rightarrow> HTTPException 500 (''Failed to process audio: '' @ str_exn e x))"

text \<open>
  \<^verbatim>\<open>score_speaking_audio(audio, language)\<close>, lines 517 to 589. The import of the
  speech service at the head of the \<^verbatim>\<open>try\<close> statement is taken to succeed.
\<close>

definition score_speaking_audio ::
  "env \<Rightarrow> bytes \<Rightarrow> string option \<Rightarrow> string \<Rightarrow> world \<Rightarrow> (exn + speaking_audio_response) \<times> world" where
  "score_speaking_audio e audio_bytes filename language w =
     (if \<not> ENABLE_WHISPER
      then (Inl (HTTPException 503
                  ''Speech-to-text is disabled. Set ENABLE_WHISPER=True to enable.''), w)
      else (case score_speaking_audio_body e audio_bytes filename language w of
              (Inl x, w1) \<Rightarrow> (Inl (score_audio_handlers e x), w1)
            | (Inr response, w1) \<Rightarrow> (Inr response, w1)))"

section \<open>A concrete world\<close>

text \<open>
  An environment and a state to run the functions on. \<open>plain_suffix\<close> is the suffix of
  a plain file name as pathlib gives it: from the last dot on, unless the name has no
  dot, starts with its only dot or ends with a dot. The decoder counts 16000 samples
  for each byte of a file, the recogniser returns \<open>sample_output\<close>, two segments with
  the no-speech probabilities 0.25 and 0.75, and the speaking models return logits
  whose largest is the fourth (the label B2).
\<close>

definition plain_suffix :: "string \<Rightarrow> string" where
  "plain_suffix name =
     (let ext = rev (takeWhile (\<lambda>c. c \<noteq> CHR ''.'') (rev name))
      in if ext = [] \<or> length ext = length name \<or> Suc (length ext) = length name then []
         else CHR ''.'' # ext)"

definition sample_segments :: "segment list" where
  "sample_segments =
     [\<lparr>seg_start = Some 0, seg_end = Some 1.5, seg_text = Some '' Hi.'',
        no_speech_prob = Some 0.25\<rparr>,
      \<lparr>seg_start = Some 1.5, seg_end = Some 2, seg_text = Some '''',
        no_speech_prob = Some 0.75\<rparr>]"

definition sample_output :: whisper_output where
  "sample_output =
     \<lparr>out_text = Some '' Hi. '', out_language = Some ''en'', out_segments = Some sample_segments\<rparr>"

definition sample_env :: env where
  "sample_env =
     \<lparr>path_suffix = plain_suffix,
      temp_name = (\<lambda>suffix. ''/tmp/tmpk3x9_a1b'' @ suffix),
      unlink_raises = (\<lambda>p. False),
      load_audio = (\<lambda>fs p. case fs p of None \<Rightarrow> None | Some content \<Rightarrow> Some (16000 * length content)),
      whisper_load_error = None,
      whisper_transcribe = (\<lambda>fs p language tsk. Inr sample_output),
      speaking_model_dir = ''./speaking-cefr-roberta'',
      speaking_dir_exists = True,
      speaking_logits = (\<lambda>answer_text. [-2.0, -1.0, 0.5, 3.0, 1.0, -0.5]),
      service_dir_exists = True,
      service_logits = (\<lambda>answer_text. [-2.0, -1.0, 0.5, 3.0, 1.0, -0.5]),
      format_1f = (\<lambda>x. ''?''),
      str_int = (\<lambda>n. ''?''),
      formats_joined = ''.mp3, .wav, .m4a, .flac, .ogg, .webm, .mp4''\<rparr>"

definition sample_world :: world where
  "sample_world =
     \<lparr>files = [''/data/answer.wav'' \<mapsto> [82, 73, 70, 70]],
      whisper_model_loaded = False,
      speaking_available = None,
      speaking_model_loaded = False,
      service_model_loaded = False,
      calls = []\<rparr>"

text \<open>
  Variants of the environment: one whose decoder fails and whose recogniser raises,
  one where in addition the model cannot be loaded, one whose \<^verbatim>\<open>os.unlink\<close> raises,
  and one whose decoder counts 310 seconds of audio.
\<close>

definition undecodable_env :: env where
  "undecodable_env =
     sample_env\<lparr>load_audio := (\<lambda>fs p. None),
                whisper_transcribe :=
                  (\<lambda>fs p language tsk. Inl ''Invalid data found when processing input'')\<rparr>"

definition unloadable_env :: env where
  "unloadable_env = undecodable_env\<lparr>whisper_load_error := Some ''CUDA out of memory''\<rparr>"

definition unlink_failing_env :: env where
  "unlink_failing_env = sample_env\<lparr>unlink_raises := (\<lambda>p. True)\<rparr>"

definition long_audio_env :: env where
  "long_audio_env = sample_env\<lparr>load_audio := (\<lambda>fs p. Some (310 * 16000))\<rparr>"

definition riff :: bytes where
  "riff = [82, 73, 70, 70]"

section \<open>Properties of the feedback tables\<close>

lemmas app_writing_bundle_defs =
  app_writing_bundle_0_def app_writing_bundle_1_def app_writing_bundle_2_def
  app_writing_bundle_3_def app_writing_bundle_4_def

lemmas service_writing_bundle_defs =
  service_writing_bundle_0_def service_writing_bundle_1_def service_writing_bundle_2_def
  service_writing_bundle_3_def service_writing_bundle_4_def

lemmas app_speaking_bundle_defs =
  app_speaking_bundle_0_def app_speaking_bundle_1_def app_speaking_bundle_2_def

lemmas service_speaking_bundle_defs =
  service_speaking_bundle_0_def service_speaking_bundle_1_def service_speaking_bundle_2_def

lemma bucket_index_le: "bucket_index ts score \<le> length ts"
  by (induction ts) auto

lemma app_writing_is_table:
  "app_build_writing_feedback band = writing_bundles ! bucket_index writing_thresholds band"
  by (simp add: app_build_writing_feedback_def writing_bundles_def writing_thresholds_def)

lemma service_writing_is_table:
  "writing_service_build_writing_feedback band =
     service_writing_bundles ! bucket_index service_writing_thresholds band"
  by (simp add: writing_service_build_writing_feedback_def service_writing_bundles_def
      service_writing_thresholds_def)

lemma app_speaking_is_table:
  "app_build_speaking_feedback cefr band = speaking_bundles ! bucket_index speaking_thresholds band"
  by (simp add: app_build_speaking_feedback_def speaking_bundles_def speaking_thresholds_def)

lemma distinct_writing_bundles: "distinct writing_bundles"
  by (simp add: writing_bundles_def app_writing_bundle_defs)

lemma distinct_speaking_bundles: "distinct speaking_bundles"
  by (simp add: speaking_bundles_def app_speaking_bundle_defs)

lemma speaking_tables_equal:
  "service_speaking_bundle_0 = app_speaking_bundle_0"
  "service_speaking_bundle_1 = app_speaking_bundle_1"
  "service_speaking_bundle_2 = app_speaking_bundle_2"
  by (simp_all add: app_speaking_bundle_defs service_speaking_bundle_defs)

lemma service_speaking_is_table:
  "speaking_service_build_speaking_feedback cefr band =
     speaking_bundles ! bucket_index speaking_thresholds band"
  by (simp add: speaking_service_build_speaking_feedback_def speaking_bundles_def
      speaking_thresholds_def speaking_tables_equal)

lemma app_writing_no_level: "map_of (app_build_writing_feedback band) ''level'' = None"
  by (simp add: app_build_writing_feedback_def app_writing_bundle_defs)

lemma service_writing_level: "map_of (writing_service_build_writing_feedback band) ''level'' \<noteq> None"
  by (simp add: writing_service_build_writing_feedback_def service_writing_bundle_defs)

lemma writing_dicts_differ:
  "\<not> dict_eq (app_build_writing_feedback band) (writing_service_build_writing_feedback band')"
proof
  assume "dict_eq (app_build_writing_feedback band) (writing_service_build_writing_feedback band')"
  then have "map_of (app_build_writing_feedback band) ''level'' =
      map_of (writing_service_build_writing_feedback band') ''level''"
    by (simp add: dict_eq_def)
  with app_writing_no_level service_writing_level show False
    by metis
qed

lemma lowest_bucket_criteria:
  "k \<in> set writing_criteria \<Longrightarrow>
     map_of app_writing_bundle_0 k = map_of service_writing_bundle_0 k"
  by (auto simp: writing_criteria_def app_writing_bundle_0_def service_writing_bundle_0_def)

lemma same_bucket_iff:
  "bucket_index writing_thresholds band = bucket_index service_writing_thresholds band \<longleftrightarrow>
     band < 5.0 \<or> (6.0 \<le> band \<and> band < 6.5) \<or> (7.0 \<le> band \<and> band < 7.5) \<or> 8.0 \<le> band
     \<or> (5.0 \<le> band \<and> band < 5.5)"
  by (auto simp: writing_thresholds_def service_writing_thresholds_def)

text \<open>
  Claim C2. \<open>feedbackFor\<close> is a function of the score alone that returns the bundle of
  the first bound the score is strictly less than, else the final bundle. The writing
  builder of \<^verbatim>\<open>app.py\<close> is that function for the bounds 5.0, 5.5, 6.5, 7.5, and the
  speaking builder for the bounds 5.0, 6.5. The scores 4.9, 5.4, 6.4, 7.4, 8.0 select the
  buckets 0, 1, 2, 3, 4 and the scores 4.9, 6.4, 8.0 the speaking buckets 0, 1, 2. A
  score equal to a bound belongs to the next bucket, and the bundles of a table are
  pairwise different, so the bucket can be read off the returned bundle.
\<close>

theorem feedbackFor_first_threshold:
  "app_build_writing_feedback score = feedbackFor Writing score
   \<and> app_build_speaking_feedback cefr score = feedbackFor Speaking score
   \<and> bucket_index writing_thresholds score < length writing_bundles
   \<and> bucket_index speaking_thresholds score < length speaking_bundles
   \<and> map (bucket_index writing_thresholds) [4.9, 5.4, 6.4, 7.4, 8.0] = [0, 1, 2, 3, 4]
   \<and> map (bucket_index speaking_thresholds) [4.9, 6.4, 8.0] = [0, 1, 2]
   \<and> map (bucket_index writing_thresholds) [5.0, 5.5, 6.5, 7.5] = [1, 2, 3, 4]
   \<and> map (bucket_index speaking_thresholds) [5.0, 6.5] = [1, 2]
   \<and> distinct writing_bundles \<and> distinct speaking_bundles"
proof -
  have "bucket_index writing_thresholds score < length writing_bundles"
    using bucket_index_le [of writing_thresholds score]
    by (simp add: writing_thresholds_def writing_bundles_def)
  moreover have "bucket_index speaking_thresholds score < length speaking_bundles"
    using bucket_index_le [of speaking_thresholds score]
    by (simp add: speaking_thresholds_def speaking_bundles_def)
  moreover have "map (bucket_index writing_thresholds) [4.9, 5.4, 6.4, 7.4, 8.0] = [0, 1, 2, 3, 4]"
    by (simp add: writing_thresholds_def)
  moreover have "map (bucket_index speaking_thresholds) [4.9, 6.4, 8.0] = [0, 1, 2]"
    by (simp add: speaking_thresholds_def)
  moreover have "map (bucket_index writing_thresholds) [5.0, 5.5, 6.5, 7.5] = [1, 2, 3, 4]"
    by (simp add: writing_thresholds_def)
  moreover have "map (bucket_index speaking_thresholds) [5.0, 6.5] = [1, 2]"
    by (simp add: speaking_thresholds_def)
  ultimately show ?thesis
    by (simp add: feedbackFor_def app_writing_is_table app_speaking_is_table
        distinct_writing_bundles distinct_speaking_bundles)
qed

text \<open>
  Claim C3, as the code has it. The two writing tables are not copies of each other.
  \<^verbatim>\<open>app.py\<close> cuts at 5.0, 5.5, 6.5, 7.5 and \<^verbatim>\<open>services/writing_service.py\<close> at 5.0,
  6.0, 7.0, 8.0, so the two builders select the same bucket exactly for a band below
  5.5, from 6.0 to below 6.5, from 7.0 to below 7.5, or from 8.0 on. The bundles of the
  service also hold the keys \<^verbatim>\<open>level\<close> and \<^verbatim>\<open>suggestion\<close>, so the two returned dicts
  are never equal. Below 5.0 the four criteria both tables name have the same texts.
\<close>

theorem writing_tables_compared:
  "app_build_writing_feedback band = writing_bundles ! bucket_index writing_thresholds band
   \<and> writing_service_build_writing_feedback band =
       service_writing_bundles ! bucket_index service_writing_thresholds band
   \<and> (bucket_index writing_thresholds band = bucket_index service_writing_thresholds band \<longleftrightarrow>
        band < 5.5 \<or> (6.0 \<le> band \<and> band < 6.5) \<or> (7.0 \<le> band \<and> band < 7.5) \<or> 8.0 \<le> band)
   \<and> \<not> dict_eq (app_build_writing_feedback band) (writing_service_build_writing_feedback band)
   \<and> (band < 5.0 \<longrightarrow>
        (\<forall>k \<in> set writing_criteria.
           map_of (app_build_writing_feedback band) k =
           map_of (writing_service_build_writing_feedback band) k))"
proof -
  have "band < 5.0 \<longrightarrow>
        (\<forall>k \<in> set writing_criteria.
           map_of (app_build_writing_feedback band) k =
           map_of (writing_service_build_writing_feedback band) k)"
    by (simp add: app_build_writing_feedback_def writing_service_build_writing_feedback_def
        lowest_bucket_criteria)
  moreover have "bucket_index writing_thresholds band = bucket_index service_writing_thresholds band \<longleftrightarrow>
        band < 5.5 \<or> (6.0 \<le> band \<and> band < 6.5) \<or> (7.0 \<le> band \<and> band < 7.5) \<or> 8.0 \<le> band"
    unfolding same_bucket_iff by auto
  ultimately show ?thesis
    using app_writing_is_table service_writing_is_table writing_dicts_differ by blast
qed

theorem writing_tables_compared_witness:
  "(4.0::real) < 5.0
   \<and> bucket_index writing_thresholds 4.0 = bucket_index service_writing_thresholds 4.0
   \<and> \<not> dict_eq (app_build_writing_feedback 4.0) (writing_service_build_writing_feedback 4.0)
   \<and> map_of (app_build_writing_feedback 4.0) ''grammar'' =
       map_of (writing_service_build_writing_feedback 4.0) ''grammar''
   \<and> map_of (app_build_writing_feedback 4.0) ''grammar'' \<noteq> None"
proof -
  have k: "''grammar'' \<in> set writing_criteria"
    by (simp add: writing_criteria_def)
  have n: "map_of (app_build_writing_feedback 4.0) ''grammar'' \<noteq> None"
    by (simp add: app_build_writing_feedback_def app_writing_bundle_0_def)
  have lt: "(4.0::real) < 5.0" "(4.0::real) < 5.5"
    by simp_all
  from k n lt writing_tables_compared [of "4.0"] show ?thesis
    by blast
qed

theorem writing_tables_not_copies:
  "app_build_writing_feedback 5.5 = app_writing_bundle_2
   \<and> writing_service_build_writing_feedback 5.5 = service_writing_bundle_1
   \<and> bucket_index writing_thresholds 5.5 = 2
   \<and> bucket_index service_writing_thresholds 5.5 = 1
   \<and> \<not> dict_eq (app_build_writing_feedback 5.5) (writing_service_build_writing_feedback 5.5)
   \<and> map_of (app_build_writing_feedback 5.5) ''grammar'' \<noteq>
       map_of (writing_service_build_writing_feedback 5.5) ''grammar''
   \<and> map_of (app_build_writing_feedback 4.0) ''level'' = None
   \<and> map_of (writing_service_build_writing_feedback 4.0) ''level'' \<noteq> None"
proof -
  have a: "app_build_writing_feedback 5.5 = app_writing_bundle_2"
    by (simp add: app_build_writing_feedback_def)
  have s: "writing_service_build_writing_feedback 5.5 = service_writing_bundle_1"
    by (simp add: writing_service_build_writing_feedback_def)
  have g: "map_of (app_build_writing_feedback 5.5) ''grammar'' \<noteq>
      map_of (writing_service_build_writing_feedback 5.5) ''grammar''"
    unfolding a s by (simp add: app_writing_bundle_2_def service_writing_bundle_1_def)
  have b: "bucket_index writing_thresholds 5.5 = 2" "bucket_index service_writing_thresholds 5.5 = 1"
    by (simp_all add: writing_thresholds_def service_writing_thresholds_def)
  have d: "\<not> dict_eq (app_build_writing_feedback 5.5) (writing_service_build_writing_feedback 5.5)"
    by (rule writing_dicts_differ)
  have l: "map_of (app_build_writing_feedback 4.0) ''level'' = None"
    "map_of (writing_service_build_writing_feedback 4.0) ''level'' \<noteq> None"
    by (rule app_writing_no_level, rule service_writing_level)
  from a s g b d l show ?thesis
    by blast
qed

text \<open>
  Claim C10. \<^verbatim>\<open>build_speaking_feedback\<close> does not depend on its CEFR label, in
  \<^verbatim>\<open>app.py\<close> and in \<^verbatim>\<open>services/speaking_service.py\<close>: two calls with the same band
  and any two labels return the same bundle, and more generally two calls whose bands
  lie in the same of the three intervals (below 5.0, below 6.5, the rest) do.
\<close>

theorem speaking_feedback_ignores_cefr:
  "app_build_speaking_feedback cefr1 band = app_build_speaking_feedback cefr2 band
   \<and> speaking_service_build_speaking_feedback cefr1 band =
       speaking_service_build_speaking_feedback cefr2 band
   \<and> (speaking_interval band = speaking_interval band' \<longrightarrow>
        app_build_speaking_feedback cefr1 band = app_build_speaking_feedback cefr2 band'
        \<and> speaking_service_build_speaking_feedback cefr1 band =
            speaking_service_build_speaking_feedback cefr2 band')
   \<and> speaking_interval band < 3"
proof -
  have "speaking_interval band < 3"
    using bucket_index_le [of speaking_thresholds band]
    by (simp add: speaking_interval_def speaking_thresholds_def)
  then show ?thesis
    by (simp add: service_speaking_is_table app_speaking_is_table speaking_interval_def)
qed

theorem speaking_feedback_ignores_cefr_witness:
  "speaking_interval 5.0 = speaking_interval 6.0
   \<and> app_build_speaking_feedback ''B1'' 5.0 = app_build_speaking_feedback ''C2'' 6.0
   \<and> speaking_service_build_speaking_feedback ''B1'' 5.0 =
       speaking_service_build_speaking_feedback ''C2'' 6.0
   \<and> app_build_speaking_feedback ''A1'' 5.0 = app_speaking_bundle_1"
proof -
  have i: "speaking_interval 5.0 = speaking_interval 6.0"
    by (simp add: speaking_interval_def speaking_thresholds_def)
  have a: "app_build_speaking_feedback ''A1'' 5.0 = app_speaking_bundle_1"
    by (simp add: app_build_speaking_feedback_def)
  from i a speaking_feedback_ignores_cefr [of "''B1''" "5.0" "''C2''" "6.0"] show ?thesis
    by blast
qed

section \<open>Properties of the writing prediction\<close>

subsection \<open>The first index of the maximum\<close>

lemma first_max_index_props:
  "xs \<noteq> [] \<Longrightarrow>
     first_max_index xs < length xs
     \<and> (\<forall>j < length xs. xs ! j \<le> xs ! first_max_index xs)
     \<and> (\<forall>j < first_max_index xs. xs ! j < xs ! first_max_index xs)"
proof (induction xs rule: first_max_index.induct)
  case 1
  then show ?case by simp
next
  case (2 x)
  then show ?case by simp
next
  case (3 x y ys)
  let ?t = "y # ys"
  let ?k = "first_max_index ?t"
  from 3 have k: "?k < length ?t"
    and ub: "\<forall>j < length ?t. ?t ! j \<le> ?t ! ?k"
    and lo: "\<forall>j < ?k. ?t ! j < ?t ! ?k"
    by simp_all
  show ?case
  proof (cases "x < ?t ! ?k")
    case True
    then have r: "first_max_index (x # ?t) = Suc ?k"
      by (simp add: Let_def)
    have "\<forall>j < length (x # ?t). (x # ?t) ! j \<le> ?t ! ?k"
      using True ub by (auto simp: nth_Cons split: nat.splits)
    moreover have "\<forall>j < Suc ?k. (x # ?t) ! j < ?t ! ?k"
      using True lo by (auto simp: nth_Cons split: nat.splits)
    ultimately show ?thesis
      using k unfolding r by simp
  next
    case False
    then have r: "first_max_index (x # ?t) = 0"
      by (simp add: Let_def)
    have "\<forall>j < length (x # ?t). (x # ?t) ! j \<le> x"
    proof (intro allI impI)
      fix j assume "j < length (x # ?t)"
      show "(x # ?t) ! j \<le> x"
      proof (cases j)
        case 0
        then show ?thesis by simp
      next
        case (Suc i)
        with \<open>j < length (x # ?t)\<close> have "i < length ?t" by simp
        with ub have "?t ! i \<le> ?t ! ?k" by blast
        with False Suc show ?thesis by simp
      qed
    qed
    then show ?thesis
      unfolding r by simp
  qed
qed

lemma first_max_index_Max:
  assumes "xs \<noteq> []"
  shows "xs ! first_max_index xs = Max (set xs)"
proof (rule sym, rule Max_eqI)
  show "finite (set xs)" by simp
  show "xs ! first_max_index xs \<in> set xs"
    using first_max_index_props [OF assms] by simp
  fix y assume "y \<in> set xs"
  then obtain j where "j < length xs" "xs ! j = y"
    by (auto simp: in_set_conv_nth)
  with first_max_index_props [OF assms] show "y \<le> xs ! first_max_index xs"
    by blast
qed

subsection \<open>An ascending order of the indices\<close>

lemma is_argsort_set:
  assumes "is_argsort xs idxs"
  shows "set idxs = {0..<length xs}"
proof (rule card_subset_eq)
  show "finite {0..<length xs}"
    by simp
  show "set idxs \<subseteq> {0..<length xs}"
    using assms by (auto simp: is_argsort_def list_all_iff)
  show "card (set idxs) = card {0..<length xs}"
    using assms by (simp add: is_argsort_def distinct_card)
qed

lemma is_argsort_sorted:
  assumes "is_argsort xs idxs"
  shows "sorted_wrt (\<lambda>i j. xs ! i \<le> xs ! j) idxs"
  using assms by (simp add: is_argsort_def sorted_map)

lemma insertion_argsort_ok: "is_argsort xs (insertion_argsort xs)"
  by (simp add: is_argsort_def insertion_argsort_def list_all_iff)

text \<open>The reversed order, as \<^verbatim>\<open>[::-1]\<close> leaves it, and a prefix of it.\<close>

lemma top_indices_sorted:
  assumes "is_argsort xs idxs"
  shows "sorted_wrt (\<lambda>i j. xs ! j \<le> xs ! i) (take n (rev idxs))"
proof -
  have "sorted_wrt (\<lambda>i j. xs ! j \<le> xs ! i) (rev idxs)"
    using is_argsort_sorted [OF assms] by (simp add: sorted_wrt_rev)
  then show ?thesis
    by (rule sorted_wrt_take)
qed

lemma top_indices_dominate:
  assumes "is_argsort xs idxs"
    and "i \<in> set (take n (rev idxs))" and "j < length xs"
    and "j \<notin> set (take n (rev idxs))"
  shows "xs ! j \<le> xs ! i"
proof -
  let ?r = "rev idxs"
  have s: "sorted_wrt (\<lambda>i j. xs ! j \<le> xs ! i) (take n ?r @ drop n ?r)"
    using is_argsort_sorted [OF assms(1)] by (simp add: sorted_wrt_rev)
  have "j \<in> set ?r"
    using assms(3) is_argsort_set [OF assms(1)] by simp
  then have "j \<in> set (take n ?r) \<union> set (drop n ?r)"
    by (metis append_take_drop_id set_append)
  with assms(4) have "j \<in> set (drop n ?r)"
    by simp
  with s assms(2) show ?thesis
    unfolding sorted_wrt_append by blast
qed

subsection \<open>The entries of the top predictions\<close>

lemma bands_increasing: "sorted_wrt (<) WRITING_BAND_CLASSES"
  by (simp add: WRITING_BAND_CLASSES_def)

lemma band_of_index_mono:
  "i < j \<Longrightarrow> j < 12 \<Longrightarrow> WRITING_BAND_CLASSES ! i < WRITING_BAND_CLASSES ! j"
  using bands_increasing unfolding sorted_wrt_iff_nth_less
  by (simp add: WRITING_BAND_CLASSES_def)

lemma top_entries_ok:
  "\<forall>i \<in> set idxs. i < 12 \<Longrightarrow>
     top_entries probs idxs = Inr (map (\<lambda>i. (WRITING_BAND_CLASSES ! i, probs ! i)) idxs)"
  by (induction idxs) (simp_all add: WRITING_IDX_TO_BAND_def WRITING_BAND_CLASSES_def)

lemma entries_descending:
  assumes "sorted_wrt (\<lambda>i j. probs ! j \<le> probs ! i) idxs"
  shows "descending_probability (map (\<lambda>i. (WRITING_BAND_CLASSES ! i, probs ! i)) idxs)"
  using assms by (simp add: descending_probability_def sorted_wrt_map)

lemma predict_writing_band_value:
  assumes "length (classify essay) = 12"
    and "is_argsort (classify essay) (argsort (classify essay))"
  shows "predict_writing_band argsort classify essay =
     Inr \<lparr>pred_band = WRITING_BAND_CLASSES ! first_max_index (classify essay),
          pred_confidence = classify essay ! first_max_index (classify essay),
          top_predictions =
            map (\<lambda>i. (WRITING_BAND_CLASSES ! i, classify essay ! i))
              (take 3 (rev (argsort (classify essay))))\<rparr>"
proof -
  let ?p = "classify essay"
  let ?top = "take 3 (rev (argsort ?p))"
  from assms(1) have ne: "?p \<noteq> []"
    by auto
  then have k: "first_max_index ?p < 12"
    using first_max_index_props [of ?p] assms(1) by simp
  have "set ?top \<subseteq> set (rev (argsort ?p))"
    by (rule set_take_subset)
  then have "\<forall>i \<in> set ?top. i < 12"
    using assms(1) is_argsort_set [OF assms(2)] by auto
  then have e: "top_entries ?p ?top = Inr (map (\<lambda>i. (WRITING_BAND_CLASSES ! i, ?p ! i)) ?top)"
    by (rule top_entries_ok)
  have b: "WRITING_IDX_TO_BAND (first_max_index ?p) = Some (WRITING_BAND_CLASSES ! first_max_index ?p)"
    using k by (simp add: WRITING_IDX_TO_BAND_def WRITING_BAND_CLASSES_def)
  show ?thesis
    using ne by (simp add: predict_writing_band_def np_argmax_def Let_def e b)
qed

text \<open>
  Claim C4, as the code has it. For a classifier of 12 classes and any answer of
  \<^verbatim>\<open>np.argsort\<close> that is an ascending order of the indices, \<^verbatim>\<open>predict_writing_band\<close>
  returns a prediction with exactly 3 top predictions. They are the entries of 3
  different classes, the last three of the answer in reverse; no class outside them
  is more probable than one of them, and no entry is less probable than a later one.
  The order among entries of equal probability is the one \<^verbatim>\<open>np.argsort\<close> gives, which
  the code does not fix. The returned band is the band of the first class of maximal
  probability, one of the 12 band values, and the returned confidence is that maximal
  probability, which is also the probability of the first top prediction, whose band
  is the returned band or, on a tie, a higher one.
\<close>

theorem predict_writing_band_top3:
  assumes "length (classify essay) = 12"
    and "is_argsort (classify essay) (argsort (classify essay))"
  shows "\<exists>r idxs.
     predict_writing_band argsort classify essay = Inr r
     \<and> length (top_predictions r) = 3
     \<and> descending_probability (top_predictions r)
     \<and> top_predictions r = map (\<lambda>i. (WRITING_BAND_CLASSES ! i, classify essay ! i)) idxs
     \<and> idxs = take 3 (rev (argsort (classify essay)))
     \<and> distinct idxs \<and> set idxs \<subseteq> {0..<12}
     \<and> (\<forall>j < 12. j \<notin> set idxs \<longrightarrow> (\<forall>i \<in> set idxs. classify essay ! j \<le> classify essay ! i))
     \<and> pred_band r = WRITING_BAND_CLASSES ! first_max_index (classify essay)
     \<and> pred_band r \<in> set WRITING_BAND_CLASSES
     \<and> classify essay ! first_max_index (classify essay) = Max (set (classify essay))
     \<and> (\<forall>j < first_max_index (classify essay). classify essay ! j < Max (set (classify essay)))
     \<and> pred_confidence r = Max (set (classify essay))
     \<and> snd (hd (top_predictions r)) = pred_confidence r
     \<and> pred_band r \<le> fst (hd (top_predictions r))"
proof -
  let ?p = "classify essay"
  let ?k = "first_max_index ?p"
  let ?top = "take 3 (rev (argsort ?p))"
  let ?g = "\<lambda>i. (WRITING_BAND_CLASSES ! i, ?p ! i)"
  let ?r = "\<lparr>pred_band = WRITING_BAND_CLASSES ! ?k, pred_confidence = ?p ! ?k,
             top_predictions = map ?g ?top\<rparr>"
  note a = assms(2)
  from assms(1) have ne: "?p \<noteq> []"
    by auto
  have k: "?k < 12" and lo: "\<forall>j < ?k. ?p ! j < ?p ! ?k"
    using first_max_index_props [OF ne] assms(1) by simp_all
  have mx: "?p ! ?k = Max (set ?p)"
    by (rule first_max_index_Max [OF ne])
  have len: "length ?top = 3"
    using assms(1) a by (simp add: is_argsort_def)
  have sub: "set ?top \<subseteq> {0..<12}"
    using set_take_subset [of 3 "rev (argsort ?p)"] assms(1) is_argsort_set [OF a] by simp
  have dist: "distinct ?top"
    using a by (simp add: is_argsort_def)
  have srt_idx: "sorted_wrt (\<lambda>i j. ?p ! j \<le> ?p ! i) ?top"
    using a by (rule top_indices_sorted)
  have srt: "descending_probability (map ?g ?top)"
    using srt_idx by (rule entries_descending)
  have dom: "\<forall>j < 12. j \<notin> set ?top \<longrightarrow> (\<forall>i \<in> set ?top. ?p ! j \<le> ?p ! i)"
    using top_indices_dominate [OF a, of _ 3] assms(1) by auto
  have bnd: "WRITING_BAND_CLASSES ! ?k \<in> set WRITING_BAND_CLASSES"
    using k by (intro nth_mem) (simp add: WRITING_BAND_CLASSES_def)
  from len obtain i0 rest where top: "?top = i0 # rest"
    by (cases ?top) auto
  have i0: "i0 < 12"
    using sub top by auto
  have i0_max: "?p ! i0 = Max (set ?p)"
  proof -
    have "?p ! j \<le> ?p ! i0" if "j < 12" for j
    proof (cases "j \<in> set ?top")
      case False
      with dom that top show ?thesis
        by auto
    next
      case True
      then have "j = i0 \<or> j \<in> set rest"
        using top by auto
      then show ?thesis
      proof
        assume "j = i0"
        then show ?thesis by simp
      next
        assume "j \<in> set rest"
        with srt_idx show ?thesis
          unfolding top by auto
      qed
    qed
    then have "\<forall>y \<in> set ?p. y \<le> ?p ! i0"
      using assms(1) by (auto simp: in_set_conv_nth)
    moreover have "?p ! i0 \<in> set ?p"
      using i0 assms(1) by simp
    ultimately have "Max (set ?p) = ?p ! i0"
      by (intro Max_eqI) auto
    then show ?thesis
      by simp
  qed
  have hd_max: "snd (hd (map ?g ?top)) = Max (set ?p)"
    using i0_max unfolding top by simp
  have hd_band: "WRITING_BAND_CLASSES ! ?k \<le> fst (hd (map ?g ?top))"
  proof -
    have "\<not> i0 < ?k"
      using lo i0_max mx by auto
    then have "?k = i0 \<or> ?k < i0"
      by auto
    then have "WRITING_BAND_CLASSES ! ?k \<le> WRITING_BAND_CLASSES ! i0"
      using band_of_index_mono [of ?k i0] i0 by auto
    then show ?thesis
      unfolding top by simp
  qed
  have "predict_writing_band argsort classify essay = Inr ?r"
    by (rule predict_writing_band_value [of classify essay argsort, OF assms])
  moreover have "length (top_predictions ?r) = 3"
    using len by simp
  moreover have "descending_probability (top_predictions ?r)"
    using srt by simp
  moreover have "top_predictions ?r = map ?g ?top"
    by simp
  moreover have "pred_band ?r = WRITING_BAND_CLASSES ! ?k" "pred_band ?r \<in> set WRITING_BAND_CLASSES"
    using bnd by simp_all
  moreover have "pred_confidence ?r = Max (set ?p)"
    "snd (hd (top_predictions ?r)) = pred_confidence ?r"
    "pred_band ?r \<le> fst (hd (top_predictions ?r))"
    using mx hd_max hd_band by simp_all
  moreover have "\<forall>j < ?k. ?p ! j < Max (set ?p)"
    using lo mx by simp
  ultimately show ?thesis
    using dist sub dom mx by blast
qed

lemma vector_argsort_tie_ok: "is_argsort tie_probs (vector_argsort_tie tie_probs)"
  by (simp add: is_argsort_def vector_argsort_tie_def tie_probs_def)

lemma insertion_argsort_tie_probs:
  "insertion_argsort tie_probs = [4, 5, 6, 7, 8, 9, 10, 11, 2, 3, 0, 1]"
  by (simp add: insertion_argsort_def tie_probs_def)

lemma predict_tie_probs_vector:
  "predict_writing_band vector_argsort_tie (\<lambda>_. tie_probs) sample_essay =
     Inr \<lparr>pred_band = 3.5, pred_confidence = 1/4,
          top_predictions = [(3.5, 1/4), (4.0, 1/4), (4.5, 1/8)]\<rparr>"
  by (simp add: predict_writing_band_def np_argmax_def vector_argsort_tie_def
      WRITING_IDX_TO_BAND_def WRITING_BAND_CLASSES_def)
    (simp add: tie_probs_def)

lemma predict_tie_probs_insertion:
  "predict_writing_band insertion_argsort (\<lambda>_. tie_probs) sample_essay =
     Inr \<lparr>pred_band = 3.5, pred_confidence = 1/4,
          top_predictions = [(4.0, 1/4), (3.5, 1/4), (5.0, 1/8)]\<rparr>"
  by (simp add: predict_writing_band_def np_argmax_def insertion_argsort_tie_probs
      WRITING_IDX_TO_BAND_def WRITING_BAND_CLASSES_def)
    (simp add: tie_probs_def)

theorem predict_writing_band_top3_witness:
  "length ((\<lambda>_. tie_probs) sample_essay) = 12
   \<and> is_argsort tie_probs (vector_argsort_tie tie_probs)
   \<and> (\<exists>r. predict_writing_band vector_argsort_tie (\<lambda>_. tie_probs) sample_essay = Inr r
        \<and> length (top_predictions r) = 3
        \<and> descending_probability (top_predictions r)
        \<and> pred_band r \<in> set WRITING_BAND_CLASSES
        \<and> pred_confidence r = Max (set tie_probs)
        \<and> snd (hd (top_predictions r)) = pred_confidence r
        \<and> pred_band r \<le> fst (hd (top_predictions r)))
   \<and> Max (set tie_probs) = 1/4
   \<and> predict_writing_band vector_argsort_tie (\<lambda>_. tie_probs) sample_essay =
       Inr \<lparr>pred_band = 3.5, pred_confidence = 1/4,
            top_predictions = [(3.5, 1/4), (4.0, 1/4), (4.5, 1/8)]\<rparr>"
proof -
  have l: "length ((\<lambda>_. tie_probs) sample_essay) = 12"
    by (simp add: tie_probs_def)
  have v: "is_argsort ((\<lambda>_. tie_probs) sample_essay)
      (vector_argsort_tie ((\<lambda>_. tie_probs) sample_essay))"
    using vector_argsort_tie_ok by simp
  have m: "Max (set tie_probs) = 1/4"
    by (simp add: tie_probs_def)
  from predict_writing_band_top3 [of "\<lambda>_. tie_probs" sample_essay vector_argsort_tie, OF l v]
    l m vector_argsort_tie_ok predict_tie_probs_vector
  show ?thesis
    by blast
qed

text \<open>
  The claim as stated fails on a tie. Take the classes 0 and 1 tied for the first
  place and for \<^verbatim>\<open>np.argsort\<close> the stable order of numpy's scalar path, an ascending
  order of the indices as any other. The top predictions then list the band 4.0
  before the band 3.5 at the same probability, the higher class index first, and the
  returned band is 3.5, not the band of the first top prediction.
\<close>

theorem top3_tie_not_lower_index_first:
  "50 \<le> length sample_essay
   \<and> length tie_probs = 12 \<and> sum_list tie_probs = 1
   \<and> tie_probs ! 0 = tie_probs ! 1
   \<and> is_argsort tie_probs (insertion_argsort tie_probs)
   \<and> predict_writing_band insertion_argsort (\<lambda>_. tie_probs) sample_essay =
       Inr \<lparr>pred_band = 3.5, pred_confidence = 1/4,
            top_predictions = [(4.0, 1/4), (3.5, 1/4), (5.0, 1/8)]\<rparr>
   \<and> \<not> ties_lower_band_first [(4.0, 1/4), (3.5, 1/4), (5.0, 1/8)]"
proof -
  have "50 \<le> length sample_essay"
    by (simp add: sample_essay_def)
  moreover have "length tie_probs = 12 \<and> sum_list tie_probs = 1 \<and> tie_probs ! 0 = tie_probs ! 1"
    by (simp add: tie_probs_def)
  moreover have "\<not> ties_lower_band_first [(4.0, 1/4), (3.5, 1/4), (5.0, 1/8)]"
    by (simp add: ties_lower_band_first_def)
  ultimately show ?thesis
    using predict_tie_probs_insertion insertion_argsort_ok [of tie_probs] by blast
qed

section \<open>Properties of the CEFR prediction\<close>

lemma app_ID2LABEL_label: "app_ID2LABEL i = Some lvl \<Longrightarrow> lvl \<in> set app_CEFR_LABELS"
  by (auto simp: app_ID2LABEL_def split: if_splits)

lemma service_ID2LABEL_label:
  "speaking_service_ID2LABEL i = Some lvl \<Longrightarrow> lvl \<in> set speaking_service_CEFR_LABELS"
  by (auto simp: speaking_service_ID2LABEL_def split: if_splits)

lemma app_CEFR_TO_IELTS_dom: "dom app_CEFR_TO_IELTS = set app_CEFR_LABELS"
  by (simp add: app_CEFR_TO_IELTS_def app_CEFR_LABELS_def dom_map_of_conv_image_fst)

lemma service_tables_same:
  "speaking_service_CEFR_TO_IELTS = app_CEFR_TO_IELTS"
  "speaking_service_CEFR_LABELS = app_CEFR_LABELS"
  by (simp_all add: speaking_service_CEFR_TO_IELTS_def app_CEFR_TO_IELTS_def
      speaking_service_CEFR_LABELS_def app_CEFR_LABELS_def)

lemma band_of_label:
  "lvl \<in> set app_CEFR_LABELS \<Longrightarrow>
     (case app_CEFR_TO_IELTS lvl of None \<Rightarrow> 0.0 | Some b \<Rightarrow> b) = b' \<Longrightarrow>
     app_CEFR_TO_IELTS lvl = Some b'"
  using app_CEFR_TO_IELTS_dom by (auto split: option.splits)

lemma service_predict_result:
  assumes "speaking_service_predict_cefr_and_band e answer_text w = (Inr (lvl, b), w')"
  shows "lvl \<in> set app_CEFR_LABELS \<and> app_CEFR_TO_IELTS lvl = Some b"
proof -
  from assms obtain i where i: "speaking_service_ID2LABEL i = Some lvl"
    and b: "(case speaking_service_CEFR_TO_IELTS lvl of None \<Rightarrow> 0.0 | Some b \<Rightarrow> b) = b"
    by (auto simp: speaking_service_predict_cefr_and_band_def Let_def
        split: prod.splits sum.splits option.splits)
  from i have "lvl \<in> set app_CEFR_LABELS"
    using service_ID2LABEL_label service_tables_same by metis
  with b show ?thesis
    using band_of_label [of lvl b] by (simp add: service_tables_same)
qed

lemma app_predict_result:
  assumes "app_predict_cefr_and_band e answer_text w = (Inr (lvl, b), w')"
  shows "lvl \<in> set app_CEFR_LABELS \<and> app_CEFR_TO_IELTS lvl = Some b"
proof -
  from assms obtain i where i: "app_ID2LABEL i = Some lvl"
    and b: "(case app_CEFR_TO_IELTS lvl of None \<Rightarrow> 0.0 | Some b \<Rightarrow> b) = b"
    by (auto simp: app_predict_cefr_and_band_def Let_def
        split: prod.splits sum.splits option.splits)
  from i have "lvl \<in> set app_CEFR_LABELS"
    by (rule app_ID2LABEL_label)
  with b show ?thesis
    using band_of_label [of lvl b] by simp
qed

lemma service_predict_returns:
  assumes "service_model_loaded w \<or> service_dir_exists e"
    and "length (service_logits e answer_text) = 6"
  shows "\<exists>lvl b w'. speaking_service_predict_cefr_and_band e answer_text w = (Inr (lvl, b), w')"
proof -
  from assms(2) have ne: "service_logits e answer_text \<noteq> []"
    by auto
  then have "first_max_index (service_logits e answer_text) < 6"
    using first_max_index_props [of "service_logits e answer_text"] assms(2) by simp
  then obtain lvl where "speaking_service_ID2LABEL (first_max_index (service_logits e answer_text)) = Some lvl"
    by (simp add: speaking_service_ID2LABEL_def speaking_service_CEFR_LABELS_def)
  with assms(1) ne show ?thesis
    by (auto simp: speaking_service_predict_cefr_and_band_def speaking_service_load_model_def
        np_argmax_def Let_def)
qed

text \<open>
  Claim C6. The CEFR-to-band table is defined on exactly the six labels A1 to C2, with
  the bands 2.5, 3.5, 5.0, 6.5, 7.5, 8.5, and it is the same table in \<^verbatim>\<open>app.py\<close> and in
  \<^verbatim>\<open>services/speaking_service.py\<close>. Whenever \<^verbatim>\<open>predict_cefr_and_band\<close> returns, in
  either module, from any state and for any text, the level is one of the six labels
  and the band is the table's band of that level: so two calls that predict the same
  level return the same band, whatever the state. The default \<^verbatim>\<open>0.0\<close> of the lookup is
  never returned. With the model in place and six logits the function does return.
\<close>

theorem cefr_to_band_total:
  "dom app_CEFR_TO_IELTS = set app_CEFR_LABELS
   \<and> app_CEFR_LABELS = [''A1'', ''A2'', ''B1'', ''B2'', ''C1'', ''C2'']
   \<and> map app_CEFR_TO_IELTS app_CEFR_LABELS =
       [Some 2.5, Some 3.5, Some 5.0, Some 6.5, Some 7.5, Some 8.5]
   \<and> speaking_service_CEFR_TO_IELTS = app_CEFR_TO_IELTS
   \<and> (speaking_service_predict_cefr_and_band e answer_text w = (Inr (lvl, b), w') \<longrightarrow>
        lvl \<in> set app_CEFR_LABELS \<and> app_CEFR_TO_IELTS lvl = Some b)
   \<and> (app_predict_cefr_and_band e answer_text w = (Inr (lvl, b), w') \<longrightarrow>
        lvl \<in> set app_CEFR_LABELS \<and> app_CEFR_TO_IELTS lvl = Some b)
   \<and> (speaking_service_predict_cefr_and_band e answer_text w = (Inr (lvl, b), w')
        \<and> speaking_service_predict_cefr_and_band e2 answer_text2 w2 = (Inr (lvl, b2), w2') \<longrightarrow> b2 = b)
   \<and> ((service_model_loaded w \<or> service_dir_exists e) \<and> length (service_logits e answer_text) = 6 \<longrightarrow>
        (\<exists>lvl b w'. speaking_service_predict_cefr_and_band e answer_text w = (Inr (lvl, b), w')))"
proof -
  have "map app_CEFR_TO_IELTS app_CEFR_LABELS =
       [Some 2.5, Some 3.5, Some 5.0, Some 6.5, Some 7.5, Some 8.5]"
    by (simp add: app_CEFR_TO_IELTS_def app_CEFR_LABELS_def)
  moreover have "speaking_service_predict_cefr_and_band e answer_text w = (Inr (lvl, b), w')
        \<and> speaking_service_predict_cefr_and_band e2 answer_text2 w2 = (Inr (lvl, b2), w2') \<longrightarrow> b2 = b"
    using service_predict_result [of e answer_text w lvl b w'] service_predict_result [of e2 answer_text2 w2 lvl b2 w2']
    by auto
  ultimately show ?thesis
    using app_CEFR_TO_IELTS_dom service_tables_same(1) service_predict_result [of e answer_text w lvl b w']
      app_predict_result [of e answer_text w lvl b w'] service_predict_returns [of w e answer_text]
    by (simp add: app_CEFR_LABELS_def)
qed

lemma sample_service_predict:
  "speaking_service_predict_cefr_and_band sample_env ''I think that technology helps.'' sample_world =
     (Inr (''B2'', 6.5),
      sample_world\<lparr>service_model_loaded := True,
                   calls := [Cefr ''I think that technology helps.'']\<rparr>)"
  by (simp add: speaking_service_predict_cefr_and_band_def speaking_service_load_model_def
      sample_env_def sample_world_def np_argmax_def speaking_service_ID2LABEL_def
      speaking_service_CEFR_LABELS_def speaking_service_CEFR_TO_IELTS_def)

lemma sample_app_predict:
  "fst (app_predict_cefr_and_band sample_env ''I think that technology helps.'' sample_world) =
     Inr (''B2'', 6.5)"
  by (simp add: app_predict_cefr_and_band_def get_speaking_model_def
      sample_env_def sample_world_def np_argmax_def app_ID2LABEL_def
      app_CEFR_LABELS_def app_CEFR_TO_IELTS_def)

theorem cefr_to_band_total_witness:
  "speaking_service_predict_cefr_and_band sample_env ''I think that technology helps.'' sample_world =
     (Inr (''B2'', 6.5),
      sample_world\<lparr>service_model_loaded := True,
                   calls := [Cefr ''I think that technology helps.'']\<rparr>)
   \<and> ''B2'' \<in> set app_CEFR_LABELS
   \<and> app_CEFR_TO_IELTS ''B2'' = Some 6.5
   \<and> service_dir_exists sample_env
   \<and> length (service_logits sample_env ''I think that technology helps.'') = 6
   \<and> fst (app_predict_cefr_and_band sample_env ''I think that technology helps.'' sample_world) =
       Inr (''B2'', 6.5)"
proof -
  have "service_dir_exists sample_env"
    "length (service_logits sample_env ''I think that technology helps.'') = 6"
    by (simp_all add: sample_env_def)
  with sample_service_predict sample_app_predict
    cefr_to_band_total [of sample_env "''I think that technology helps.''" sample_world "''B2''" "6.5"
      "sample_world\<lparr>service_model_loaded := True, calls := [Cefr ''I think that technology helps.'']\<rparr>"]
  show ?thesis
    by blast
qed

section \<open>Properties of the transcription\<close>

subsection \<open>What \<^verbatim>\<open>transcribe_audio\<close> returns and changes\<close>

lemma whisper_manager_model_frame:
  "whisper_manager_model e w = (r, w1) \<Longrightarrow> files w1 = files w \<and> calls w1 = calls w"
  by (auto simp: whisper_manager_model_def split: if_splits option.splits)

lemma transcribe_audio_files: "files (snd (transcribe_audio e p language tsk inc w)) = files w"
  by (auto simp: transcribe_audio_def Let_def dest: whisper_manager_model_frame
      split: sum.splits prod.splits)

lemma transcribe_audio_calls:
  "calls (snd (transcribe_audio e p language tsk inc w)) = calls w
   \<or> calls (snd (transcribe_audio e p language tsk inc w)) = calls w @ [Asr p]"
  by (auto simp: transcribe_audio_def Let_def dest: whisper_manager_model_frame
      split: sum.splits prod.splits)

lemma transcribe_audio_Inr:
  assumes "transcribe_audio e p language tsk inc w = (Inr r, w')"
  shows "\<exists>out. whisper_transcribe e (files w) p language tsk = Inr out
           \<and> r = make_result out language inc (get_audio_duration e w p)
           \<and> validate_audio_file e w p = Inr ()
           \<and> get_audio_duration e w p \<le> MAX_AUDIO_DURATION_SECONDS
           \<and> calls w' = calls w @ [Asr p]
           \<and> speaking_available w' = speaking_available w
           \<and> speaking_model_loaded w' = speaking_model_loaded w"
  using assms
  by (auto simp: transcribe_audio_def Let_def whisper_manager_model_def
      split: sum.splits prod.splits if_splits option.splits)




lemma transcribe_audio_bytes_Inr:
  assumes "transcribe_audio_bytes e audio_bytes filename language tsk inc w = (Inr r, w')"
  shows "upload_suffix e filename \<in> SUPPORTED_AUDIO_FORMATS
     \<and> (\<exists>w2. transcribe_audio e (temp_name e (upload_suffix e filename)) language tsk inc
               (staged e audio_bytes (upload_suffix e filename) w) = (Inr r, w2)
             \<and> calls w' = calls w2
             \<and> speaking_available w' = speaking_available w2
             \<and> speaking_model_loaded w' = speaking_model_loaded w2)"
  using assms
  by (auto simp: transcribe_audio_bytes_def temp_audio_file_def staged_def Let_def
      split: if_splits prod.splits)

subsection \<open>Runs in the concrete world\<close>

lemma lower_wav: "lower ''.wav'' = ''.wav''"
  by code_simp

lemma plain_suffix_answer: "plain_suffix ''/data/answer.wav'' = ''.wav''"
  by (simp add: plain_suffix_def)

lemma strip_hi: "strip '' Hi. '' = ''Hi.''"
  by (simp add: strip_def is_space_def)






subsection \<open>A file that cannot be decoded\<close>

text \<open>
  Claim C9. When loading the audio fails, \<^verbatim>\<open>get_audio_duration\<close> returns 0.0 and does
  not raise. A file that passed \<^verbatim>\<open>validate_audio_file\<close> then passes the duration check
  as well: \<^verbatim>\<open>transcribe_audio\<close> never ends in an \<^verbatim>\<open>AudioValidationError\<close>, and with the
  model loaded or loadable it invokes the recogniser on the file; if that raises, the
  outcome is the \<^verbatim>\<open>RuntimeError\<close> of the failed transcription, and if it returns, the
  result carries the duration 0. A failing load of the model is a \<^verbatim>\<open>RuntimeError\<close> too.
\<close>

theorem undecodable_audio_reaches_asr:
  assumes "validate_audio_file e w file_path = Inr ()"
    and "load_audio e (files w) file_path = None"
  shows "get_audio_duration e w file_path = 0
     \<and> \<not> get_audio_duration e w file_path > MAX_AUDIO_DURATION_SECONDS
     \<and> (\<forall>problem. fst (transcribe_audio e file_path language tsk inc w)
            \<noteq> Inl (AudioValidationError problem))
     \<and> (whisper_model_loaded w \<or> whisper_load_error e = None \<longrightarrow>
          calls (snd (transcribe_audio e file_path language tsk inc w)) = calls w @ [Asr file_path]
          \<and> fst (transcribe_audio e file_path language tsk inc w) =
              (case whisper_transcribe e (files w) file_path language tsk of
                 Inl msg \<Rightarrow> Inl (RuntimeError (''Transcription failed: '' @ msg))
               | Inr out \<Rightarrow> Inr (make_result out language inc 0)))
     \<and> (\<not> whisper_model_loaded w \<and> whisper_load_error e = Some msg \<longrightarrow>
          fst (transcribe_audio e file_path language tsk inc w) =
            Inl (RuntimeError (''Failed to load Whisper model: '' @ msg)))"
proof -
  have d: "get_audio_duration e w file_path = 0"
    using assms(2) by (simp add: get_audio_duration_def)
  then have n: "\<not> get_audio_duration e w file_path > MAX_AUDIO_DURATION_SECONDS"
    by (simp add: MAX_AUDIO_DURATION_SECONDS_def)
  have "\<forall>problem. fst (transcribe_audio e file_path language tsk inc w)
            \<noteq> Inl (AudioValidationError problem)"
    using assms(1) n
    by (auto simp: transcribe_audio_def Let_def whisper_manager_model_def
        split: sum.splits option.splits)
  moreover have "whisper_model_loaded w \<or> whisper_load_error e = None \<longrightarrow>
          calls (snd (transcribe_audio e file_path language tsk inc w)) = calls w @ [Asr file_path]
          \<and> fst (transcribe_audio e file_path language tsk inc w) =
              (case whisper_transcribe e (files w) file_path language tsk of
                 Inl msg \<Rightarrow> Inl (RuntimeError (''Transcription failed: '' @ msg))
               | Inr out \<Rightarrow> Inr (make_result out language inc 0))"
    using assms(1) n d
    by (auto simp: transcribe_audio_def Let_def whisper_manager_model_def
        split: sum.splits option.splits)
  moreover have "\<not> whisper_model_loaded w \<and> whisper_load_error e = Some msg \<longrightarrow>
          fst (transcribe_audio e file_path language tsk inc w) =
            Inl (RuntimeError (''Failed to load Whisper model: '' @ msg))"
    using assms(1) n
    by (auto simp: transcribe_audio_def Let_def whisper_manager_model_def)
  ultimately show ?thesis
    using d n by blast
qed

lemma undecodable_validate:
  "validate_audio_file undecodable_env sample_world ''/data/answer.wav'' = Inr ()"
  by (simp add: validate_audio_file_def undecodable_env_def sample_env_def sample_world_def
      plain_suffix_answer lower_wav SUPPORTED_AUDIO_FORMATS_def max_size_bytes_def)

theorem undecodable_audio_reaches_asr_witness:
  "validate_audio_file undecodable_env sample_world ''/data/answer.wav'' = Inr ()
   \<and> load_audio undecodable_env (files sample_world) ''/data/answer.wav'' = None
   \<and> whisper_load_error undecodable_env = None
   \<and> get_audio_duration undecodable_env sample_world ''/data/answer.wav'' = 0
   \<and> calls (snd (transcribe_audio undecodable_env ''/data/answer.wav'' ''en'' Transcribe False
         sample_world)) = [Asr ''/data/answer.wav'']
   \<and> fst (transcribe_audio undecodable_env ''/data/answer.wav'' ''en'' Transcribe False sample_world) =
       Inl (RuntimeError ''Transcription failed: Invalid data found when processing input'')
   \<and> \<not> whisper_model_loaded sample_world
   \<and> whisper_load_error unloadable_env = Some ''CUDA out of memory''
   \<and> fst (transcribe_audio unloadable_env ''/data/answer.wav'' ''en'' Transcribe False sample_world) =
       Inl (RuntimeError ''Failed to load Whisper model: CUDA out of memory'')"
proof -
  have l: "load_audio undecodable_env (files sample_world) ''/data/answer.wav'' = None"
    and m: "whisper_load_error undecodable_env = None"
    and t: "whisper_transcribe undecodable_env (files sample_world) ''/data/answer.wav'' ''en''
        Transcribe = Inl ''Invalid data found when processing input''"
    and c: "calls sample_world = []"
    by (simp_all add: undecodable_env_def sample_env_def sample_world_def)
  from undecodable_audio_reaches_asr [OF undecodable_validate l, of "''en''" Transcribe False] m
  have "get_audio_duration undecodable_env sample_world ''/data/answer.wav'' = 0"
    and "calls (snd (transcribe_audio undecodable_env ''/data/answer.wav'' ''en'' Transcribe False
         sample_world)) = calls sample_world @ [Asr ''/data/answer.wav'']"
    and "fst (transcribe_audio undecodable_env ''/data/answer.wav'' ''en'' Transcribe False
         sample_world) =
       (case whisper_transcribe undecodable_env (files sample_world) ''/data/answer.wav'' ''en''
          Transcribe of
          Inl msg \<Rightarrow> Inl (RuntimeError (''Transcription failed: '' @ msg))
        | Inr out \<Rightarrow> Inr (make_result out ''en'' False 0))"
    by blast+
  then have first: "get_audio_duration undecodable_env sample_world ''/data/answer.wav'' = 0"
    "calls (snd (transcribe_audio undecodable_env ''/data/answer.wav'' ''en'' Transcribe False
         sample_world)) = [Asr ''/data/answer.wav'']"
    "fst (transcribe_audio undecodable_env ''/data/answer.wav'' ''en'' Transcribe False sample_world) =
       Inl (RuntimeError ''Transcription failed: Invalid data found when processing input'')"
    unfolding t c by simp_all
  have v2: "validate_audio_file unloadable_env sample_world ''/data/answer.wav'' = Inr ()"
    by (simp add: validate_audio_file_def unloadable_env_def undecodable_env_def sample_env_def
        sample_world_def plain_suffix_answer lower_wav SUPPORTED_AUDIO_FORMATS_def
        max_size_bytes_def)
  have l2: "load_audio unloadable_env (files sample_world) ''/data/answer.wav'' = None"
    and m2: "whisper_load_error unloadable_env = Some ''CUDA out of memory''"
    and n2: "\<not> whisper_model_loaded sample_world"
    by (simp_all add: unloadable_env_def undecodable_env_def sample_world_def)
  from undecodable_audio_reaches_asr [OF v2 l2, of "''en''" Transcribe False "''CUDA out of memory''"]
    m2 n2
  have "fst (transcribe_audio unloadable_env ''/data/answer.wav'' ''en'' Transcribe False sample_world) =
       Inl (RuntimeError (''Failed to load Whisper model: '' @ ''CUDA out of memory''))"
    by blast
  with undecodable_validate l m first m2 n2 show ?thesis
    by simp
qed

subsection \<open>The order of the validation checks\<close>

lemma lower_supported_formats:
  "lower ''.mp3'' = ''.mp3''" "lower ''.m4a'' = ''.m4a''" "lower ''.flac'' = ''.flac''"
  "lower ''.ogg'' = ''.ogg''" "lower ''.webm'' = ''.webm''" "lower ''.mp4'' = ''.mp4''"
  by code_simp+

lemma supported_lower: "s \<in> SUPPORTED_AUDIO_FORMATS \<Longrightarrow> lower s = s"
  by (auto simp: SUPPORTED_AUDIO_FORMATS_def lower_supported_formats lower_wav)

lemma validate_staged:
  assumes "suffix \<in> SUPPORTED_AUDIO_FORMATS"
    and "path_suffix e (temp_name e suffix) = suffix"
  shows "validate_audio_file e (staged e audio_bytes suffix w) (temp_name e suffix) =
     (if length audio_bytes > max_size_bytes
      then Inl (AudioValidationError (TooLarge (length audio_bytes)))
      else if length audio_bytes = 0 then Inl (AudioValidationError EmptyFile)
      else Inr ())"
  using assms by (simp add: validate_audio_file_def staged_def supported_lower Let_def)

lemma transcribe_audio_bytes_supported:
  assumes "upload_suffix e filename \<in> SUPPORTED_AUDIO_FORMATS"
  shows "fst (transcribe_audio_bytes e audio_bytes filename language tsk inc w) =
     fst (transcribe_audio e (temp_name e (upload_suffix e filename)) language tsk inc
            (staged e audio_bytes (upload_suffix e filename) w))"
  using assms
  by (simp add: transcribe_audio_bytes_def temp_audio_file_def staged_def Let_def
      split: prod.splits)

lemma audio_messages_distinct:
  "distinct [str_audio_problem e (UnsupportedUpload suffix), str_audio_problem e (TooLarge n),
     str_audio_problem e EmptyFile, str_audio_problem e (TooLong d)]"
  by (simp add: str_audio_problem_def)

text \<open>
  Claim C1, as the code has it. \<^verbatim>\<open>transcribe_audio_bytes\<close> applies its four checks in
  this order: (1) the extension of the file name, lowered, with \<^verbatim>\<open>.wav\<close> for a name
  without one, is in the supported set; (2) the byte length is at most 25 MiB; (3) the
  byte length is not 0; (4) the decoded duration is at most 300 seconds. Each failure
  is an \<^verbatim>\<open>AudioValidationError\<close> with a reason and a message of its own, and the first
  failing check of this order decides the reason. A payload that passes all four does
  not end in an \<^verbatim>\<open>AudioValidationError\<close>. The assumption reads the contract of the
  temporary file: created with a supported suffix, its name ends in that suffix.
\<close>

theorem validation_order:
  assumes "upload_suffix e filename \<in> SUPPORTED_AUDIO_FORMATS \<Longrightarrow>
     path_suffix e (temp_name e (upload_suffix e filename)) = upload_suffix e filename"
  shows "(upload_suffix e filename \<notin> SUPPORTED_AUDIO_FORMATS \<longrightarrow>
        fst (transcribe_audio_bytes e audio_bytes filename language tsk inc w) =
          Inl (AudioValidationError (UnsupportedUpload (upload_suffix e filename))))
     \<and> (upload_suffix e filename \<in> SUPPORTED_AUDIO_FORMATS
          \<and> length audio_bytes > 25 * 1024 * 1024 \<longrightarrow>
        fst (transcribe_audio_bytes e audio_bytes filename language tsk inc w) =
          Inl (AudioValidationError (TooLarge (length audio_bytes))))
     \<and> (upload_suffix e filename \<in> SUPPORTED_AUDIO_FORMATS \<and> length audio_bytes = 0 \<longrightarrow>
        fst (transcribe_audio_bytes e audio_bytes filename language tsk inc w) =
          Inl (AudioValidationError EmptyFile))
     \<and> (upload_suffix e filename \<in> SUPPORTED_AUDIO_FORMATS
          \<and> 0 < length audio_bytes \<and> length audio_bytes \<le> 25 * 1024 * 1024
          \<and> get_audio_duration e (staged e audio_bytes (upload_suffix e filename) w)
               (temp_name e (upload_suffix e filename)) > 300 \<longrightarrow>
        fst (transcribe_audio_bytes e audio_bytes filename language tsk inc w) =
          Inl (AudioValidationError (TooLong
            (get_audio_duration e (staged e audio_bytes (upload_suffix e filename) w)
               (temp_name e (upload_suffix e filename))))))
     \<and> (upload_suffix e filename \<in> SUPPORTED_AUDIO_FORMATS
          \<and> 0 < length audio_bytes \<and> length audio_bytes \<le> 25 * 1024 * 1024
          \<and> get_audio_duration e (staged e audio_bytes (upload_suffix e filename) w)
               (temp_name e (upload_suffix e filename)) \<le> 300 \<longrightarrow>
        (\<forall>problem. fst (transcribe_audio_bytes e audio_bytes filename language tsk inc w)
            \<noteq> Inl (AudioValidationError problem)))
     \<and> upload_suffix e filename =
         (if lower (path_suffix e filename) = [] then ''.wav'' else lower (path_suffix e filename))
     \<and> distinct [str_audio_problem e (UnsupportedUpload suffix), str_audio_problem e (TooLarge n),
         str_audio_problem e EmptyFile, str_audio_problem e (TooLong d)]"
proof -
  let ?sfx = "upload_suffix e filename"
  let ?tmp = "temp_name e ?sfx"
  let ?w = "staged e audio_bytes ?sfx w"
  let ?r = "fst (transcribe_audio_bytes e audio_bytes filename language tsk inc w)"
  have unsupported: "?r = Inl (AudioValidationError (UnsupportedUpload ?sfx))"
    if "?sfx \<notin> SUPPORTED_AUDIO_FORMATS"
    using that by (simp add: transcribe_audio_bytes_def Let_def)
  have inner: "?r = fst (transcribe_audio e ?tmp language tsk inc ?w)"
    if "?sfx \<in> SUPPORTED_AUDIO_FORMATS"
    using that by (rule transcribe_audio_bytes_supported)
  have v: "validate_audio_file e ?w ?tmp =
     (if length audio_bytes > max_size_bytes
      then Inl (AudioValidationError (TooLarge (length audio_bytes)))
      else if length audio_bytes = 0 then Inl (AudioValidationError EmptyFile)
      else Inr ())"
    if "?sfx \<in> SUPPORTED_AUDIO_FORMATS"
    using that assms [OF that] by (rule validate_staged)
  have large: "?r = Inl (AudioValidationError (TooLarge (length audio_bytes)))"
    if "?sfx \<in> SUPPORTED_AUDIO_FORMATS" "length audio_bytes > 25 * 1024 * 1024"
    using that inner v by (simp add: transcribe_audio_def max_size_bytes_def)
  have empty: "?r = Inl (AudioValidationError EmptyFile)"
    if "?sfx \<in> SUPPORTED_AUDIO_FORMATS" "length audio_bytes = 0"
    using that inner v by (simp add: transcribe_audio_def max_size_bytes_def)
  have long: "?r = Inl (AudioValidationError (TooLong (get_audio_duration e ?w ?tmp)))"
    if "?sfx \<in> SUPPORTED_AUDIO_FORMATS" "0 < length audio_bytes"
      "length audio_bytes \<le> 25 * 1024 * 1024" "get_audio_duration e ?w ?tmp > 300"
    using that inner v
    by (simp add: transcribe_audio_def max_size_bytes_def MAX_AUDIO_DURATION_SECONDS_def Let_def)
  have pass: "?r \<noteq> Inl (AudioValidationError problem)"
    if "?sfx \<in> SUPPORTED_AUDIO_FORMATS" "0 < length audio_bytes"
      "length audio_bytes \<le> 25 * 1024 * 1024" "get_audio_duration e ?w ?tmp \<le> 300" for problem
    using that inner v
    by (auto simp: transcribe_audio_def max_size_bytes_def MAX_AUDIO_DURATION_SECONDS_def Let_def
        whisper_manager_model_def split: sum.splits option.splits)
  have "?sfx = (if lower (path_suffix e filename) = [] then ''.wav'' else lower (path_suffix e filename))"
    by (simp add: upload_suffix_def Let_def)
  with unsupported large empty long pass audio_messages_distinct [of e suffix n d]
  show ?thesis
    by blast
qed

lemma plain_suffix_samples:
  "plain_suffix ''Answer.WAV'' = ''.WAV''"
  "plain_suffix ''answer.wav'' = ''.wav''"
  "plain_suffix ''answer.xyz'' = ''.xyz''"
  "plain_suffix ''/tmp/tmpk3x9_a1b.wav'' = ''.wav''"
  by (simp_all add: plain_suffix_def)

lemma lower_samples:
  "lower ''.WAV'' = ''.wav''"
  "lower ''.xyz'' = ''.xyz''"
  by code_simp+

lemma sample_upload_suffix:
  "upload_suffix sample_env ''Answer.WAV'' = ''.wav''"
  "upload_suffix sample_env ''answer.wav'' = ''.wav''"
  "upload_suffix sample_env ''answer.xyz'' = ''.xyz''"
  by (simp_all add: upload_suffix_def sample_env_def plain_suffix_samples lower_samples lower_wav)

lemma sample_temp_contract:
  "path_suffix sample_env (temp_name sample_env ''.wav'') = ''.wav''"
  by (simp add: sample_env_def plain_suffix_samples)

lemma wav_supported: "''.wav'' \<in> SUPPORTED_AUDIO_FORMATS"
  by (simp add: SUPPORTED_AUDIO_FORMATS_def)

lemma xyz_unsupported: "''.xyz'' \<notin> SUPPORTED_AUDIO_FORMATS"
  by (simp add: SUPPORTED_AUDIO_FORMATS_def)

lemma long_env_fields:
  "path_suffix long_audio_env = path_suffix sample_env"
  "temp_name long_audio_env = temp_name sample_env"
  "upload_suffix long_audio_env = upload_suffix sample_env"
  by (simp_all add: long_audio_env_def upload_suffix_def fun_eq_iff)

lemma long_env_duration:
  "get_audio_duration long_audio_env w p = 310"
  by (simp add: get_audio_duration_def long_audio_env_def SAMPLE_RATE_def)

theorem validation_order_witness:
  "path_suffix long_audio_env (temp_name long_audio_env (upload_suffix long_audio_env ''Answer.WAV''))
     = upload_suffix long_audio_env ''Answer.WAV''
   \<and> upload_suffix long_audio_env ''Answer.WAV'' \<in> SUPPORTED_AUDIO_FORMATS
   \<and> 0 < length riff \<and> length riff \<le> 25 * 1024 * 1024
   \<and> get_audio_duration long_audio_env (staged long_audio_env riff ''.wav'' sample_world)
        (temp_name long_audio_env ''.wav'') > 300
   \<and> fst (transcribe_audio_bytes long_audio_env riff ''Answer.WAV'' ''en'' Transcribe False
        sample_world) = Inl (AudioValidationError (TooLong 310))
   \<and> fst (transcribe_audio_bytes long_audio_env (replicate (26 * 1024 * 1024) 0) ''Answer.WAV''
        ''en'' Transcribe False sample_world) =
       Inl (AudioValidationError (TooLarge (26 * 1024 * 1024)))
   \<and> fst (transcribe_audio_bytes long_audio_env [] ''Answer.WAV'' ''en'' Transcribe False
        sample_world) = Inl (AudioValidationError EmptyFile)
   \<and> upload_suffix sample_env ''answer.xyz'' \<notin> SUPPORTED_AUDIO_FORMATS
   \<and> fst (transcribe_audio_bytes sample_env riff ''answer.xyz'' ''en'' Transcribe False
        sample_world) = Inl (AudioValidationError (UnsupportedUpload ''.xyz''))
   \<and> get_audio_duration sample_env (staged sample_env riff ''.wav'' sample_world)
        (temp_name sample_env ''.wav'') \<le> 300
   \<and> fst (transcribe_audio_bytes sample_env riff ''answer.wav'' ''en'' Transcribe False
        sample_world) \<noteq> Inl (AudioValidationError (TooLong 4))"
proof -
  let ?e = long_audio_env
  have sfx: "upload_suffix ?e ''Answer.WAV'' = ''.wav''"
    by (simp add: long_env_fields sample_upload_suffix)
  have c: "path_suffix ?e (temp_name ?e (upload_suffix ?e ''Answer.WAV'')) =
      upload_suffix ?e ''Answer.WAV''"
    by (simp add: long_env_fields sample_upload_suffix sample_temp_contract)
  have s: "upload_suffix ?e ''Answer.WAV'' \<in> SUPPORTED_AUDIO_FORMATS"
    unfolding sfx by (rule wav_supported)
  have n: "0 < length riff" "length riff \<le> 25 * 1024 * 1024"
    by (simp_all add: riff_def)
  have big: "length (replicate (26 * 1024 * 1024) (0::nat)) > 25 * 1024 * 1024"
    "length (replicate (26 * 1024 * 1024) (0::nat)) = 26 * 1024 * 1024"
    by simp_all
  have d: "get_audio_duration ?e (staged ?e riff ''.wav'' sample_world) (temp_name ?e ''.wav'') > 300"
    by (simp add: long_env_duration)
  have "fst (transcribe_audio_bytes ?e riff ''Answer.WAV'' ''en'' Transcribe False sample_world) =
      Inl (AudioValidationError (TooLong 310))"
    using validation_order [OF c, of riff "''en''" Transcribe False sample_world] s n d
    unfolding sfx by (simp add: long_env_duration)
  moreover have "fst (transcribe_audio_bytes ?e (replicate (26 * 1024 * 1024) 0) ''Answer.WAV''
        ''en'' Transcribe False sample_world) =
       Inl (AudioValidationError (TooLarge (26 * 1024 * 1024)))"
    using validation_order [OF c, of "replicate (26 * 1024 * 1024) 0" "''en''" Transcribe False
        sample_world] s big
    by metis
  moreover have "fst (transcribe_audio_bytes ?e [] ''Answer.WAV'' ''en'' Transcribe False
        sample_world) = Inl (AudioValidationError EmptyFile)"
    using validation_order [OF c, of "[]" "''en''" Transcribe False sample_world] s
    by simp
  moreover have "upload_suffix sample_env ''answer.xyz'' \<notin> SUPPORTED_AUDIO_FORMATS"
    by (simp add: sample_upload_suffix xyz_unsupported)
  moreover have "fst (transcribe_audio_bytes sample_env riff ''answer.xyz'' ''en'' Transcribe False
        sample_world) = Inl (AudioValidationError (UnsupportedUpload ''.xyz''))"
    using validation_order [of sample_env "''answer.xyz''" riff "''en''" Transcribe False sample_world]
    by (simp add: sample_upload_suffix xyz_unsupported)
  moreover have p: "get_audio_duration sample_env (staged sample_env riff ''.wav'' sample_world)
        (temp_name sample_env ''.wav'') \<le> 300"
    by (simp add: get_audio_duration_def sample_env_def staged_def riff_def SAMPLE_RATE_def)
  moreover have "fst (transcribe_audio_bytes sample_env riff ''answer.wav'' ''en'' Transcribe False
        sample_world) \<noteq> Inl (AudioValidationError (TooLong 4))"
    using validation_order [of sample_env "''answer.wav''" riff "''en''" Transcribe False sample_world]
      n p
    by (simp add: sample_upload_suffix wav_supported sample_temp_contract)
  ultimately show ?thesis
    using c s n d by blast
qed

text \<open>
  The claim as stated fails on an empty payload under an unsupported file name. The
  claim's first check, the byte length, would reject it as empty; the code checks the
  extension first and rejects it as an unsupported format.
\<close>

theorem empty_payload_rejected_for_its_suffix:
  "length ([] :: bytes) = 0
   \<and> upload_suffix sample_env ''answer.xyz'' = ''.xyz''
   \<and> ''.xyz'' \<notin> SUPPORTED_AUDIO_FORMATS
   \<and> fst (transcribe_audio_bytes sample_env [] ''answer.xyz'' ''en'' Transcribe False sample_world)
       = Inl (AudioValidationError (UnsupportedUpload ''.xyz''))
   \<and> fst (transcribe_audio_bytes sample_env [] ''answer.xyz'' ''en'' Transcribe False sample_world)
       \<noteq> Inl (AudioValidationError EmptyFile)"
proof -
  have "fst (transcribe_audio_bytes sample_env [] ''answer.xyz'' ''en'' Transcribe False sample_world)
       = Inl (AudioValidationError (UnsupportedUpload ''.xyz''))"
    by (simp add: transcribe_audio_bytes_def sample_upload_suffix xyz_unsupported)
  then show ?thesis
    using sample_upload_suffix(3) xyz_unsupported by simp
qed

subsection \<open>The temporary file\<close>

lemma temp_file_after:
  assumes "upload_suffix e filename \<in> SUPPORTED_AUDIO_FORMATS"
    and "temp_name e (upload_suffix e filename) \<noteq> []"
  shows "files (snd (transcribe_audio_bytes e audio_bytes filename language tsk inc w)) =
     (if unlink_raises e (temp_name e (upload_suffix e filename))
      then (files w)(temp_name e (upload_suffix e filename) \<mapsto> audio_bytes)
      else (files w)(temp_name e (upload_suffix e filename) := None))"
proof -
  let ?tmp = "temp_name e (upload_suffix e filename)"
  let ?w1 = "w\<lparr>files := (files w)(?tmp \<mapsto> audio_bytes)\<rparr>"
  have "files (snd (transcribe_audio e ?tmp language tsk inc ?w1)) = (files w)(?tmp \<mapsto> audio_bytes)"
    by (simp add: transcribe_audio_files)
  then show ?thesis
    using assms
    by (auto simp: transcribe_audio_bytes_def temp_audio_file_def Let_def split: prod.splits)
qed

text \<open>
  Claim C8, as the code has it. Once the suffix check has passed, the payload is
  written to a temporary file and the \<^verbatim>\<open>finally\<close> clause runs on every way out of the
  transcription: whatever \<^verbatim>\<open>transcribe_audio\<close> ends in (a result, a validation error,
  an exception of the recogniser) is the outcome of the operation, and when
  \<^verbatim>\<open>os.unlink\<close> succeeds the temporary file is gone and every other file is as before.
  (When the suffix check fails no file is created and the state is unchanged.)
  When \<^verbatim>\<open>os.unlink\<close> raises, the exception is caught and the file stays, holding the
  payload: the release is attempted on every path, not guaranteed.
\<close>

theorem temp_file_released:
  "(upload_suffix e filename \<notin> SUPPORTED_AUDIO_FORMATS \<longrightarrow>
      snd (transcribe_audio_bytes e audio_bytes filename language tsk inc w) = w)
   \<and> (upload_suffix e filename \<in> SUPPORTED_AUDIO_FORMATS
        \<and> temp_name e (upload_suffix e filename) \<noteq> [] \<longrightarrow>
      fst (transcribe_audio_bytes e audio_bytes filename language tsk inc w) =
        fst (transcribe_audio e (temp_name e (upload_suffix e filename)) language tsk inc
               (staged e audio_bytes (upload_suffix e filename) w))
      \<and> (\<not> unlink_raises e (temp_name e (upload_suffix e filename)) \<longrightarrow>
           files (snd (transcribe_audio_bytes e audio_bytes filename language tsk inc w))
             (temp_name e (upload_suffix e filename)) = None
           \<and> (\<forall>q. q \<noteq> temp_name e (upload_suffix e filename) \<longrightarrow>
                 files (snd (transcribe_audio_bytes e audio_bytes filename language tsk inc w)) q
                   = files w q))
      \<and> (\<not> unlink_raises e (temp_name e (upload_suffix e filename))
           \<and> files w (temp_name e (upload_suffix e filename)) = None \<longrightarrow>
           files (snd (transcribe_audio_bytes e audio_bytes filename language tsk inc w)) = files w)
      \<and> (unlink_raises e (temp_name e (upload_suffix e filename)) \<longrightarrow>
           files (snd (transcribe_audio_bytes e audio_bytes filename language tsk inc w))
             (temp_name e (upload_suffix e filename)) = Some audio_bytes))"
proof -
  let ?tmp = "temp_name e (upload_suffix e filename)"
  have no_file: "snd (transcribe_audio_bytes e audio_bytes filename language tsk inc w) = w"
    if "upload_suffix e filename \<notin> SUPPORTED_AUDIO_FORMATS"
    using that by (simp add: transcribe_audio_bytes_def Let_def)
  have idem: "(files w)(?tmp := None) = files w" if "files w ?tmp = None"
    using that by (simp add: fun_upd_idem)
  show ?thesis
  proof (cases "upload_suffix e filename \<in> SUPPORTED_AUDIO_FORMATS \<and> ?tmp \<noteq> []")
    case True
    then have s: "upload_suffix e filename \<in> SUPPORTED_AUDIO_FORMATS" and ne: "?tmp \<noteq> []"
      by simp_all
    note after = temp_file_after [OF s ne, of audio_bytes language tsk inc w]
    from after idem transcribe_audio_bytes_supported [OF s, of audio_bytes language tsk inc w] s
    show ?thesis
      by simp
  next
    case False
    with no_file show ?thesis
      by blast
  qed
qed

lemma transcribe_audio_pass:
  assumes "validate_audio_file e w p = Inr ()"
    and "get_audio_duration e w p \<le> MAX_AUDIO_DURATION_SECONDS"
    and "whisper_model_loaded w \<or> whisper_load_error e = None"
  shows "fst (transcribe_audio e p language tsk inc w) =
     (case whisper_transcribe e (files w) p language tsk of
        Inl msg \<Rightarrow> Inl (RuntimeError (''Transcription failed: '' @ msg))
      | Inr out \<Rightarrow> Inr (make_result out language inc (get_audio_duration e w p)))"
  using assms
  by (auto simp: transcribe_audio_def Let_def whisper_manager_model_def
      split: sum.splits option.splits)

lemma sample_make_result_plain:
  "make_result sample_output ''en'' False 4 =
     \<lparr>tr_text = ''Hi.'', tr_language = ''en'', tr_duration = 4,
      tr_segments = [], tr_confidence = None\<rparr>"
  by (simp add: make_result_def sample_output_def strip_hi segments_confidence_def)

lemma sample_bytes_outcome:
  "fst (transcribe_audio_bytes sample_env riff ''answer.wav'' ''en'' Transcribe False sample_world) =
     Inr \<lparr>tr_text = ''Hi.'', tr_language = ''en'', tr_duration = 4,
          tr_segments = [], tr_confidence = None\<rparr>"
proof -
  let ?w = "staged sample_env riff ''.wav'' sample_world"
  let ?tmp = "temp_name sample_env ''.wav''"
  have v: "validate_audio_file sample_env ?w ?tmp = Inr ()"
    using validate_staged [OF wav_supported sample_temp_contract, of riff sample_world]
    by (simp add: riff_def max_size_bytes_def)
  have d: "get_audio_duration sample_env ?w ?tmp = 4"
    by (simp add: get_audio_duration_def sample_env_def staged_def riff_def SAMPLE_RATE_def)
  have m: "whisper_load_error sample_env = None"
    and t: "whisper_transcribe sample_env (files ?w) ?tmp ''en'' Transcribe = Inr sample_output"
    by (simp_all add: sample_env_def)
  have "fst (transcribe_audio sample_env ?tmp ''en'' Transcribe False ?w) =
      Inr (make_result sample_output ''en'' False 4)"
    using transcribe_audio_pass [of sample_env ?w ?tmp "''en''" Transcribe False] v d m t
    by (simp add: MAX_AUDIO_DURATION_SECONDS_def)
  then show ?thesis
    using transcribe_audio_bytes_supported [of sample_env "''answer.wav''" riff "''en''" Transcribe
        False sample_world]
    by (simp add: sample_upload_suffix wav_supported sample_make_result_plain)
qed

lemma undecodable_env_fields:
  "path_suffix undecodable_env = path_suffix sample_env"
  "temp_name undecodable_env = temp_name sample_env"
  "upload_suffix undecodable_env = upload_suffix sample_env"
  "unlink_raises undecodable_env = unlink_raises sample_env"
  "whisper_load_error undecodable_env = None"
  by (simp_all add: undecodable_env_def sample_env_def upload_suffix_def fun_eq_iff)

lemma undecodable_bytes_outcome:
  "fst (transcribe_audio_bytes undecodable_env riff ''answer.wav'' ''en'' Transcribe False
     sample_world) =
     Inl (RuntimeError ''Transcription failed: Invalid data found when processing input'')"
proof -
  let ?e = undecodable_env
  let ?w = "staged ?e riff ''.wav'' sample_world"
  let ?tmp = "temp_name ?e ''.wav''"
  have c: "path_suffix ?e ?tmp = ''.wav''"
    by (simp add: undecodable_env_fields sample_temp_contract)
  have v: "validate_audio_file ?e ?w ?tmp = Inr ()"
    using validate_staged [OF wav_supported c, of riff sample_world]
    by (simp add: riff_def max_size_bytes_def)
  have d: "get_audio_duration ?e ?w ?tmp = 0"
    by (simp add: get_audio_duration_def undecodable_env_def)
  have t: "whisper_transcribe ?e (files ?w) ?tmp ''en'' Transcribe =
      Inl ''Invalid data found when processing input''"
    by (simp add: undecodable_env_def)
  have "fst (transcribe_audio ?e ?tmp ''en'' Transcribe False ?w) =
      Inl (RuntimeError ''Transcription failed: Invalid data found when processing input'')"
    using transcribe_audio_pass [of ?e ?w ?tmp "''en''" Transcribe False] v d t
    by (simp add: MAX_AUDIO_DURATION_SECONDS_def undecodable_env_fields)
  then show ?thesis
    using transcribe_audio_bytes_supported [of ?e "''answer.wav''" riff "''en''" Transcribe
        False sample_world]
    by (simp add: undecodable_env_fields sample_upload_suffix wav_supported)
qed

lemma long_bytes_outcome:
  "fst (transcribe_audio_bytes long_audio_env riff ''answer.wav'' ''en'' Transcribe False
     sample_world) = Inl (AudioValidationError (TooLong 310))"
proof -
  let ?e = long_audio_env
  let ?w = "staged ?e riff ''.wav'' sample_world"
  let ?tmp = "temp_name ?e ''.wav''"
  have c: "path_suffix ?e ?tmp = ''.wav''"
    by (simp add: long_env_fields sample_temp_contract)
  have v: "validate_audio_file ?e ?w ?tmp = Inr ()"
    using validate_staged [OF wav_supported c, of riff sample_world]
    by (simp add: riff_def max_size_bytes_def)
  have "fst (transcribe_audio ?e ?tmp ''en'' Transcribe False ?w) =
      Inl (AudioValidationError (TooLong 310))"
    by (simp add: transcribe_audio_def v long_env_duration MAX_AUDIO_DURATION_SECONDS_def)
  then show ?thesis
    using transcribe_audio_bytes_supported [of ?e "''answer.wav''" riff "''en''" Transcribe
        False sample_world]
    by (simp add: long_env_fields sample_upload_suffix wav_supported)
qed

lemma sample_temp_fresh: "files sample_world (temp_name sample_env ''.wav'') = None"
  by (simp add: sample_world_def sample_env_def)

lemma sample_temp_named: "temp_name sample_env ''.wav'' = ''/tmp/tmpk3x9_a1b.wav''"
  by (simp add: sample_env_def)

lemma unlink_failing_env_fields:
  "upload_suffix unlink_failing_env = upload_suffix sample_env"
  "temp_name unlink_failing_env = temp_name sample_env"
  "unlink_raises unlink_failing_env ''/tmp/tmpk3x9_a1b.wav''"
  by (simp_all add: unlink_failing_env_def upload_suffix_def fun_eq_iff)

theorem temp_file_released_witness:
  "upload_suffix sample_env ''answer.wav'' \<in> SUPPORTED_AUDIO_FORMATS
   \<and> temp_name sample_env (upload_suffix sample_env ''answer.wav'') = ''/tmp/tmpk3x9_a1b.wav''
   \<and> \<not> unlink_raises sample_env ''/tmp/tmpk3x9_a1b.wav''
   \<and> files sample_world ''/tmp/tmpk3x9_a1b.wav'' = None
   \<and> fst (transcribe_audio_bytes sample_env riff ''answer.wav'' ''en'' Transcribe False sample_world) =
       Inr \<lparr>tr_text = ''Hi.'', tr_language = ''en'', tr_duration = 4,
            tr_segments = [], tr_confidence = None\<rparr>
   \<and> files (snd (transcribe_audio_bytes sample_env riff ''answer.wav'' ''en'' Transcribe False
        sample_world)) = files sample_world
   \<and> fst (transcribe_audio_bytes long_audio_env riff ''answer.wav'' ''en'' Transcribe False
        sample_world) = Inl (AudioValidationError (TooLong 310))
   \<and> files (snd (transcribe_audio_bytes long_audio_env riff ''answer.wav'' ''en'' Transcribe False
        sample_world)) = files sample_world
   \<and> fst (transcribe_audio_bytes undecodable_env riff ''answer.wav'' ''en'' Transcribe False
        sample_world) =
       Inl (RuntimeError ''Transcription failed: Invalid data found when processing input'')
   \<and> files (snd (transcribe_audio_bytes undecodable_env riff ''answer.wav'' ''en'' Transcribe False
        sample_world)) = files sample_world
   \<and> snd (transcribe_audio_bytes sample_env riff ''answer.xyz'' ''en'' Transcribe False
        sample_world) = sample_world
   \<and> unlink_raises unlink_failing_env ''/tmp/tmpk3x9_a1b.wav''
   \<and> files (snd (transcribe_audio_bytes unlink_failing_env riff ''answer.wav'' ''en'' Transcribe
        False sample_world)) ''/tmp/tmpk3x9_a1b.wav'' \<noteq> None"
proof -
  have s: "upload_suffix sample_env ''answer.wav'' \<in> SUPPORTED_AUDIO_FORMATS"
    "upload_suffix long_audio_env ''answer.wav'' \<in> SUPPORTED_AUDIO_FORMATS"
    "upload_suffix undecodable_env ''answer.wav'' \<in> SUPPORTED_AUDIO_FORMATS"
    by (simp_all add: long_env_fields undecodable_env_fields sample_upload_suffix wav_supported)
  have t: "temp_name sample_env (upload_suffix sample_env ''answer.wav'') = ''/tmp/tmpk3x9_a1b.wav''"
    "temp_name long_audio_env (upload_suffix long_audio_env ''answer.wav'') = ''/tmp/tmpk3x9_a1b.wav''"
    "temp_name undecodable_env (upload_suffix undecodable_env ''answer.wav'') = ''/tmp/tmpk3x9_a1b.wav''"
    by (simp_all add: long_env_fields undecodable_env_fields sample_upload_suffix sample_temp_named)
  have u: "\<not> unlink_raises sample_env ''/tmp/tmpk3x9_a1b.wav''"
    "\<not> unlink_raises long_audio_env ''/tmp/tmpk3x9_a1b.wav''"
    "\<not> unlink_raises undecodable_env ''/tmp/tmpk3x9_a1b.wav''"
    by (simp_all add: sample_env_def long_audio_env_def undecodable_env_def)
  have f: "files sample_world ''/tmp/tmpk3x9_a1b.wav'' = None"
    using sample_temp_fresh by (simp add: sample_temp_named)
  have "files (snd (transcribe_audio_bytes sample_env riff ''answer.wav'' ''en'' Transcribe False
        sample_world)) = files sample_world"
    using temp_file_released [of sample_env "''answer.wav''" riff "''en''" Transcribe False
        sample_world] s(1) u(1) f
    unfolding t by simp
  moreover have "files (snd (transcribe_audio_bytes long_audio_env riff ''answer.wav'' ''en''
        Transcribe False sample_world)) = files sample_world"
    using temp_file_released [of long_audio_env "''answer.wav''" riff "''en''" Transcribe False
        sample_world] s(2) u(2) f
    unfolding t by simp
  moreover have "files (snd (transcribe_audio_bytes undecodable_env riff ''answer.wav'' ''en''
        Transcribe False sample_world)) = files sample_world"
    using temp_file_released [of undecodable_env "''answer.wav''" riff "''en''" Transcribe False
        sample_world] s(3) u(3) f
    unfolding t by simp
  moreover have "snd (transcribe_audio_bytes sample_env riff ''answer.xyz'' ''en'' Transcribe False
        sample_world) = sample_world"
    using temp_file_released [of sample_env "''answer.xyz''" riff "''en''" Transcribe False
        sample_world]
    by (simp add: sample_upload_suffix xyz_unsupported)
  moreover have "files (snd (transcribe_audio_bytes unlink_failing_env riff ''answer.wav'' ''en''
        Transcribe False sample_world)) ''/tmp/tmpk3x9_a1b.wav'' \<noteq> None"
    using temp_file_released [of unlink_failing_env "''answer.wav''" riff "''en''" Transcribe False
        sample_world]
    by (simp add: unlink_failing_env_fields sample_upload_suffix wav_supported sample_temp_named)
  ultimately show ?thesis
    using s(1) t(1) u(1) f sample_bytes_outcome long_bytes_outcome undecodable_bytes_outcome
      unlink_failing_env_fields(3)
    by blast
qed

text \<open>
  The claim as stated fails when \<^verbatim>\<open>os.unlink\<close> raises: the operation returns its result
  and the temporary file, which did not exist before, is still there with the payload.
\<close>

theorem temp_file_left_when_unlink_raises:
  "unlink_raises unlink_failing_env ''/tmp/tmpk3x9_a1b.wav''
   \<and> temp_name unlink_failing_env (upload_suffix unlink_failing_env ''answer.wav'') =
       ''/tmp/tmpk3x9_a1b.wav''
   \<and> files sample_world ''/tmp/tmpk3x9_a1b.wav'' = None
   \<and> files (snd (transcribe_audio_bytes unlink_failing_env riff ''answer.wav'' ''en'' Transcribe
        False sample_world)) ''/tmp/tmpk3x9_a1b.wav'' = Some riff"
proof -
  let ?e = unlink_failing_env
  note fields = unlink_failing_env_fields
  have s: "upload_suffix ?e ''answer.wav'' \<in> SUPPORTED_AUDIO_FORMATS"
    by (simp add: fields sample_upload_suffix wav_supported)
  have t: "temp_name ?e (upload_suffix ?e ''answer.wav'') = ''/tmp/tmpk3x9_a1b.wav''"
    by (simp add: fields sample_upload_suffix sample_temp_named)
  have ne: "temp_name ?e (upload_suffix ?e ''answer.wav'') \<noteq> []"
    unfolding t by simp
  have f: "files sample_world ''/tmp/tmpk3x9_a1b.wav'' = None"
    using sample_temp_fresh by (simp add: sample_temp_named)
  have "files (snd (transcribe_audio_bytes ?e riff ''answer.wav'' ''en'' Transcribe
        False sample_world)) ''/tmp/tmpk3x9_a1b.wav'' = Some riff"
    using temp_file_after [OF s ne, of riff "''en''" Transcribe False sample_world] fields(3)
    unfolding t by simp
  with fields(3) t f show ?thesis
    by blast
qed

section \<open>Properties of the audio scoring endpoint\<close>

lemma no_text_detail_not_validation:
  "str_exn e (AudioValidationError problem) \<noteq> no_text_detail"
  by (cases problem) (simp_all add: str_exn_def str_audio_problem_def no_text_detail_def)

lemma transcribe_audio_bytes_calls:
  assumes "transcribe_audio_bytes e audio_bytes filename language tsk inc w = (Inr r, w')"
  shows "calls w' = calls w @ [Asr (temp_name e (upload_suffix e filename))]
     \<and> speaking_available w' = speaking_available w
     \<and> speaking_model_loaded w' = speaking_model_loaded w"
proof -
  from transcribe_audio_bytes_Inr [OF assms] obtain w2
    where t: "transcribe_audio e (temp_name e (upload_suffix e filename)) language tsk inc
               (staged e audio_bytes (upload_suffix e filename) w) = (Inr r, w2)"
      and same: "calls w' = calls w2" "speaking_available w' = speaking_available w2"
        "speaking_model_loaded w' = speaking_model_loaded w2"
    by blast
  from transcribe_audio_Inr [OF t]
  have "calls w2 = calls (staged e audio_bytes (upload_suffix e filename) w)
           @ [Asr (temp_name e (upload_suffix e filename))]"
    and "speaking_available w2 = speaking_available (staged e audio_bytes (upload_suffix e filename) w)"
    and "speaking_model_loaded w2 =
           speaking_model_loaded (staged e audio_bytes (upload_suffix e filename) w)"
    by blast+
  with same show ?thesis
    by (simp add: staged_def)
qed

text \<open>
  Claim C5. In \<^verbatim>\<open>score_speaking_audio\<close>, when the payload is not empty, the
  transcription returns a result and the transcript has fewer than 10 characters after
  stripping, the request ends in the HTTP exception 400 whose detail is the
  could-not-extract-meaningful-text message. No CEFR prediction is made: the only
  model invocation of the request is the recogniser's, on the temporary file, and the
  state of the speaking model is untouched. The rejection comes after the
  transcription and differs from the structural validations, whose details are the
  message of an \<^verbatim>\<open>AudioValidationError\<close> or the empty-file message.
\<close>

theorem short_transcript_rejected:
  assumes "audio_bytes \<noteq> []"
    and "transcribe_audio_bytes e audio_bytes (upload_name filename) language Transcribe False w =
           (Inr result, w1)"
    and "length (strip (tr_text result)) < 10"
  shows "score_speaking_audio e audio_bytes filename language w =
       (Inl (HTTPException 400 no_text_detail), w1)
     \<and> no_text_detail =
         ''Could not extract meaningful text from audio. Please ensure clear speech.''
     \<and> calls w1 = calls w @ [Asr (temp_name e (upload_suffix e (upload_name filename)))]
     \<and> (\<forall>answer_text. Cefr answer_text \<notin> set (calls w1) - set (calls w))
     \<and> speaking_available w1 = speaking_available w
     \<and> speaking_model_loaded w1 = speaking_model_loaded w
     \<and> (\<forall>problem. score_audio_handlers e (AudioValidationError problem) =
           HTTPException 400 (str_exn e (AudioValidationError problem))
         \<and> str_exn e (AudioValidationError problem) \<noteq> no_text_detail)
     \<and> ''Empty audio file'' \<noteq> no_text_detail"
proof -
  have r: "score_speaking_audio e audio_bytes filename language w =
       (Inl (HTTPException 400 no_text_detail), w1)"
    using assms
    by (simp add: score_speaking_audio_def score_speaking_audio_body_def ENABLE_WHISPER_def
        score_audio_handlers_def Let_def)
  note c = transcribe_audio_bytes_calls [OF assms(2)]
  then have "\<forall>answer_text. Cefr answer_text \<notin> set (calls w1) - set (calls w)"
    by auto
  moreover have "\<forall>problem. score_audio_handlers e (AudioValidationError problem) =
           HTTPException 400 (str_exn e (AudioValidationError problem))
         \<and> str_exn e (AudioValidationError problem) \<noteq> no_text_detail"
    by (simp add: score_audio_handlers_def no_text_detail_not_validation)
  moreover have "''Empty audio file'' \<noteq> no_text_detail"
    by (simp add: no_text_detail_def)
  ultimately show ?thesis
    using r c by (simp add: no_text_detail_def)
qed

lemma sample_bytes_calls:
  "calls (snd (transcribe_audio_bytes sample_env riff ''answer.wav'' ''en'' Transcribe False
     sample_world)) = [Asr ''/tmp/tmpk3x9_a1b.wav'']"
proof -
  obtain r w1 where p: "transcribe_audio_bytes sample_env riff ''answer.wav'' ''en'' Transcribe False
     sample_world = (Inr r, w1)"
    using sample_bytes_outcome by (metis prod.collapse)
  from transcribe_audio_bytes_calls [OF p] show ?thesis
    unfolding p by (simp add: sample_upload_suffix sample_temp_named sample_world_def)
qed

theorem short_transcript_rejected_witness:
  "riff \<noteq> []
   \<and> fst (transcribe_audio_bytes sample_env riff (upload_name (Some ''answer.wav'')) ''en''
        Transcribe False sample_world) =
       Inr \<lparr>tr_text = ''Hi.'', tr_language = ''en'', tr_duration = 4,
            tr_segments = [], tr_confidence = None\<rparr>
   \<and> length (strip ''Hi.'') < 10
   \<and> fst (score_speaking_audio sample_env riff (Some ''answer.wav'') ''en'' sample_world) =
       Inl (HTTPException 400
         ''Could not extract meaningful text from audio. Please ensure clear speech.'')
   \<and> calls (snd (score_speaking_audio sample_env riff (Some ''answer.wav'') ''en'' sample_world)) =
       [Asr ''/tmp/tmpk3x9_a1b.wav'']"
proof -
  let ?r = "\<lparr>tr_text = ''Hi.'', tr_language = ''en'', tr_duration = 4,
            tr_segments = [], tr_confidence = None\<rparr>"
  let ?w1 = "snd (transcribe_audio_bytes sample_env riff (upload_name (Some ''answer.wav'')) ''en''
        Transcribe False sample_world)"
  have n: "upload_name (Some ''answer.wav'') = ''answer.wav''"
    by (simp add: upload_name_def)
  have ne: "riff \<noteq> []"
    by (simp add: riff_def)
  have o: "fst (transcribe_audio_bytes sample_env riff (upload_name (Some ''answer.wav'')) ''en''
        Transcribe False sample_world) = Inr ?r"
    unfolding n by (rule sample_bytes_outcome)
  then have p: "transcribe_audio_bytes sample_env riff (upload_name (Some ''answer.wav'')) ''en''
        Transcribe False sample_world = (Inr ?r, ?w1)"
    by (metis prod.collapse)
  have l: "length (strip ''Hi.'') < 10"
    by (simp add: strip_def is_space_def)
  then have l': "length (strip (tr_text ?r)) < 10"
    by simp
  have c: "calls ?w1 = [Asr ''/tmp/tmpk3x9_a1b.wav'']"
    unfolding n by (rule sample_bytes_calls)
  from short_transcript_rejected [OF ne p l']
  have "score_speaking_audio sample_env riff (Some ''answer.wav'') ''en'' sample_world =
       (Inl (HTTPException 400 no_text_detail), ?w1)"
    by blast
  then have "fst (score_speaking_audio sample_env riff (Some ''answer.wav'') ''en'' sample_world) =
       Inl (HTTPException 400
         ''Could not extract meaningful text from audio. Please ensure clear speech.'')"
    and "calls (snd (score_speaking_audio sample_env riff (Some ''answer.wav'') ''en'' sample_world)) =
       [Asr ''/tmp/tmpk3x9_a1b.wav'']"
    using c by (simp_all add: no_text_detail_def)
  with ne o l show ?thesis
    by blast
qed

subsection \<open>The confidence of a transcription\<close>



end
